theory Spec2Isabelle
  imports
    Complex_Main
    "HOL-Library.Char_ord"
    "HOL-Library.List_Lexorder"
    "HOL-Library.Product_Lexorder"
    "HOL-Library.Multiset"
begin

section \<open>Atomic numbers and the chemical formula (G4NCMatHelper.cc)\<close>

text \<open>
  The C++ type \<open>unsigned\<close> is modelled by \<open>nat\<close>: the functions below only compare,
  take remainders of and divide such values, so no operation can wrap around. The one
  conversion from a signed \<open>G4int\<close> to \<open>unsigned\<close> is written out in \<open>unsigned_of_G4int\<close>.
\<close>

definition specialZValueDeuterium :: nat where
  "specialZValueDeuterium = 1001"

definition zIsDeuterium :: "nat \<Rightarrow> bool" where
  "zIsDeuterium z = (z = specialZValueDeuterium)"

definition validNCrystalZValue :: "nat \<Rightarrow> bool" where
  "validNCrystalZValue z = ((z > 0 \<and> z < 120) \<or> zIsDeuterium z)"

definition unsigned_of_G4int :: "int \<Rightarrow> nat" where
  "unsigned_of_G4int z = nat (z mod 2 ^ 32)"

text \<open>The loop \<open>while (b) { tmp = a % b; a = b; b = tmp; } return a;\<close>\<close>

function greatestCommonDivisor :: "nat \<Rightarrow> nat \<Rightarrow> nat" where
  "greatestCommonDivisor a b = (if b \<noteq> 0 then greatestCommonDivisor b (a mod b) else a)"
  by pat_completeness auto
termination
  by (relation "measure snd") auto

declare greatestCommonDivisor.simps [simp del]

text \<open>Rendering of an unsigned value by \<open>operator<<\<close>: decimal digits, no padding.\<close>

definition digit_char :: "nat \<Rightarrow> char" where
  "digit_char d = char_of (48 + d)"

function show_nat :: "nat \<Rightarrow> string" where
  "show_nat n = (if n < 10 then [digit_char n] else show_nat (n div 10) @ [digit_char (n mod 10)])"
  by pat_completeness auto
termination
  by (relation "measure id") auto

declare show_nat.simps [simp del]

text \<open>
  NCrystal exceptions (\<open>NCrystal::Error::Exception\<close> and its subclasses), with their message.
\<close>

datatype nc_error_kind = FileNotFound | DataLoadError | MissingInfo | CalcError | LogicError | BadInput

type_synonym nc_error = "nc_error_kind \<times> string"

text \<open>
  The parts of \<open>NCrystal::Info\<close> that the helper reads. \<open>getComposition\<close> is the sequence
  of (element name, fraction) pairs in iteration order; \<open>atomInfo\<close> is the range
  \<open>atomInfoBegin() .. atomInfoEnd()\<close>.
\<close>

record AtomInfo =
  atomic_number :: nat
  number_per_unit_cell :: nat

record Info =
  hasComposition :: bool
  getComposition :: "(string \<times> real) list"
  hasAtomInfo :: bool
  atomInfo :: "AtomInfo list"
  hasDensity :: bool
  getDensity :: real
  hasTemperature :: bool
  getTemperature :: real

type_synonym ChemicalFormula = "(nat \<times> nat) list"

datatype G4Element = DeuteriumElement | NistElementZ nat | NistElementName string

text \<open>
  Everything the helper calls but which lives outside these sources is a field of the
  environment: the NIST manager of Geant4 (\<open>GetZ\<close>, \<open>GetNistElementNames\<close>, atomic masses),
  the CLHEP unit constants, the rendering of a \<open>double\<close> at precision 16, the NCrystal
  configuration class and factories, and whether assertions are compiled in
  (\<open>ndebug\<close> is \<open>True\<close> when \<open>NDEBUG\<close> is defined: \<open>nc_assert\<close> and \<open>assert\<close> then expand to
  nothing; otherwise a failing \<open>nc_assert\<close> throws \<open>LogicError\<close> and a failing \<open>assert\<close>
  aborts).
\<close>

record ('cfg, 'sc) env =
  ndebug :: bool
  GetZ :: "string \<Rightarrow> int"
  symbol_db :: "string list"
  GetAtomicMassAmu :: "G4Element \<Rightarrow> real"
  show_double16 :: "real \<Rightarrow> string"
  kelvin :: real
  gram_per_cm3 :: real
  atmosphere :: real
  MatCfg_ctor :: "string \<Rightarrow> nc_error + 'cfg"
  toStrCfg :: "'cfg \<Rightarrow> string"
  get_packfact :: "'cfg \<Rightarrow> real"
  libClashDetect :: "nc_error option"
  createScatter :: "'cfg \<Rightarrow> nc_error + 'sc"
  createInfo :: "'cfg \<Rightarrow> nc_error + Info"

subsection \<open>getChemicalFormula\<close>

text \<open>The loop over the atom list: throws on an invalid Z, skips entries with count 0.\<close>

fun collect_atoms :: "AtomInfo list \<Rightarrow> ChemicalFormula \<Rightarrow> nc_error + ChemicalFormula" where
  "collect_atoms [] cf = Inr cf"
| "collect_atoms (a # as) cf =
     (if \<not> validNCrystalZValue (atomic_number a)
      then Inl (BadInput, ''invalid atomic number ('' @ show_nat (atomic_number a) @ '')'')
      else collect_atoms as
             (if number_per_unit_cell a \<noteq> 0
              then cf @ [(atomic_number a, number_per_unit_cell a)] else cf))"

text \<open>\<open>for (i = 1; i < cf.size(); ++i) thegcd = greatestCommonDivisor(thegcd, cf.at(i).second)\<close>\<close>

fun gcd_loop :: "nat \<Rightarrow> ChemicalFormula \<Rightarrow> nat" where
  "gcd_loop g [] = g"
| "gcd_loop g (p # ps) = gcd_loop (greatestCommonDivisor g (snd p)) ps"

text \<open>\<open>for (i = 0; i < cf.size(); ++i) cf.at(i).second /= thegcd\<close>\<close>

fun divide_counts :: "nat \<Rightarrow> ChemicalFormula \<Rightarrow> ChemicalFormula" where
  "divide_counts g [] = []"
| "divide_counts g (p # ps) = (fst p, snd p div g) # divide_counts g ps"

text \<open>\<open>for (i = 0; i+1 < cf.size(); ++i) if (cf.at(i).first == cf.at(i+1).first) throw\<close>\<close>

fun has_duplicate_Z :: "ChemicalFormula \<Rightarrow> bool" where
  "has_duplicate_Z (p # q # ps) = (fst p = fst q \<or> has_duplicate_Z (q # ps))"
| "has_duplicate_Z _ = False"

text \<open>
  The special case at the start of \<open>getChemicalFormula\<close>: a composition with a single
  element whose Z (as found by the NIST manager) is valid. \<open>Some z\<close> is the early return
  with the formula \<open>[(z, 1)]\<close>.
\<close>

definition monoatomic_Z :: "('cfg, 'sc) env \<Rightarrow> Info \<Rightarrow> nat option" where
  "monoatomic_Z env info =
     (if hasComposition info \<and> length (getComposition info) = 1
      then (let z = unsigned_of_G4int (GetZ env (fst (hd (getComposition info))))
            in if validNCrystalZValue z then Some z else None)
      else None)"

definition getChemicalFormula :: "('cfg, 'sc) env \<Rightarrow> Info \<Rightarrow> nc_error + ChemicalFormula" where
  "getChemicalFormula env info =
     (case monoatomic_Z env info of
        Some z \<Rightarrow> Inr [(z, 1)]
      | None \<Rightarrow>
          if \<not> hasAtomInfo info then Inr []
          else if \<not> ndebug env \<and> atomInfo info = []
          then Inl (LogicError, ''Assertion failure: it!=itE'')
          else
            (case collect_atoms (atomInfo info) [] of
               Inl e \<Rightarrow> Inl e
             | Inr cf \<Rightarrow>
                 if cf = []
                 then Inl (BadInput, ''Atomic composition info indicates an empty unit cell.'')
                 else
                   (let thegcd = gcd_loop (snd (hd cf)) (tl cf);
                        cf2 = divide_counts thegcd cf;
                        cf3 = sort cf2
                    in if has_duplicate_Z cf3
                       then Inl (BadInput,
                         ''Atomic composition info has duplicate entries for same atomic number.'')
                       else Inr cf3)))"

subsection \<open>getChemicalFormulaInHillSystemString\<close>

definition any_carbon :: "ChemicalFormula \<Rightarrow> bool" where
  "any_carbon chemform = list_ex (\<lambda>p. fst p = 6) chemform"

text \<open>
  What the loop streams into \<open>symbandcount\<close> before the count: \<open>D\<close> for deuterium, the
  entry of the NIST table, or the fall-back name \<open>Elem<z>\<close> when the table has no entry.
\<close>

definition element_name :: "('cfg, 'sc) env \<Rightarrow> nat \<Rightarrow> string" where
  "element_name env z =
     (if zIsDeuterium z then ''D''
      else if z < length (symbol_db env) then symbol_db env ! z
      else ''Elem<'' @ show_nat z @ ''>'')"

text \<open>
  One iteration of the second loop: the pair (sort key, symbol and count) pushed onto
  \<open>hillsystem_sort\<close> for one entry of the formula.
\<close>

definition hill_entry :: "('cfg, 'sc) env \<Rightarrow> bool \<Rightarrow> nat \<times> nat \<Rightarrow> string \<times> string" where
  "hill_entry env carbon p =
     (let z = fst p; n = snd p;
          sortkey0 = (if carbon \<and> (z = 1 \<or> zIsDeuterium z \<or> z = 6)
                      then (if z = 6 then ''1'' else if z = 1 then ''2'' else ''3'')
                      else []);
          symb = element_name env z;
          sortkey1 = (if \<not> zIsDeuterium z \<and> \<not> z < length (symbol_db env)
                      then ''{'' @ symb else sortkey0);
          sortkey = (if sortkey1 = [] then symb else sortkey1);
          symbandcount = (if n \<noteq> 1 then symb @ show_nat n else symb)
      in (sortkey, symbandcount))"

definition getChemicalFormulaInHillSystemString ::
    "('cfg, 'sc) env \<Rightarrow> ChemicalFormula \<Rightarrow> string" where
  "getChemicalFormulaInHillSystemString env chemform =
     concat (map snd (sort (map (hill_entry env (any_carbon chemform)) chemform)))"


section \<open>Geant4 materials and the two caches (G4NCMatHelper.cc)\<close>

text \<open>
  A \<open>G4Material\<close> registers itself in the global material table when it is constructed
  and its index there (\<open>GetIndex()\<close>) is its position; deleting a material leaves a null
  entry behind. A pointer to a material is therefore modelled by its index in the table,
  and two pointers denote the same object exactly when the indices are equal.
\<close>

datatype G4State = kStateUndefined | kStateSolid | kStateLiquid | kStateGas

datatype G4Amount = NumberOfAtoms int | MassFraction real

datatype G4MaterialOrigin = FromComponents nat | FromBaseMaterial nat

record G4Material =
  mat_name :: string
  mat_density :: real
  mat_origin :: G4MaterialOrigin
  mat_state :: G4State
  mat_temp :: real
  mat_pressure :: real
  mat_elements :: "(G4Element \<times> G4Amount) list"
  mat_chemical_formula :: string

text \<open>
  What can end a call other than a returned pointer: an NCrystal exception, the
  \<open>std::out_of_range\<close> of \<open>vector::at\<close>, or the abort of a failing \<open>assert\<close>.
\<close>

datatype failure = NCException nc_error | StdOutOfRange | AssertAbort

datatype ('cfg) factory_call = CreateScatter 'cfg | CreateInfo 'cfg

text \<open>
  The mutable state: the Geant4 material table, the two function-local static maps, the
  scatter properties attached through the manager, and the errors passed to
  \<open>Manager::handleError\<close>. The field \<open>factory_calls\<close> is instrumentation: it records every
  call of \<open>NCrystal::createScatter\<close> and \<open>NCrystal::createInfo\<close>, in order.
  \<open>getG4MaterialWithCache\<close> holds \<open>cache_mutex\<close> from the lookup to its return, so whole
  calls are the atomic steps of the model.
\<close>

record ('cfg, 'sc) g4state =
  material_table :: "G4Material option list"
  base_cache :: "string \<rightharpoonup> nat"
  cache :: "string \<rightharpoonup> nat"
  scatter_properties :: "(nat \<times> 'sc) list"
  handled_errors :: "(string \<times> nat \<times> nc_error) list"
  factory_calls :: "'cfg factory_call list"

definition initial_state :: "('cfg, 'sc) g4state" where
  "initial_state =
     \<lparr> material_table = [], base_cache = Map.empty, cache = Map.empty,
       scatter_properties = [], handled_errors = [], factory_calls = [] \<rparr>"

text \<open>
  \<open>it = cache.find(key); if (it != cache.end()) { m = table->at(it->second); if (m) return m; }\<close>:
  \<open>Inr (Some i)\<close> is the early return, \<open>Inr None\<close> falls through to construction.
\<close>

definition cached_material ::
    "(string \<rightharpoonup> nat) \<Rightarrow> G4Material option list \<Rightarrow> string \<Rightarrow> failure + nat option" where
  "cached_material c tbl key =
     (case c key of
        None \<Rightarrow> Inr None
      | Some i \<Rightarrow>
          if i < length tbl
          then (case tbl ! i of Some m \<Rightarrow> Inr (Some i) | None \<Rightarrow> Inr None)
          else Inl StdOutOfRange)"

text \<open>\<open>new G4Material(...)\<close>: the new object is appended to the material table.\<close>

definition new_G4Material ::
    "G4Material \<Rightarrow> ('cfg, 'sc) g4state \<Rightarrow> nat \<times> ('cfg, 'sc) g4state" where
  "new_G4Material m s =
     (length (material_table s), s\<lparr>material_table := material_table s @ [Some m]\<rparr>)"

subsection \<open>getBaseG4MaterialWithCache\<close>

text \<open>\<open>ss << (first?"_":"") << ef.first << "_" << ef.second; first = false;\<close>\<close>

fun composition_key :: "('cfg, 'sc) env \<Rightarrow> bool \<Rightarrow> (string \<times> real) list \<Rightarrow> string" where
  "composition_key env first [] = []"
| "composition_key env first (ef # efs) =
     (if first then ''_'' else []) @ fst ef @ ''_'' @ show_double16 env (snd ef)
       @ composition_key env False efs"

definition base_key :: "('cfg, 'sc) env \<Rightarrow> Info \<Rightarrow> ChemicalFormula \<Rightarrow> nc_error + string" where
  "base_key env info chemform =
     (if chemform = []
      then (if \<not> hasComposition info
            then Inl (MissingInfo,
              ''Selected crystal info source lacks info about atomic composition.'')
            else Inr (composition_key env True (getComposition info)))
      else Inr (getChemicalFormulaInHillSystemString env chemform))"

definition G4int_max :: int where
  "G4int_max = 2147483647"

definition G4int_of_unsigned :: "nat \<Rightarrow> int" where
  "G4int_of_unsigned n = (if int n \<le> G4int_max then int n else int n - 2 ^ 32)"

text \<open>
  The loop adding elements by number of atoms. A failing \<open>nc_assert\<close> throws in the middle
  of the loop; the material built so far stays as it is.
\<close>

fun add_formula_elements ::
    "('cfg, 'sc) env \<Rightarrow> ChemicalFormula \<Rightarrow> G4Material \<Rightarrow> failure option \<times> G4Material" where
  "add_formula_elements env [] mat = (None, mat)"
| "add_formula_elements env (p # ps) mat =
     (let elem = (if zIsDeuterium (fst p) then DeuteriumElement else NistElementZ (fst p))
      in if \<not> ndebug env \<and> \<not> int (snd p) \<le> G4int_max
         then (Some (NCException (LogicError,
                 ''Assertion failure: (uint64_t)(itCF->second) <= (uint64_t)std::numeric_limits<G4int>::max()'')),
               mat)
         else add_formula_elements env ps
                (mat\<lparr>mat_elements :=
                   mat_elements mat @ [(elem, NumberOfAtoms (G4int_of_unsigned (snd p)))]\<rparr>))"

text \<open>
  The first loop of the mass-fraction branch: element, mass contribution, running total.
\<close>

fun collect_masses ::
    "('cfg, 'sc) env \<Rightarrow> (string \<times> real) list \<Rightarrow> real \<Rightarrow> (real \<times> G4Element) list
       \<Rightarrow> failure + real \<times> (real \<times> G4Element) list" where
  "collect_masses env [] tot_mass elements = Inr (tot_mass, elements)"
| "collect_masses env (ef # efs) tot_mass elements =
     (let elem = (if fst ef = ''D'' then DeuteriumElement else NistElementName (fst ef));
          mass_contrib = snd ef * GetAtomicMassAmu env elem
      in if \<not> ndebug env \<and> \<not> mass_contrib > 0
         then Inl AssertAbort
         else collect_masses env efs (tot_mass + mass_contrib)
                (elements @ [(mass_contrib, elem)]))"

definition add_fraction_elements ::
    "('cfg, 'sc) env \<Rightarrow> (string \<times> real) list \<Rightarrow> G4Material \<Rightarrow> failure option \<times> G4Material" where
  "add_fraction_elements env composition mat =
     (case collect_masses env composition 0 [] of
        Inl f \<Rightarrow> (Some f, mat)
      | Inr (tot_mass, elements) \<Rightarrow>
          (None, mat\<lparr>mat_elements :=
             mat_elements mat @ map (\<lambda>e. (snd e, MassFraction (fst e / tot_mass))) elements\<rparr>))"

text \<open>\<open>if (!chemform.empty()) { ... by number of atoms ... } else { ... by mass fraction ... }\<close>\<close>

definition add_elements ::
    "('cfg, 'sc) env \<Rightarrow> Info \<Rightarrow> ChemicalFormula \<Rightarrow> G4Material \<Rightarrow> failure option \<times> G4Material" where
  "add_elements env info chemform mat =
     (if chemform \<noteq> []
      then add_formula_elements env chemform mat
      else add_fraction_elements env (getComposition info) mat)"

definition base_material_ctor ::
    "('cfg, 'sc) env \<Rightarrow> Info \<Rightarrow> ChemicalFormula \<Rightarrow> string \<Rightarrow> G4Material" where
  "base_material_ctor env info chemform chemform_str =
     \<lparr> mat_name = ''NCrystalBaseMat::'' @ chemform_str,
       mat_density = 1.0 * gram_per_cm3 env,
       mat_origin = FromComponents
         (if chemform = [] then length (getComposition info) else length chemform),
       mat_state = kStateSolid,
       mat_temp = 293.15 * kelvin env,
       mat_pressure = 1.0 * atmosphere env,
       mat_elements = [],
       mat_chemical_formula = [] \<rparr>"

text \<open>
  Everything after the cache lookup missed. The material enters the table when it is
  constructed, the elements are added to the object in the table, and only at the end is
  the key entered in the cache.
\<close>

definition build_base_material ::
    "('cfg, 'sc) env \<Rightarrow> Info \<Rightarrow> ChemicalFormula \<Rightarrow> string \<Rightarrow> ('cfg, 'sc) g4state
       \<Rightarrow> (failure + nat) \<times> ('cfg, 'sc) g4state" where
  "build_base_material env info chemform chemform_str s =
     (let mat0 = base_material_ctor env info chemform chemform_str;
          idx = length (material_table s);
          (err, mat1) = add_elements env info chemform mat0
      in case err of
           Some f \<Rightarrow> (Inl f, s\<lparr>material_table := material_table s @ [Some mat1]\<rparr>)
         | None \<Rightarrow>
             (let mat2 = (if chemform \<noteq> []
                          then mat1\<lparr>mat_chemical_formula := chemform_str\<rparr> else mat1)
              in (Inr idx,
                  s\<lparr>material_table := material_table s @ [Some mat2],
                    base_cache := (base_cache s)(chemform_str \<mapsto> idx)\<rparr>)))"

definition getBaseG4MaterialWithCache ::
    "('cfg, 'sc) env \<Rightarrow> Info \<Rightarrow> ('cfg, 'sc) g4state
       \<Rightarrow> (failure + nat) \<times> ('cfg, 'sc) g4state" where
  "getBaseG4MaterialWithCache env info s =
     (case getChemicalFormula env info of
        Inl e \<Rightarrow> (Inl (NCException e), s)
      | Inr chemform \<Rightarrow>
          (case base_key env info chemform of
             Inl e \<Rightarrow> (Inl (NCException e), s)
           | Inr chemform_str \<Rightarrow>
               (case cached_material (base_cache s) (material_table s) chemform_str of
                  Inl f \<Rightarrow> (Inl f, s)
                | Inr (Some cachedmat) \<Rightarrow> (Inr cachedmat, s)
                | Inr None \<Rightarrow> build_base_material env info chemform chemform_str s)))"

subsection \<open>getG4MaterialWithCache\<close>

definition derived_material_ctor ::
    "('cfg, 'sc) env \<Rightarrow> 'cfg \<Rightarrow> Info \<Rightarrow> nat \<Rightarrow> G4Material" where
  "derived_material_ctor env cfg info matBase =
     \<lparr> mat_name = ''NCrystal::'' @ toStrCfg env cfg,
       mat_density = get_packfact env cfg * getDensity info * gram_per_cm3 env,
       mat_origin = FromBaseMaterial matBase,
       mat_state = kStateSolid,
       mat_temp = (if hasTemperature info then getTemperature info * kelvin env
                   else 293.15 * kelvin env),
       mat_pressure = 1.0 * atmosphere env,
       mat_elements = [],
       mat_chemical_formula = [] \<rparr>"

text \<open>Everything after the lookup of the full key missed.\<close>

definition build_material ::
    "('cfg, 'sc) env \<Rightarrow> 'cfg \<Rightarrow> ('cfg, 'sc) g4state
       \<Rightarrow> (failure + nat) \<times> ('cfg, 'sc) g4state" where
  "build_material env cfg s =
     (case libClashDetect env of
        Some e \<Rightarrow> (Inl (NCException e), s)
      | None \<Rightarrow>
          (let s1 = s\<lparr>factory_calls := factory_calls s @ [CreateScatter cfg]\<rparr>
           in case createScatter env cfg of
                Inl e \<Rightarrow> (Inl (NCException e), s1)
              | Inr scatter \<Rightarrow>
                  (let s2 = s1\<lparr>factory_calls := factory_calls s1 @ [CreateInfo cfg]\<rparr>
                   in case createInfo env cfg of
                        Inl e \<Rightarrow> (Inl (NCException e), s2)
                      | Inr info \<Rightarrow>
                          if \<not> hasDensity info
                          then (Inl (NCException (MissingInfo,
                                  ''Selected crystal info source lacks info about material density.'')),
                                s2)
                          else
                            (case getBaseG4MaterialWithCache env info s2 of
                               (Inl f, s3) \<Rightarrow> (Inl f, s3)
                             | (Inr matBase, s3) \<Rightarrow>
                                 (let (idx, s4) =
                                        new_G4Material (derived_material_ctor env cfg info matBase) s3
                                  in (Inr idx,
                                      s4\<lparr>scatter_properties :=
                                            scatter_properties s4 @ [(idx, scatter)],
                                         cache := (cache s4)(toStrCfg env cfg \<mapsto> idx)\<rparr>))))))"

definition getG4MaterialWithCache ::
    "('cfg, 'sc) env \<Rightarrow> 'cfg \<Rightarrow> ('cfg, 'sc) g4state
       \<Rightarrow> (failure + nat) \<times> ('cfg, 'sc) g4state" where
  "getG4MaterialWithCache env cfg s =
     (case cached_material (cache s) (material_table s) (toStrCfg env cfg) of
        Inl f \<Rightarrow> (Inl f, s)
      | Inr (Some cachedmat) \<Rightarrow> (Inr cachedmat, s)
      | Inr None \<Rightarrow> build_material env cfg s)"

subsection \<open>G4NCrystal::createMaterial\<close>

text \<open>
  A call either returns a pointer (\<open>None\<close> is the null pointer) or is left by an
  exception that no handler of the function catches.
\<close>

datatype call_result = Returned "nat option" | Escaped failure

definition handleError ::
    "string \<Rightarrow> nat \<Rightarrow> nc_error \<Rightarrow> ('cfg, 'sc) g4state \<Rightarrow> ('cfg, 'sc) g4state" where
  "handleError origin code e s = s\<lparr>handled_errors := handled_errors s @ [(origin, code, e)]\<rparr>"

definition catch_nc_exception ::
    "(failure + nat) \<times> ('cfg, 'sc) g4state \<Rightarrow> call_result \<times> ('cfg, 'sc) g4state" where
  "catch_nc_exception r =
     (case r of
        (Inr mat, s) \<Rightarrow> (Returned (Some mat), s)
      | (Inl (NCException e), s) \<Rightarrow>
          (Returned None, handleError ''G4NCrystal::createMaterial'' 101 e s)
      | (Inl f, s) \<Rightarrow> (Escaped f, s))"

definition createMaterial_MatCfg ::
    "('cfg, 'sc) env \<Rightarrow> 'cfg \<Rightarrow> ('cfg, 'sc) g4state \<Rightarrow> call_result \<times> ('cfg, 'sc) g4state" where
  "createMaterial_MatCfg env cfg s = catch_nc_exception (getG4MaterialWithCache env cfg s)"

definition createMaterial ::
    "('cfg, 'sc) env \<Rightarrow> string \<Rightarrow> ('cfg, 'sc) g4state \<Rightarrow> call_result \<times> ('cfg, 'sc) g4state" where
  "createMaterial env cfgstr s =
     catch_nc_exception
       (case MatCfg_ctor env cfgstr of
          Inl e \<Rightarrow> (Inl (NCException e), s)
        | Inr cfg \<Rightarrow> getG4MaterialWithCache env cfg s)"

definition createMaterial_G4String ::
    "('cfg, 'sc) env \<Rightarrow> string \<Rightarrow> ('cfg, 'sc) g4state \<Rightarrow> call_result \<times> ('cfg, 'sc) g4state" where
  "createMaterial_G4String env cfgstr s = createMaterial env cfgstr s"

text \<open>A sequence of requests, one after the other, with the results in order.\<close>

fun requests ::
    "('cfg, 'sc) env \<Rightarrow> 'cfg list \<Rightarrow> ('cfg, 'sc) g4state
       \<Rightarrow> (failure + nat) list \<times> ('cfg, 'sc) g4state" where
  "requests env [] s = ([], s)"
| "requests env (cfg # cfgs) s =
     (let (r, s1) = getG4MaterialWithCache env cfg s;
          (rs, s2) = requests env cfgs s1
      in (r # rs, s2))"


section \<open>Names of the built-in plugins (CMakeLists.txt)\<close>

text \<open>
  The loop \<open>foreach(pluginentry ${BUILTIN_PLUGIN_LIST})\<close> registers plugins at configuration
  time. A CMake list is modelled by a list of strings (plugin names are identifiers and
  contain no list separator). What the loop takes from outside for one entry are the
  fields of \<open>pluginentry\<close>: the outcome of the tests on the entry and on the file system,
  the first line of \<open>ncplugin_name.txt\<close>, and what the \<open>CMakeLists.txt\<close> of the plugin
  leaves in the variables of the calling scope. \<open>message(FATAL_ERROR ...)\<close> ends the
  configuration: it is the error result.
\<close>

definition is_space :: "char \<Rightarrow> bool" where
  "is_space c = (c \<in> set [CHR '' '', CHR 0x09, CHR 0x0A, CHR 0x0B, CHR 0x0C, CHR 0x0D])"

text \<open>\<open>string(STRIP ...)\<close>: leading and trailing whitespace removed.\<close>

definition cmake_strip :: "string \<Rightarrow> string" where
  "cmake_strip s = rev (dropWhile is_space (rev (dropWhile is_space s)))"

text \<open>\<open>string(TOLOWER ...)\<close>: the ASCII letters A to Z are mapped to a to z.\<close>

definition tolower_char :: "char \<Rightarrow> char" where
  "tolower_char c =
     (if CHR ''A'' \<le> c \<and> c \<le> CHR ''Z'' then char_of (of_char c + (32::nat)) else c)"

definition cmake_tolower :: "string \<Rightarrow> string" where
  "cmake_tolower s = map tolower_char s"

definition toupper_char :: "char \<Rightarrow> char" where
  "toupper_char c =
     (if CHR ''a'' \<le> c \<and> c \<le> CHR ''z'' then char_of (of_char c - (32::nat)) else c)"

text \<open>
  \<open>if(NOT <variable>)\<close> holds when the variable is not defined or its value is a false
  constant: empty, \<open>0\<close>, \<open>OFF\<close>, \<open>NO\<close>, \<open>FALSE\<close>, \<open>N\<close>, \<open>IGNORE\<close>, \<open>NOTFOUND\<close>, or ending in
  \<open>-NOTFOUND\<close>, in any case of the letters.
\<close>

definition cmake_false_constant :: "string \<Rightarrow> bool" where
  "cmake_false_constant v =
     (let u = map toupper_char v
      in u \<in> set [Nil, ''0'', ''OFF'', ''NO'', ''FALSE'', ''N'', ''IGNORE'', ''NOTFOUND'']
         \<or> (9 \<le> length u \<and> drop (length u - 9) u = ''-NOTFOUND''))"

datatype cmake_fatal_error =
    InvalidEntrySyntax
  | FetchContentFailed
  | LocalPathNotAbsolute
  | NoProperSources
  | MultiplePluginsSameName string
  | ProblemAddingPlugin
  | DatafileNameInvalid

text \<open>
  \<open>pluginentry_islocal\<close>: the entry contains no colon. \<open>remote_syntax_ok\<close>: splitting a
  remote entry at \<open>::\<close> gives one or two parts. \<open>fetch_ok\<close>: \<open>FetchContent_Populate\<close> gets
  the sources of a remote entry. \<open>has_proper_sources\<close>: \<open>ncplugin_name.txt\<close> and
  \<open>CMakeLists.txt\<close> exist. \<open>subdirectory_NCPLUGIN_SRCFILES\<close> and
  \<open>subdirectory_NCPlugin_NAME\<close>: the values that \<open>add_subdirectory\<close> leaves in these two
  variables when the plugin sets them in the parent scope (\<open>NCPLUGIN_SRCFILES\<close> is unset
  before the call, \<open>NCPlugin_NAME\<close> holds the name read from the file).
  \<open>datafile_names_ok\<close>: every data file of the plugin is named
  \<open>ncplugin-<name>_*.ncmat\<close>.
\<close>

record pluginentry =
  pluginentry_islocal :: bool
  remote_syntax_ok :: bool
  fetch_ok :: bool
  is_absolute :: bool
  has_proper_sources :: bool
  ncplugin_name_txt :: string
  subdirectory_NCPLUGIN_SRCFILES :: "string option"
  subdirectory_NCPlugin_NAME :: "string option"
  datafile_names_ok :: bool

record plugin_lists =
  all_plugin_names_lc :: "string list"
  NCrystal_builtin_plugin_names :: "string list"

definition initial_plugin_lists :: "bool \<Rightarrow> plugin_lists" where
  "initial_plugin_lists BUILD_EXTRA =
     \<lparr> all_plugin_names_lc =
         [''stdscat'', ''stdabs'', ''stdncmat''] @ (if BUILD_EXTRA then [''nxslaz''] else []),
       NCrystal_builtin_plugin_names = [] \<rparr>"

definition NCPlugin_NAME :: "pluginentry \<Rightarrow> string" where
  "NCPlugin_NAME e = cmake_strip (ncplugin_name_txt e)"

definition NCPlugin_NAME_lowercase :: "pluginentry \<Rightarrow> string" where
  "NCPlugin_NAME_lowercase e = cmake_tolower (NCPlugin_NAME e)"

text \<open>The variable \<open>NCPlugin_NAME\<close> after \<open>add_subdirectory\<close>.\<close>

definition NCPlugin_NAME_after_subdirectory :: "pluginentry \<Rightarrow> string" where
  "NCPlugin_NAME_after_subdirectory e =
     (case subdirectory_NCPlugin_NAME e of None \<Rightarrow> NCPlugin_NAME e | Some n \<Rightarrow> n)"

text \<open>The body of the loop for one entry.\<close>

definition add_plugin :: "plugin_lists \<Rightarrow> pluginentry \<Rightarrow> cmake_fatal_error + plugin_lists" where
  "add_plugin st e =
     (if \<not> pluginentry_islocal e \<and> \<not> remote_syntax_ok e then Inl InvalidEntrySyntax
      else if \<not> pluginentry_islocal e \<and> \<not> fetch_ok e then Inl FetchContentFailed
      else if pluginentry_islocal e \<and> \<not> is_absolute e then Inl LocalPathNotAbsolute
      else if \<not> has_proper_sources e then Inl NoProperSources
      else if NCPlugin_NAME_lowercase e \<in> set (all_plugin_names_lc st)
      then Inl (MultiplePluginsSameName (NCPlugin_NAME e))
      else if (case subdirectory_NCPLUGIN_SRCFILES e of
                 None \<Rightarrow> True | Some v \<Rightarrow> cmake_false_constant v)
              \<or> cmake_false_constant (NCPlugin_NAME_after_subdirectory e)
      then Inl ProblemAddingPlugin
      else if \<not> datafile_names_ok e then Inl DatafileNameInvalid
      else Inr \<lparr> all_plugin_names_lc = all_plugin_names_lc st @ [NCPlugin_NAME_lowercase e],
                 NCrystal_builtin_plugin_names =
                   NCrystal_builtin_plugin_names st @ [NCPlugin_NAME_after_subdirectory e] \<rparr>)"

fun add_plugins :: "plugin_lists \<Rightarrow> pluginentry list \<Rightarrow> cmake_fatal_error + plugin_lists" where
  "add_plugins st [] = Inr st"
| "add_plugins st (e # es) =
     (case add_plugin st e of Inl err \<Rightarrow> Inl err | Inr st' \<Rightarrow> add_plugins st' es)"

definition configure_plugins :: "bool \<Rightarrow> pluginentry list \<Rightarrow> cmake_fatal_error + plugin_lists" where
  "configure_plugins BUILD_EXTRA BUILTIN_PLUGIN_LIST =
     add_plugins (initial_plugin_lists BUILD_EXTRA) BUILTIN_PLUGIN_LIST"


section \<open>Notions used to state the properties\<close>

text \<open>
  The entries of the atom list that \<open>getChemicalFormula\<close> keeps: those with a non-zero
  number per unit cell, as (atomic number, count) pairs in the order of the list.
\<close>

definition counted_atoms :: "AtomInfo list \<Rightarrow> ChemicalFormula" where
  "counted_atoms as =
     map (\<lambda>a. (atomic_number a, number_per_unit_cell a))
       (filter (\<lambda>a. number_per_unit_cell a \<noteq> 0) as)"

text \<open>
  The Hill system in words, with the fall-back of the code. An element has a symbol when
  it is deuterium or the table of element symbols has an entry for it; an element without
  a symbol is in the last class, whatever it is. Of the elements with a symbol, carbon is
  in the first class, hydrogen in the second and deuterium in the third when the formula
  contains carbon, and every other element, or every element when there is no carbon, is
  in the fourth. Within the fourth class and within the last class the order is that of
  the names (compared as \<open>std::string\<close> compares them, byte by byte). \<open>render_entry\<close> is
  the text of one element: its name, followed by the count unless the count is 1.
\<close>

definition has_symbol :: "('cfg, 'sc) env \<Rightarrow> nat \<Rightarrow> bool" where
  "has_symbol env z = (zIsDeuterium z \<or> z < length (symbol_db env))"

definition hill_class :: "('cfg, 'sc) env \<Rightarrow> bool \<Rightarrow> nat \<Rightarrow> nat" where
  "hill_class env carbon z =
     (if \<not> has_symbol env z then 4
      else if carbon
      then (if z = 6 then 0 else if z = 1 then 1 else if zIsDeuterium z then 2 else 3)
      else 3)"

definition hill_precedes :: "('cfg, 'sc) env \<Rightarrow> bool \<Rightarrow> nat \<Rightarrow> nat \<Rightarrow> bool" where
  "hill_precedes env carbon x y =
     (hill_class env carbon x < hill_class env carbon y
      \<or> (hill_class env carbon x = hill_class env carbon y
          \<and> (3 \<le> hill_class env carbon x \<longrightarrow> element_name env x \<le> element_name env y)))"

definition render_entry :: "('cfg, 'sc) env \<Rightarrow> nat \<times> nat \<Rightarrow> string" where
  "render_entry env p = element_name env (fst p) @ (if snd p = 1 then [] else show_nat (snd p))"

text \<open>An element symbol begins with a capital letter.\<close>

definition starts_with_letter :: "string \<Rightarrow> bool" where
  "starts_with_letter s =
     (case s of [] \<Rightarrow> False | c # cs \<Rightarrow> CHR ''A'' \<le> c \<and> c \<le> CHR ''Z'')"

section \<open>A concrete environment\<close>

text \<open>
  Sample values for the parts that lie outside the sources, to run the model on concrete
  inputs: the first entries of the table of element symbols (entry \<open>z\<close> is the symbol of
  the element with atomic number \<open>z\<close>), configurations that are strings whose canonical
  form drops the blanks, and a small material database.
\<close>

definition sample_symbol_db :: "string list" where
  "sample_symbol_db =
     ['''', ''H'', ''He'', ''Li'', ''Be'', ''B'', ''C'', ''N'', ''O'', ''F'', ''Ne'',
      ''Na'', ''Mg'', ''Al'', ''Si'', ''P'', ''S'', ''Cl'', ''Ar'', ''K'', ''Ca'',
      ''Sc'', ''Ti'', ''V'', ''Cr'', ''Mn'', ''Fe'', ''Co'', ''Ni'', ''Cu'', ''Zn'']"

definition sample_GetZ :: "string \<Rightarrow> int" where
  "sample_GetZ nm =
     (if nm = ''H'' then 1 else if nm = ''C'' then 6 else if nm = ''O'' then 8
      else if nm = ''Al'' then 13 else 0)"

definition sample_info :: "(string \<times> real) list \<Rightarrow> (nat \<times> nat) list \<Rightarrow> Info" where
  "sample_info composition atoms =
     \<lparr> hasComposition = (composition \<noteq> []), getComposition = composition,
       hasAtomInfo = (atoms \<noteq> []),
       atomInfo = map (\<lambda>p. \<lparr> atomic_number = fst p, number_per_unit_cell = snd p \<rparr>) atoms,
       hasDensity = True, getDensity = 2.7,
       hasTemperature = False, getTemperature = 0 \<rparr>"

definition sample_toStrCfg :: "string \<Rightarrow> string" where
  "sample_toStrCfg cfg = filter (\<lambda>c. c \<noteq> CHR '' '') cfg"

definition sample_createInfo :: "string \<Rightarrow> nc_error + Info" where
  "sample_createInfo cfg =
     (let key = sample_toStrCfg cfg
      in if key = ''Al_sg225.ncmat'' \<or> key = ''Al_sg225.ncmat;dcutoff=1.5''
         then Inr (sample_info [(''Al'', 1)] [(13, 4)])
         else if key = ''Al_sg225.ncmat;temp=293.15''
         then Inr ((sample_info [(''Al'', 1)] [(13, 4)])
                     \<lparr>hasTemperature := True, getTemperature := 293.15\<rparr>)
         else if key = ''Al2O3_sg167_Corundum.ncmat''
         then Inr (sample_info [(''Al'', 0.4), (''O'', 0.6)] [(13, 12), (8, 18)])
         else if key = ''nodensity.ncmat''
         then Inr ((sample_info [(''Al'', 1)] [(13, 4)])\<lparr>hasDensity := False\<rparr>)
         else if key = ''AlO_nofraction.ncmat''
         then Inr (sample_info [(''Al'', 1), (''O'', 0)] [])
         else Inl (FileNotFound, ''Could not find input file''))"

definition sample_createScatter :: "string \<Rightarrow> nc_error + string" where
  "sample_createScatter cfg =
     (if sample_toStrCfg cfg = ''Al_sg225.ncmat;dcutoff=999''
      then Inl (BadInput, ''dcutoff must be at most 1e5'')
      else case sample_createInfo cfg of
             Inl e \<Rightarrow> Inl e
           | Inr info \<Rightarrow> Inr (''Scatter:'' @ sample_toStrCfg cfg))"

definition sample_env :: "(string, string) env" where
  "sample_env =
     \<lparr> ndebug = True, GetZ = sample_GetZ, symbol_db = sample_symbol_db,
       GetAtomicMassAmu = (\<lambda>e. 1), show_double16 = (\<lambda>x. ''?''),
       kelvin = 1, gram_per_cm3 = 1, atmosphere = 1,
       MatCfg_ctor = (\<lambda>s. if s = [] then Inl (BadInput, ''empty configuration'') else Inr s),
       toStrCfg = sample_toStrCfg, get_packfact = (\<lambda>c. 1),
       libClashDetect = None,
       createScatter = sample_createScatter,
       createInfo = sample_createInfo \<rparr>"

text \<open>The same environment for a build in which \<open>assert\<close> and \<open>nc_assert\<close> are compiled in.\<close>

definition debug_env :: "(string, string) env" where
  "debug_env = sample_env\<lparr>ndebug := False\<rparr>"

section \<open>Notions used to state the uniqueness of plugin names\<close>

text \<open>
  Two strings are equal ignoring case when they have the same length and agree position
  by position, up to the case of the ASCII letters: the codes of a capital letter and its
  small letter differ by 32.
\<close>

definition same_letter :: "char \<Rightarrow> char \<Rightarrow> bool" where
  "same_letter x y =
     (x = y
      \<or> (CHR ''A'' \<le> x \<and> x \<le> CHR ''Z'' \<and> (of_char y :: nat) = of_char x + 32)
      \<or> (CHR ''A'' \<le> y \<and> y \<le> CHR ''Z'' \<and> (of_char x :: nat) = of_char y + 32))"

definition equal_ignoring_case :: "string \<Rightarrow> string \<Rightarrow> bool" where
  "equal_ignoring_case a b = list_all2 same_letter a b"

text \<open>
  A local plugin in good order with a given first line of \<open>ncplugin_name.txt\<close>, whose
  \<open>CMakeLists.txt\<close> provides source files and leaves the name as it is.
\<close>

definition sample_plugin :: "string \<Rightarrow> pluginentry" where
  "sample_plugin name_txt =
     \<lparr> pluginentry_islocal = True, remote_syntax_ok = True, fetch_ok = True,
       is_absolute = True, has_proper_sources = True, ncplugin_name_txt = name_txt,
       subdirectory_NCPLUGIN_SRCFILES = Some ''src/NCPluginFactory.cc'',
       subdirectory_NCPlugin_NAME = None, datafile_names_ok = True \<rparr>"

section \<open>Notions used to state the properties of the caches\<close>

text \<open>
  Every index stored in one of the two caches lies inside the material table. This holds
  initially and after every request, since the table only grows.
\<close>

definition caches_in_range :: "('cfg, 'sc) g4state \<Rightarrow> bool" where
  "caches_in_range s =
     ((\<forall>i\<in>ran (cache s). i < length (material_table s))
      \<and> (\<forall>i\<in>ran (base_cache s). i < length (material_table s)))"

text \<open>
  The condition of the \<open>assert\<close> in the mass-fraction loop, for one info object and for
  everything the info factory can return.
\<close>

definition composition_masses_positive :: "('cfg, 'sc) env \<Rightarrow> Info \<Rightarrow> bool" where
  "composition_masses_positive env info =
     (\<forall>ef\<in>set (getComposition info).
        0 < snd ef * GetAtomicMassAmu env
              (if fst ef = ''D'' then DeuteriumElement else NistElementName (fst ef)))"

definition no_assert_abort :: "('cfg, 'sc) env \<Rightarrow> bool" where
  "no_assert_abort env =
     (ndebug env
      \<or> (\<forall>cfg info. createInfo env cfg = Inr info \<longrightarrow> composition_masses_positive env info))"

text \<open>
  The base materials for a narrow key that are in the material table: the objects that
  \<open>getBaseG4MaterialWithCache\<close> constructed for that key.
\<close>

definition is_base_material_for :: "string \<Rightarrow> G4Material option \<Rightarrow> bool" where
  "is_base_material_for k e =
     (case e of
        None \<Rightarrow> False
      | Some m \<Rightarrow> mat_name m = ''NCrystalBaseMat::'' @ k
                  \<and> (case mat_origin m of FromComponents n \<Rightarrow> True | FromBaseMaterial b \<Rightarrow> False))"

definition base_constructions :: "string \<Rightarrow> ('cfg, 'sc) g4state \<Rightarrow> nat" where
  "base_constructions k s = length (filter (is_base_material_for k) (material_table s))"

text \<open>
  The derived materials for a full key that are in the material table: the objects that
  \<open>getG4MaterialWithCache\<close> constructed for that key.
\<close>

definition is_derived_material_for :: "string \<Rightarrow> G4Material option \<Rightarrow> bool" where
  "is_derived_material_for key e =
     (case e of
        None \<Rightarrow> False
      | Some m \<Rightarrow> mat_name m = ''NCrystal::'' @ key
                  \<and> (case mat_origin m of FromComponents n \<Rightarrow> False | FromBaseMaterial b \<Rightarrow> True))"

definition derived_constructions :: "string \<Rightarrow> ('cfg, 'sc) g4state \<Rightarrow> nat" where
  "derived_constructions key s =
     length (filter (is_derived_material_for key) (material_table s))"

text \<open>
  Three abbreviations for the proofs: appending to the record of factory calls; the part
  of \<open>build_material\<close> before the base material is looked up, which depends on the
  configuration alone (the error and the calls made, or the scatter and info objects);
  and its last three statements, which enter the derived material in the table, attach
  the scatter object and fill the cache.
\<close>

definition log_calls :: "'cfg factory_call list \<Rightarrow> ('cfg, 'sc) g4state \<Rightarrow> ('cfg, 'sc) g4state" where
  "log_calls xs s = s\<lparr>factory_calls := factory_calls s @ xs\<rparr>"

definition factory_stage ::
    "('cfg, 'sc) env \<Rightarrow> 'cfg \<Rightarrow> nc_error \<times> 'cfg factory_call list + 'sc \<times> Info" where
  "factory_stage env cfg =
     (case libClashDetect env of
        Some e \<Rightarrow> Inl (e, [])
      | None \<Rightarrow>
          (case createScatter env cfg of
             Inl e \<Rightarrow> Inl (e, [CreateScatter cfg])
           | Inr scatter \<Rightarrow>
               (case createInfo env cfg of
                  Inl e \<Rightarrow> Inl (e, [CreateScatter cfg, CreateInfo cfg])
                | Inr info \<Rightarrow>
                    if \<not> hasDensity info
                    then Inl ((MissingInfo,
                           ''Selected crystal info source lacks info about material density.''),
                          [CreateScatter cfg, CreateInfo cfg])
                    else Inr (scatter, info))))"

definition register_material ::
    "('cfg, 'sc) env \<Rightarrow> 'cfg \<Rightarrow> 'sc \<Rightarrow> Info \<Rightarrow> nat \<Rightarrow> ('cfg, 'sc) g4state
       \<Rightarrow> ('cfg, 'sc) g4state" where
  "register_material env cfg scatter info b s3 =
     s3\<lparr>material_table := material_table s3 @ [Some (derived_material_ctor env cfg info b)],
        scatter_properties := scatter_properties s3 @ [(length (material_table s3), scatter)],
        cache := (cache s3)(toStrCfg env cfg \<mapsto> length (material_table s3))\<rparr>"

section \<open>Properties of the chemical formula\<close>

lemma greatestCommonDivisor_gcd: "greatestCommonDivisor a b = gcd a b"
proof (induction a b rule: greatestCommonDivisor.induct)
  case (1 a b)
  show ?case
  proof (cases "b = 0")
    case True
    then show ?thesis by (simp add: greatestCommonDivisor.simps)
  next
    case False
    then have "greatestCommonDivisor a b = gcd b (a mod b)"
      using 1 by (simp add: greatestCommonDivisor.simps)
    also have "\<dots> = gcd a b"
      by (simp add: gcd.commute gcd_red_nat[symmetric])
    finally show ?thesis .
  qed
qed

lemma gcd_loop_Gcd: "gcd_loop g ps = Gcd (insert g (snd ` set ps))"
  by (induction ps arbitrary: g) (auto simp: greatestCommonDivisor_gcd gcd.assoc insert_commute)

lemma divide_counts_map: "divide_counts g cf = map (\<lambda>p. (fst p, snd p div g)) cf"
  by (induction cf) auto

lemma collect_atoms_valid:
  "\<forall>a\<in>set as. validNCrystalZValue (atomic_number a) \<Longrightarrow>
     collect_atoms as cf = Inr (cf @ counted_atoms as)"
  by (induction as arbitrary: cf) (auto simp: counted_atoms_def)

lemma collect_atoms_invalid:
  "\<exists>a\<in>set as. \<not> validNCrystalZValue (atomic_number a) \<Longrightarrow>
     \<exists>msg. collect_atoms as cf = Inl (BadInput, msg)"
  by (induction as arbitrary: cf) auto

lemma counted_atoms_pos: "p \<in> set (counted_atoms as) \<Longrightarrow> snd p > 0"
  by (auto simp: counted_atoms_def)

lemma sorted_fst: "sorted (xs :: (nat \<times> nat) list) \<Longrightarrow> sorted (map fst xs)"
  by (induction xs) (auto simp: less_eq_prod_def)

lemma has_duplicate_Z_iff:
  "sorted (map fst xs) \<Longrightarrow> has_duplicate_Z xs \<longleftrightarrow> \<not> distinct (map fst xs)"
proof (induction xs rule: has_duplicate_Z.induct)
  case (1 p q ps)
  have "fst p \<in> fst ` set ps \<Longrightarrow> fst p = fst q"
    using "1.prems" by force
  with 1 show ?case by auto
qed simp_all

lemma Gcd_div_Gcd:
  fixes A :: "nat set"
  assumes "A \<noteq> {}" "0 \<notin> A"
  shows "Gcd ((\<lambda>n. n div Gcd A) ` A) = 1"
proof -
  let ?g = "Gcd A"
  let ?d = "Gcd ((\<lambda>n. n div ?g) ` A)"
  have not_zero: "\<not> A \<subseteq> {0}" using assms by auto
  then have "?g \<noteq> 0" using Gcd_0_iff[of A] by blast
  then have g_pos: "?g > 0" by (simp only: neq0_conv)
  have "?d * ?g dvd n" if "n \<in> A" for n
  proof -
    have "?g dvd n" using that by (rule Gcd_dvd)
    then have n: "n = (n div ?g) * ?g" by simp
    have "?d dvd n div ?g" using that by (intro Gcd_dvd) auto
    then have "?d * ?g dvd (n div ?g) * ?g" by (rule mult_dvd_mono) simp
    with n show ?thesis by simp
  qed
  then have "?d * ?g dvd ?g" by (rule Gcd_greatest)
  with not_zero g_pos show ?thesis by simp
qed

lemma reduce_formula_Gcd:
  assumes "cf \<noteq> []" "\<forall>p\<in>set cf. snd p > 0"
  shows "gcd_loop (snd (hd cf)) (tl cf) = Gcd (snd ` set cf)"
    and "Gcd (snd ` set (divide_counts (Gcd (snd ` set cf)) cf)) = 1"
proof -
  from assms(1) obtain p ps where cf: "cf = p # ps" by (cases cf) auto
  show "gcd_loop (snd (hd cf)) (tl cf) = Gcd (snd ` set cf)"
    by (simp add: cf gcd_loop_Gcd)
  have "0 \<notin> snd ` set cf" using assms(2) by force
  moreover have "snd ` set cf \<noteq> {}" using assms(1) by simp
  ultimately have "Gcd ((\<lambda>n. n div Gcd (snd ` set cf)) ` (snd ` set cf)) = 1"
    by (intro Gcd_div_Gcd) auto
  moreover have "snd ` set (divide_counts g cf) = (\<lambda>n. n div g) ` (snd ` set cf)" for g
    by (force simp: divide_counts_map)
  ultimately show "Gcd (snd ` set (divide_counts (Gcd (snd ` set cf)) cf)) = 1"
    by simp
qed

lemma getChemicalFormula_main:
  assumes mono: "monoatomic_Z env info = None"
    and atom: "hasAtomInfo info"
    and dbg: "ndebug env \<or> atomInfo info \<noteq> []"
    and valid: "\<forall>a\<in>set (atomInfo info). validNCrystalZValue (atomic_number a)"
    and ne: "counted_atoms (atomInfo info) \<noteq> []"
  shows "getChemicalFormula env info =
     (if \<not> distinct (map fst (counted_atoms (atomInfo info)))
      then Inl (BadInput,
             ''Atomic composition info has duplicate entries for same atomic number.'')
      else Inr (sort (divide_counts (Gcd (snd ` set (counted_atoms (atomInfo info))))
                  (counted_atoms (atomInfo info)))))"
proof -
  let ?cf = "counted_atoms (atomInfo info)"
  let ?cf3 = "sort (divide_counts (Gcd (snd ` set ?cf)) ?cf)"
  have g: "gcd_loop (snd (hd ?cf)) (tl ?cf) = Gcd (snd ` set ?cf)"
    using ne counted_atoms_pos by (intro reduce_formula_Gcd(1)) auto
  have "map fst (divide_counts g cf) = map fst cf" for g cf
    by (simp add: divide_counts_map)
  then have "mset (map fst ?cf3) = mset (map fst ?cf)"
    by (metis mset_map mset_sort)
  then have d: "distinct (map fst ?cf3) \<longleftrightarrow> distinct (map fst ?cf)"
    by (metis mset_eq_imp_distinct_iff)
  have "sorted (map fst ?cf3)" by (intro sorted_fst) simp
  then have "has_duplicate_Z ?cf3 \<longleftrightarrow> \<not> distinct (map fst ?cf)"
    using d by (simp add: has_duplicate_Z_iff)
  then show ?thesis
    using mono atom dbg ne
    by (auto simp: getChemicalFormula_def collect_atoms_valid[OF valid] g Let_def)
qed

lemma reduced_formula_good:
  assumes "counted_atoms as \<noteq> []" "distinct (map fst (counted_atoms as))"
  shows "Gcd (snd ` set (sort (divide_counts (Gcd (snd ` set (counted_atoms as))) (counted_atoms as)))) = 1
       \<and> sorted_wrt (<) (map fst (sort (divide_counts (Gcd (snd ` set (counted_atoms as))) (counted_atoms as))))
       \<and> sort (divide_counts (Gcd (snd ` set (counted_atoms as))) (counted_atoms as)) \<noteq> []"
proof -
  let ?cf = "counted_atoms as"
  let ?cf3 = "sort (divide_counts (Gcd (snd ` set ?cf)) ?cf)"
  have "Gcd (snd ` set (divide_counts (Gcd (snd ` set ?cf)) ?cf)) = 1"
    using assms(1) counted_atoms_pos by (intro reduce_formula_Gcd(2)) auto
  then have 1: "Gcd (snd ` set ?cf3) = 1" by simp
  have "map fst (divide_counts g cf) = map fst cf" for g cf
    by (simp add: divide_counts_map)
  then have "mset (map fst ?cf3) = mset (map fst ?cf)"
    by (metis mset_map mset_sort)
  then have "distinct (map fst ?cf3)"
    using assms(2) by (metis mset_eq_imp_distinct_iff)
  moreover have "sorted (map fst ?cf3)" by (intro sorted_fst) simp
  ultimately have 2: "sorted_wrt (<) (map fst ?cf3)" by (simp add: strict_sorted_iff)
  have "length ?cf3 = length ?cf" by (simp add: divide_counts_map)
  with assms(1) have 3: "?cf3 \<noteq> []" by (metis length_0_conv)
  from 1 2 3 show ?thesis by simp
qed

text \<open>
  Claim C9, as the code has it. For an info object with atom info,
  \<open>getChemicalFormula\<close> never returns anything but a non-empty formula whose counts have
  greatest common divisor 1 and whose atomic numbers increase strictly; the divisor is
  computed by Euclid's algorithm, with \<open>gcd(a, 0) = a\<close>. A composition of exactly one
  element with a valid Z returns the formula of that element with count 1 at once, without
  looking at the atom list. Otherwise \<open>BadInput\<close> is raised if an atomic number of the
  list is invalid, if no entry has a non-zero count, or if an atomic number occurs twice
  among the entries with a non-zero count; and if none of this is the case the result is
  the sorted list of those entries with the counts divided by their greatest common
  divisor. (An empty atom list is rejected by an assertion first when assertions are
  compiled in.)
\<close>

theorem getChemicalFormula_reduced_sorted:
  assumes atom: "hasAtomInfo info"
    and dbg: "ndebug env \<or> atomInfo info \<noteq> []"
  shows "greatestCommonDivisor a 0 = a \<and> greatestCommonDivisor a b = gcd a b
    \<and> (\<forall>cf. getChemicalFormula env info = Inr cf \<longrightarrow>
          cf \<noteq> [] \<and> Gcd (snd ` set cf) = 1 \<and> sorted_wrt (<) (map fst cf))
    \<and> (\<forall>z. monoatomic_Z env info = Some z \<longrightarrow> getChemicalFormula env info = Inr [(z, 1)])
    \<and> (monoatomic_Z env info = None \<longrightarrow>
         (if \<exists>a\<in>set (atomInfo info). \<not> validNCrystalZValue (atomic_number a)
          then \<exists>msg. getChemicalFormula env info = Inl (BadInput, msg)
          else if counted_atoms (atomInfo info) = []
          then \<exists>msg. getChemicalFormula env info = Inl (BadInput, msg)
          else if \<not> distinct (map fst (counted_atoms (atomInfo info)))
          then \<exists>msg. getChemicalFormula env info = Inl (BadInput, msg)
          else getChemicalFormula env info =
                 Inr (sort (divide_counts (Gcd (snd ` set (counted_atoms (atomInfo info))))
                        (counted_atoms (atomInfo info))))))"
proof -
  let ?as = "atomInfo info"
  let ?cf = "counted_atoms ?as"
  let ?cf3 = "sort (divide_counts (Gcd (snd ` set ?cf)) ?cf)"
  have mono: "getChemicalFormula env info = Inr [(z, 1)]" if "monoatomic_Z env info = Some z" for z
    using that by (simp add: getChemicalFormula_def)
  have invalid: "\<exists>msg. getChemicalFormula env info = Inl (BadInput, msg)"
    if "monoatomic_Z env info = None" "\<exists>a\<in>set ?as. \<not> validNCrystalZValue (atomic_number a)"
  proof -
    from that(2) obtain msg where "collect_atoms ?as [] = Inl (BadInput, msg)"
      using collect_atoms_invalid by blast
    moreover from that(2) have "?as \<noteq> []" by auto
    ultimately show ?thesis using that(1) atom by (simp add: getChemicalFormula_def)
  qed
  have empty: "\<exists>msg. getChemicalFormula env info = Inl (BadInput, msg)"
    if "monoatomic_Z env info = None" "\<forall>a\<in>set ?as. validNCrystalZValue (atomic_number a)"
       "?cf = []"
    using that atom dbg by (auto simp: getChemicalFormula_def collect_atoms_valid)
  have main: "getChemicalFormula env info =
      (if \<not> distinct (map fst ?cf)
       then Inl (BadInput, ''Atomic composition info has duplicate entries for same atomic number.'')
       else Inr ?cf3)"
    if "monoatomic_Z env info = None" "\<forall>a\<in>set ?as. validNCrystalZValue (atomic_number a)"
       "?cf \<noteq> []"
    using getChemicalFormula_main[OF that(1) atom dbg that(2) that(3)] .
  have good: "Gcd (snd ` set ?cf3) = 1 \<and> sorted_wrt (<) (map fst ?cf3) \<and> ?cf3 \<noteq> []"
    if "?cf \<noteq> []" "distinct (map fst ?cf)"
    using reduced_formula_good[OF that] .
  have result: "cf \<noteq> [] \<and> Gcd (snd ` set cf) = 1 \<and> sorted_wrt (<) (map fst cf)"
    if r: "getChemicalFormula env info = Inr cf" for cf
  proof (cases "monoatomic_Z env info")
    case (Some z)
    with r mono show ?thesis by auto
  next
    case None
    show ?thesis
    proof (cases "\<exists>a\<in>set ?as. \<not> validNCrystalZValue (atomic_number a)")
      case True
      with invalid[OF None] r show ?thesis by auto
    next
      case False
      then have v: "\<forall>a\<in>set ?as. validNCrystalZValue (atomic_number a)" by simp
      show ?thesis
      proof (cases "?cf = []")
        case True
        with empty[OF None v] r show ?thesis by auto
      next
        case ne: False
        with main[OF None v] r have "distinct (map fst ?cf)" "cf = ?cf3"
          by (auto split: if_splits)
        with good[OF ne] show ?thesis by simp
      qed
    qed
  qed
  show ?thesis
    using mono invalid empty main result
    by (simp add: greatestCommonDivisor_gcd)
qed

text \<open>
  The theorem at aluminium oxide, twelve aluminium and eighteen oxygen atoms per unit
  cell: the formula is Al2O3, oxygen (Z = 8) before aluminium (Z = 13).
\<close>

theorem getChemicalFormula_reduced_sorted_witness:
  "hasAtomInfo (sample_info [] [(13, 12), (8, 18)])
   \<and> (ndebug sample_env \<or> atomInfo (sample_info [] [(13, 12), (8, 18)]) \<noteq> [])
   \<and> getChemicalFormula sample_env (sample_info [] [(13, 12), (8, 18)]) = Inr [(8, 3), (13, 2)]
   \<and> Gcd (snd ` set ([(8, 3), (13, 2)] :: ChemicalFormula)) = 1
   \<and> sorted_wrt (<) (map fst ([(8, 3), (13, 2)] :: ChemicalFormula))"
proof -
  let ?info = "sample_info [] [(13, 12), (8, 18)]"
  have h1: "hasAtomInfo ?info" by (simp add: sample_info_def)
  have h2: "ndebug sample_env \<or> atomInfo ?info \<noteq> []" by (simp add: sample_env_def)
  have ev: "getChemicalFormula sample_env ?info = Inr [(8, 3), (13, 2)]" by code_simp
  note inst = getChemicalFormula_reduced_sorted[OF h1 h2, of 0 0]
  note res = inst[THEN conjunct2, THEN conjunct2, THEN conjunct1, rule_format, OF ev]
  show ?thesis
    by (intro conjI h1 h2 ev res[THEN conjunct2, THEN conjunct1]
          res[THEN conjunct2, THEN conjunct2])
qed

text \<open>
  Claim C9 as the specification states it fails: the atomic number 13 occurs twice in the
  atom list, and no error is raised. In the first input the composition has the single
  element Al, so the formula Al is returned without looking at the atom list; in the
  second the second entry for Z = 13 has count 0 and is skipped before the duplicates are
  looked for.
\<close>

theorem getChemicalFormula_duplicate_not_rejected:
  "map atomic_number (atomInfo (sample_info [(''Al'', 1)] [(13, 2), (13, 2)])) = [13, 13]
   \<and> getChemicalFormula sample_env (sample_info [(''Al'', 1)] [(13, 2), (13, 2)]) = Inr [(13, 1)]
   \<and> map atomic_number (atomInfo (sample_info [] [(13, 2), (13, 0)])) = [13, 13]
   \<and> getChemicalFormula sample_env (sample_info [] [(13, 2), (13, 0)]) = Inr [(13, 1)]"
proof -
  have "getChemicalFormula sample_env (sample_info [(''Al'', 1)] [(13, 2), (13, 2)]) = Inr [(13, 1)]"
    by code_simp
  moreover have "getChemicalFormula sample_env (sample_info [] [(13, 2), (13, 0)]) = Inr [(13, 1)]"
    by code_simp
  ultimately show ?thesis by (simp add: sample_info_def)
qed

section \<open>Properties of the Hill-system string\<close>

lemma map_insort_key: "map f (insort_key f x xs) = insort (f x) (map f xs)"
  by (induction xs) auto

lemma sort_map_sort_key: "sort (map f xs) = map f (sort_key f xs)"
  by (induction xs) (auto simp: map_insort_key)

lemma snd_hill_entry: "snd (hill_entry env c p) = render_entry env p"
  by (simp add: hill_entry_def render_entry_def Let_def)

lemma digit_less_letter: "starts_with_letter s \<Longrightarrow> ''3'' < s"
  by (cases s) (auto simp: starts_with_letter_def less_char_def less_eq_char_def)

lemma letter_less_brace: "starts_with_letter s \<Longrightarrow> s < ''{'' @ t"
  by (cases s) (auto simp: starts_with_letter_def less_char_def less_eq_char_def)

lemma digit_less_brace: "''3'' < ''{'' @ t"
  by (simp add: less_char_def)

lemma brace_le_brace: "''{'' @ a \<le> ''{'' @ b \<Longrightarrow> a \<le> b"
  by simp

lemma digit_keys_less: "''1'' < ''2''" "''2'' < ''3''"
  by (simp_all add: less_char_def)

text \<open>
  The name of an element begins with a capital letter when its table entry does: the
  other names are \<open>D\<close> and \<open>Elem<z>\<close>.
\<close>

lemma element_name_letter:
  assumes "z < length (symbol_db env) \<longrightarrow> starts_with_letter (symbol_db env ! z)"
  shows "starts_with_letter (element_name env z)"
  using assms
  by (auto simp: element_name_def starts_with_letter_def less_eq_char_def)

lemma fst_hill_entry:
  "fst (hill_entry env c p) =
     (if hill_class env c (fst p) = 0 then ''1''
      else if hill_class env c (fst p) = 1 then ''2''
      else if hill_class env c (fst p) = 2 then ''3''
      else if hill_class env c (fst p) = 3 then element_name env (fst p)
      else ''{'' @ element_name env (fst p))"
  by (auto simp: hill_entry_def hill_class_def has_symbol_def element_name_def Let_def
      zIsDeuterium_def specialZValueDeuterium_def)

lemma hill_class_le: "hill_class env c z \<le> 4"
  by (simp add: hill_class_def)

lemma key_order_abstract:
  fixes k1 k2 k3 np nq fp fq :: "'a::linorder"
  assumes "k1 < k2" "k2 < k3" "k3 < np" "k3 < nq" "np < fq" "nq < fp" "k3 < fp" "k3 < fq"
    and "fp \<le> fq \<Longrightarrow> P"
    and "cp \<le> (4::nat)" "cq \<le> 4"
    and "(if cp = 0 then k1 else if cp = 1 then k2 else if cp = 2 then k3
          else if cp = 3 then np else fp)
         \<le> (if cq = 0 then k1 else if cq = 1 then k2 else if cq = 2 then k3
            else if cq = 3 then nq else fq)"
  shows "cp < cq \<or> (cp = cq \<and> (cp = 3 \<longrightarrow> np \<le> nq) \<and> (cp = 4 \<longrightarrow> P))"
proof -
  consider "cp = 0" | "cp = 1" | "cp = 2" | "cp = 3" | "cp = 4" using assms(10) by linarith
  then show ?thesis
  proof cases
    case 1 then show ?thesis using assms by (auto split: if_splits)
  next
    case 2 then show ?thesis using assms by (auto split: if_splits)
  next
    case 3 then show ?thesis using assms by (auto split: if_splits)
  next
    case 4 then show ?thesis using assms by (auto split: if_splits)
  next
    case 5 then show ?thesis using assms by (auto split: if_splits)
  qed
qed

lemma hill_key_order:
  assumes sp: "fst p < length (symbol_db env) \<longrightarrow> starts_with_letter (symbol_db env ! fst p)"
    and sq: "fst q < length (symbol_db env) \<longrightarrow> starts_with_letter (symbol_db env ! fst q)"
    and le: "hill_entry env c p \<le> hill_entry env c q"
  shows "hill_precedes env c (fst p) (fst q)"
proof -
  let ?np = "element_name env (fst p)" and ?nq = "element_name env (fst q)"
  let ?cp = "hill_class env c (fst p)" and ?cq = "hill_class env c (fst q)"
  have lp: "starts_with_letter ?np" using sp by (rule element_name_letter)
  have lq: "starts_with_letter ?nq" using sq by (rule element_name_letter)
  have "fst (hill_entry env c p) \<le> fst (hill_entry env c q)"
    using le by (auto simp: less_eq_prod_def)
  then have keys: "(if ?cp = 0 then ''1'' else if ?cp = 1 then ''2'' else if ?cp = 2 then ''3''
      else if ?cp = 3 then ?np else ''{'' @ ?np)
     \<le> (if ?cq = 0 then ''1'' else if ?cq = 1 then ''2'' else if ?cq = 2 then ''3''
      else if ?cq = 3 then ?nq else ''{'' @ ?nq)"
    by (simp only: fst_hill_entry)
  have "?cp < ?cq \<or> (?cp = ?cq \<and> (?cp = 3 \<longrightarrow> ?np \<le> ?nq) \<and> (?cp = 4 \<longrightarrow> ?np \<le> ?nq))"
  proof (rule key_order_abstract[OF digit_keys_less(1) digit_keys_less(2) _ _ _ _ _ _ _ _ _ keys])
    show "''3'' < ?np" using lp by (rule digit_less_letter)
    show "''3'' < ?nq" using lq by (rule digit_less_letter)
    show "?np < ''{'' @ ?nq" using lp by (rule letter_less_brace)
    show "?nq < ''{'' @ ?np" using lq by (rule letter_less_brace)
    show "''3'' < ''{'' @ ?np" by (rule digit_less_brace)
    show "''3'' < ''{'' @ ?nq" by (rule digit_less_brace)
    show "?np \<le> ?nq" if "''{'' @ ?np \<le> ''{'' @ ?nq" using that by (rule brace_le_brace)
    show "?cp \<le> 4" by (rule hill_class_le)
    show "?cq \<le> 4" by (rule hill_class_le)
  qed
  moreover have "?cp = 3 \<or> ?cp = 4" if "3 \<le> ?cp"
    using that hill_class_le[of env c "fst p"] by linarith
  ultimately show ?thesis
    unfolding hill_precedes_def by blast
qed

text \<open>
  Claim C10, as the code has it. Let the entries of the table of element symbols for the
  elements of the formula begin with a capital letter. Then the string is the
  concatenation of the rendered elements of the formula in this order: the elements that
  have no entry in the table come last, in the order of their names \<open>Elem<z>\<close>; before
  them, when the formula contains carbon, carbon comes first, hydrogen second, deuterium
  third and the other elements follow in the order of their symbols, and all elements are
  in the order of their symbols when there is no carbon. An element is rendered as its
  name followed by its count, a count of 1 is left out, and the name of deuterium is D.
\<close>

theorem hill_system_order:
  assumes letters: "\<forall>p\<in>set cf. fst p < length (symbol_db env) \<longrightarrow>
                    starts_with_letter (symbol_db env ! fst p)"
  shows "(\<exists>ys. mset ys = mset cf
            \<and> sorted_wrt (hill_precedes env (any_carbon cf)) (map fst ys)
            \<and> getChemicalFormulaInHillSystemString env cf = concat (map (render_entry env) ys))
         \<and> any_carbon cf = (6 \<in> fst ` set cf)
         \<and> render_entry env (z, 1) = element_name env z
         \<and> (n \<noteq> 1 \<longrightarrow> render_entry env (z, n) = element_name env z @ show_nat n)
         \<and> element_name env specialZValueDeuterium = ''D''
         \<and> (has_symbol env z \<and> \<not> zIsDeuterium z \<longrightarrow> element_name env z = symbol_db env ! z)
         \<and> (\<not> has_symbol env z \<longrightarrow> element_name env z = ''Elem<'' @ show_nat z @ ''>'')"
proof -
  let ?c = "any_carbon cf"
  let ?ys = "sort_key (hill_entry env ?c) cf"
  have perm: "mset ?ys = mset cf" by simp
  have str: "getChemicalFormulaInHillSystemString env cf = concat (map (render_entry env) ?ys)"
    by (simp add: getChemicalFormulaInHillSystemString_def sort_map_sort_key snd_hill_entry
        comp_def)
  have "sorted (map (hill_entry env ?c) ?ys)" by (rule sorted_sort_key)
  then have "sorted_wrt (\<lambda>p q. hill_entry env ?c p \<le> hill_entry env ?c q) ?ys"
    by (simp add: sorted_wrt_map)
  moreover have "hill_precedes env ?c (fst p) (fst q)"
    if "p \<in> set ?ys" "q \<in> set ?ys" "hill_entry env ?c p \<le> hill_entry env ?c q" for p q
  proof -
    from that have pq: "p \<in> set cf" "q \<in> set cf" by simp_all
    show ?thesis
    proof (rule hill_key_order)
      show "fst p < length (symbol_db env) \<longrightarrow> starts_with_letter (symbol_db env ! fst p)"
        using letters pq(1) by blast
      show "fst q < length (symbol_db env) \<longrightarrow> starts_with_letter (symbol_db env ! fst q)"
        using letters pq(2) by blast
      show "hill_entry env ?c p \<le> hill_entry env ?c q" by (rule that(3))
    qed
  qed
  ultimately have "sorted_wrt (\<lambda>p q. hill_precedes env ?c (fst p) (fst q)) ?ys"
    by (rule sorted_wrt_mono_rel[rotated])
  then have "sorted_wrt (hill_precedes env ?c) (map fst ?ys)"
    by (simp add: sorted_wrt_map)
  with perm str have order: "\<exists>ys. mset ys = mset cf
            \<and> sorted_wrt (hill_precedes env (any_carbon cf)) (map fst ys)
            \<and> getChemicalFormulaInHillSystemString env cf = concat (map (render_entry env) ys)"
    by blast
  have carbon: "any_carbon cf = (6 \<in> fst ` set cf)"
    by (force simp: any_carbon_def list_ex_iff)
  have render: "render_entry env (z, 1) = element_name env z"
    "n \<noteq> 1 \<longrightarrow> render_entry env (z, n) = element_name env z @ show_nat n"
    by (simp_all add: render_entry_def)
  have deuterium: "element_name env specialZValueDeuterium = ''D''"
    by (simp add: element_name_def zIsDeuterium_def)
  have names: "has_symbol env z \<and> \<not> zIsDeuterium z \<longrightarrow> element_name env z = symbol_db env ! z"
    "\<not> has_symbol env z \<longrightarrow> element_name env z = ''Elem<'' @ show_nat z @ ''>''"
    by (simp_all add: element_name_def has_symbol_def)
  from order carbon render deuterium names show ?thesis by blast
qed

text \<open>
  The theorem at deuterated acetic acid, C2 H D3 O2, given sorted by atomic number as
  \<open>getChemicalFormula\<close> returns it, at the carbon-free heavy water with hydrogen, H D O,
  and at a carbide of iron and of element 119, which has no entry in the table: the
  strings are \<open>C2HD3O2\<close>, \<open>DHO\<close> and \<open>CFe3Elem<119>2\<close>.
\<close>

theorem hill_system_order_witness:
  "list_all (\<lambda>p. fst p < length (symbol_db sample_env) \<longrightarrow>
                  starts_with_letter (symbol_db sample_env ! fst p))
      ([(1, 1), (6, 2), (8, 2), (1001, 3)] :: ChemicalFormula)
   \<and> getChemicalFormulaInHillSystemString sample_env [(1, 1), (6, 2), (8, 2), (1001, 3)]
       = ''C2HD3O2''
   \<and> getChemicalFormulaInHillSystemString sample_env [(1, 1), (8, 1), (1001, 1)] = ''DHO''
   \<and> getChemicalFormulaInHillSystemString sample_env [(6, 1), (26, 3), (119, 2)]
       = ''CFe3Elem<119>2''
   \<and> (\<exists>ys. mset ys = mset ([(1, 1), (6, 2), (8, 2), (1001, 3)] :: ChemicalFormula)
         \<and> sorted_wrt (hill_precedes sample_env True) (map fst ys)
         \<and> ''C2HD3O2'' = concat (map (render_entry sample_env) ys))"
proof -
  let ?cf = "[(1, 1), (6, 2), (8, 2), (1001, 3)] :: ChemicalFormula"
  have h2: "list_all (\<lambda>p. fst p < length (symbol_db sample_env) \<longrightarrow>
                  starts_with_letter (symbol_db sample_env ! fst p)) ?cf"
    by code_simp
  have ev1: "getChemicalFormulaInHillSystemString sample_env ?cf = ''C2HD3O2''"
    by code_simp
  have ev2: "getChemicalFormulaInHillSystemString sample_env [(1, 1), (8, 1), (1001, 1)] = ''DHO''"
    by code_simp
  have ev3: "getChemicalFormulaInHillSystemString sample_env [(6, 1), (26, 3), (119, 2)]
       = ''CFe3Elem<119>2''"
    by code_simp
  have c: "any_carbon ?cf = True" by code_simp
  note inst = hill_system_order[of ?cf sample_env 0 0, OF h2[unfolded list_all_iff]]
  note ord = inst[THEN conjunct1, unfolded c ev1]
  show ?thesis
    by (intro conjI h2 ev1 ev2 ev3 ord)
qed

text \<open>
  Claim C10 as the specification states it fails where the table of element symbols has
  no entry for an element. Atomic number 119 is a valid one, and an info object with one
  atom of iron and one of element 119 has the formula Fe Elem<119>. Its string is
  \<open>FeElem<119>\<close>, although the formula has no carbon and \<open>Elem<119>\<close> is before \<open>Fe\<close> in
  the order of the names.
\<close>

theorem hill_fallback_not_alphabetical:
  "validNCrystalZValue 119
   \<and> getChemicalFormula sample_env (sample_info [] [(26, 1), (119, 1)])
       = Inr [(26, 1), (119, 1)]
   \<and> \<not> any_carbon [(26, 1), (119, 1)]
   \<and> element_name sample_env 26 = ''Fe''
   \<and> element_name sample_env 119 = ''Elem<119>''
   \<and> ''Elem<119>'' < ''Fe''
   \<and> getChemicalFormulaInHillSystemString sample_env [(26, 1), (119, 1)] = ''FeElem<119>''"
proof -
  have 1: "validNCrystalZValue 119" by code_simp
  have 2: "getChemicalFormula sample_env (sample_info [] [(26, 1), (119, 1)])
       = Inr [(26, 1), (119, 1)]" by code_simp
  have 3: "\<not> any_carbon [(26, 1), (119, 1)]" by code_simp
  have 4: "element_name sample_env 26 = ''Fe''" by code_simp
  have 5: "element_name sample_env 119 = ''Elem<119>''" by code_simp
  have 6: "''Elem<119>'' < ''Fe''" by code_simp
  have 7: "getChemicalFormulaInHillSystemString sample_env [(26, 1), (119, 1)] = ''FeElem<119>''"
    by code_simp
  show ?thesis by (intro conjI 1 2 3 4 5 6 7)
qed

section \<open>The effect of a request on the state\<close>

lemma cached_material_append:
  "cached_material c tbl k = Inr r \<Longrightarrow> cached_material c (tbl @ ys) k = Inr r"
  by (auto simp: cached_material_def nth_append split: option.splits if_splits)

lemma cached_material_upd_other:
  "k' \<noteq> k \<Longrightarrow> cached_material (c(k \<mapsto> i)) tbl k' = cached_material c tbl k'"
  by (simp add: cached_material_def)

lemma cached_material_new:
  "i < length tbl \<Longrightarrow> tbl ! i = Some m \<Longrightarrow> cached_material (c(k \<mapsto> i)) tbl k = Inr (Some i)"
  by (simp add: cached_material_def)

lemma cached_material_Some:
  "cached_material c tbl k = Inr (Some i) \<longleftrightarrow>
     c k = Some i \<and> i < length tbl \<and> tbl ! i \<noteq> None"
  by (auto simp: cached_material_def split: option.splits if_splits)

lemma add_formula_elements_fields:
  "\<exists>es. snd (add_formula_elements env cf mat) = mat\<lparr>mat_elements := es\<rparr>"
proof (induction cf arbitrary: mat)
  case Nil
  have "mat = mat\<lparr>mat_elements := mat_elements mat\<rparr>" by simp
  then show ?case by (metis add_formula_elements.simps(1) snd_conv)
next
  case (Cons p ps)
  show ?case
  proof (cases "\<not> ndebug env \<and> \<not> int (snd p) \<le> G4int_max")
    case True
    have "mat = mat\<lparr>mat_elements := mat_elements mat\<rparr>" by simp
    with True show ?thesis by (auto simp: Let_def intro: exI[of _ "mat_elements mat"])
  next
    case False
    then show ?thesis using Cons[of "mat\<lparr>mat_elements := mat_elements mat @
        [(if zIsDeuterium (fst p) then DeuteriumElement else NistElementZ (fst p),
          NumberOfAtoms (G4int_of_unsigned (snd p)))]\<rparr>"]
      by (auto simp: Let_def)
  qed
qed

lemma add_fraction_elements_fields:
  "\<exists>es. snd (add_fraction_elements env composition mat) = mat\<lparr>mat_elements := es\<rparr>"
proof (cases "collect_masses env composition 0 []")
  case (Inl f)
  have "mat = mat\<lparr>mat_elements := mat_elements mat\<rparr>" by simp
  with Inl show ?thesis by (auto simp: add_fraction_elements_def intro: exI[of _ "mat_elements mat"])
next
  case (Inr r)
  then show ?thesis by (cases r) (auto simp: add_fraction_elements_def)
qed

lemma add_formula_elements_ndebug:
  "ndebug env \<Longrightarrow> fst (add_formula_elements env cf mat) = None"
  by (induction cf arbitrary: mat) (auto simp: Let_def)

lemma add_elements_fields:
  "\<exists>es. snd (add_elements env info cf mat) = mat\<lparr>mat_elements := es\<rparr>"
  using add_formula_elements_fields[of env cf mat]
    add_fraction_elements_fields[of env "getComposition info" mat]
  by (simp add: add_elements_def)

lemma build_base_material_result:
  assumes "build_base_material env info cf k s = (r, s')"
  shows "\<exists>mat. material_table s' = material_table s @ [Some mat]
           \<and> mat_name mat = ''NCrystalBaseMat::'' @ k
           \<and> mat_temp mat = 293.15 * kelvin env
           \<and> (\<exists>n. mat_origin mat = FromComponents n)
           \<and> cache s' = cache s \<and> factory_calls s' = factory_calls s
           \<and> scatter_properties s' = scatter_properties s
           \<and> handled_errors s' = handled_errors s
           \<and> (case r of
                 Inr b \<Rightarrow> b = length (material_table s) \<and> base_cache s' = (base_cache s)(k \<mapsto> b)
               | Inl f \<Rightarrow> base_cache s' = base_cache s)"
proof -
  let ?mat0 = "base_material_ctor env info cf k"
  obtain err mat1 where em: "add_elements env info cf ?mat0 = (err, mat1)"
    by (cases "add_elements env info cf ?mat0") auto
  obtain es where mat1: "mat1 = ?mat0\<lparr>mat_elements := es\<rparr>"
    using em add_elements_fields[of env info cf ?mat0] by auto
  have fields: "mat_name mat1 = ''NCrystalBaseMat::'' @ k"
    "mat_temp mat1 = 293.15 * kelvin env" "\<exists>n. mat_origin mat1 = FromComponents n"
    by (simp_all add: mat1 base_material_ctor_def)
  show ?thesis
  proof (cases err)
    case None
    with assms em fields show ?thesis
      by (auto simp: build_base_material_def Let_def)
  next
    case (Some f)
    with assms em fields show ?thesis
      by (auto simp: build_base_material_def Let_def)
  qed
qed

lemma getBase_cases:
  assumes "getBaseG4MaterialWithCache env info s = (r, s')"
  shows "(s' = s
          \<and> (\<forall>b. r = Inr b \<longrightarrow>
                (\<exists>cf k. getChemicalFormula env info = Inr cf \<and> base_key env info cf = Inr k
                   \<and> cached_material (base_cache s) (material_table s) k = Inr (Some b))))
       \<or> (\<exists>cf k. getChemicalFormula env info = Inr cf \<and> base_key env info cf = Inr k
             \<and> cached_material (base_cache s) (material_table s) k = Inr None
             \<and> build_base_material env info cf k s = (r, s'))"
  using assms
  by (auto simp: getBaseG4MaterialWithCache_def split: sum.splits option.splits)

lemma build_material_success:
  assumes "build_material env cfg s = (Inr m, s')"
  shows "\<exists>scatter info b s3.
           libClashDetect env = None
           \<and> createScatter env cfg = Inr scatter \<and> createInfo env cfg = Inr info
           \<and> hasDensity info
           \<and> getBaseG4MaterialWithCache env info
                (s\<lparr>factory_calls := factory_calls s @ [CreateScatter cfg, CreateInfo cfg]\<rparr>)
               = (Inr b, s3)
           \<and> m = length (material_table s3)
           \<and> s' = s3\<lparr>material_table :=
                        material_table s3 @ [Some (derived_material_ctor env cfg info b)],
                      scatter_properties := scatter_properties s3 @ [(m, scatter)],
                      cache := (cache s3)(toStrCfg env cfg \<mapsto> m)\<rparr>"
  using assms
  by (auto simp: build_material_def new_G4Material_def Let_def
      split: option.splits sum.splits if_splits prod.splits)

lemma fst_build_base_material:
  "fst (build_base_material env info cf k s) =
     (case fst (add_elements env info cf (base_material_ctor env info cf k)) of
        Some f \<Rightarrow> Inl f
      | None \<Rightarrow> Inr (length (material_table s)))"
  by (auto simp: build_base_material_def Let_def split: prod.splits option.splits)

lemma build_base_material_log:
  "build_base_material env info cf k (log_calls xs s) =
     (case build_base_material env info cf k s of (r, s') \<Rightarrow> (r, log_calls xs s'))"
  by (auto simp: build_base_material_def log_calls_def Let_def split: prod.splits option.splits)

lemma log_calls_fields:
  "material_table (log_calls xs s) = material_table s"
  "base_cache (log_calls xs s) = base_cache s"
  "cache (log_calls xs s) = cache s"
  "scatter_properties (log_calls xs s) = scatter_properties s"
  "handled_errors (log_calls xs s) = handled_errors s"
  "factory_calls (log_calls xs s) = factory_calls s @ xs"
  by (simp_all add: log_calls_def)

lemma getBase_log:
  "getBaseG4MaterialWithCache env info (log_calls xs s) =
     (case getBaseG4MaterialWithCache env info s of (r, s') \<Rightarrow> (r, log_calls xs s'))"
  by (auto simp: getBaseG4MaterialWithCache_def build_base_material_log log_calls_fields
      split: sum.splits option.splits prod.splits)

text \<open>What a call of the base function does to the state, whatever its result.\<close>

lemma getBase_effect:
  assumes "getBaseG4MaterialWithCache env info s = (r, s')"
  shows "cache s' = cache s \<and> factory_calls s' = factory_calls s
       \<and> scatter_properties s' = scatter_properties s
       \<and> handled_errors s' = handled_errors s
       \<and> ((material_table s' = material_table s \<and> base_cache s' = base_cache s)
          \<or> (\<exists>cf k mat. getChemicalFormula env info = Inr cf \<and> base_key env info cf = Inr k
                \<and> cached_material (base_cache s) (material_table s) k = Inr None
                \<and> material_table s' = material_table s @ [Some mat]
                \<and> mat_name mat = ''NCrystalBaseMat::'' @ k
                \<and> mat_temp mat = 293.15 * kelvin env
                \<and> (\<exists>n. mat_origin mat = FromComponents n)
                \<and> (case r of
                      Inr b \<Rightarrow> b = length (material_table s)
                                \<and> base_cache s' = (base_cache s)(k \<mapsto> b)
                    | Inl f \<Rightarrow> base_cache s' = base_cache s)))"
proof -
  from getBase_cases[OF assms] show ?thesis
  proof (elim disjE conjE exE)
    assume "s' = s"
    then show ?thesis by simp
  next
    fix cf k
    assume a: "getChemicalFormula env info = Inr cf" "base_key env info cf = Inr k"
      "cached_material (base_cache s) (material_table s) k = Inr None"
      "build_base_material env info cf k s = (r, s')"
    from build_base_material_result[OF a(4)] obtain mat where
      m: "material_table s' = material_table s @ [Some mat]"
         "mat_name mat = ''NCrystalBaseMat::'' @ k"
         "mat_temp mat = 293.15 * kelvin env"
         "\<exists>n. mat_origin mat = FromComponents n"
         "cache s' = cache s" "factory_calls s' = factory_calls s"
         "scatter_properties s' = scatter_properties s"
         "handled_errors s' = handled_errors s"
         "(case r of
             Inr b \<Rightarrow> b = length (material_table s) \<and> base_cache s' = (base_cache s)(k \<mapsto> b)
           | Inl f \<Rightarrow> base_cache s' = base_cache s)"
      by blast
    have "\<exists>cf k mat. getChemicalFormula env info = Inr cf \<and> base_key env info cf = Inr k
                \<and> cached_material (base_cache s) (material_table s) k = Inr None
                \<and> material_table s' = material_table s @ [Some mat]
                \<and> mat_name mat = ''NCrystalBaseMat::'' @ k
                \<and> mat_temp mat = 293.15 * kelvin env
                \<and> (\<exists>n. mat_origin mat = FromComponents n)
                \<and> (case r of
                      Inr b \<Rightarrow> b = length (material_table s)
                                \<and> base_cache s' = (base_cache s)(k \<mapsto> b)
                    | Inl f \<Rightarrow> base_cache s' = base_cache s)"
      using a(1,2,3) m(1,2,3,4,9) by blast
    with m(5,6,7,8) show ?thesis by blast
  qed
qed

text \<open>A returned base material is in the cache under its key and alive in the table.\<close>

lemma getBase_ready:
  assumes "getBaseG4MaterialWithCache env info s = (Inr b, s')"
  shows "\<exists>cf k. getChemicalFormula env info = Inr cf \<and> base_key env info cf = Inr k
           \<and> cached_material (base_cache s') (material_table s') k = Inr (Some b)"
proof -
  from getBase_cases[OF assms] show ?thesis
  proof (elim disjE conjE exE)
    assume "s' = s" "\<forall>ba. Inr b = Inr ba \<longrightarrow>
       (\<exists>cf k. getChemicalFormula env info = Inr cf \<and> base_key env info cf = Inr k
          \<and> cached_material (base_cache s) (material_table s) k = Inr (Some ba))"
    then show ?thesis by auto
  next
    fix cf k
    assume a: "getChemicalFormula env info = Inr cf" "base_key env info cf = Inr k"
      "build_base_material env info cf k s = (Inr b, s')"
    from build_base_material_result[OF a(3)] obtain mat where
      "material_table s' = material_table s @ [Some mat]"
      "b = length (material_table s)" "base_cache s' = (base_cache s)(k \<mapsto> b)"
      by auto
    then have "cached_material (base_cache s') (material_table s') k = Inr (Some b)"
      by (simp add: cached_material_def)
    with a(1,2) show ?thesis by blast
  qed
qed

lemma build_material_stages:
  "build_material env cfg s =
     (case factory_stage env cfg of
        Inl (e, xs) \<Rightarrow> (Inl (NCException e), log_calls xs s)
      | Inr (scatter, info) \<Rightarrow>
          (case getBaseG4MaterialWithCache env info
                  (log_calls [CreateScatter cfg, CreateInfo cfg] s) of
             (Inl f, s3) \<Rightarrow> (Inl f, s3)
           | (Inr b, s3) \<Rightarrow>
               (Inr (length (material_table s3)), register_material env cfg scatter info b s3)))"
  by (auto simp: build_material_def factory_stage_def log_calls_def new_G4Material_def
      register_material_def Let_def
      split: option.splits sum.splits prod.splits)

lemma getG4_hit:
  "cached_material (cache s) (material_table s) (toStrCfg env cfg) = Inr (Some m) \<Longrightarrow>
     getG4MaterialWithCache env cfg s = (Inr m, s)"
  by (simp add: getG4MaterialWithCache_def)

lemma getG4_cases:
  assumes "getG4MaterialWithCache env cfg s = (r, s')"
  shows "(s' = s \<and> (\<exists>f. r = Inl f
                      \<and> cached_material (cache s) (material_table s) (toStrCfg env cfg) = Inl f))
       \<or> (s' = s \<and> (\<exists>m. r = Inr m
                      \<and> cached_material (cache s) (material_table s) (toStrCfg env cfg)
                          = Inr (Some m)))
       \<or> (cached_material (cache s) (material_table s) (toStrCfg env cfg) = Inr None
          \<and> build_material env cfg s = (r, s'))"
  using assms
  by (auto simp: getG4MaterialWithCache_def split: sum.splits option.splits)

lemma register_material_fields:
  "material_table (register_material env cfg scatter info b s) =
     material_table s @ [Some (derived_material_ctor env cfg info b)]"
  "base_cache (register_material env cfg scatter info b s) = base_cache s"
  "cache (register_material env cfg scatter info b s) =
     (cache s)(toStrCfg env cfg \<mapsto> length (material_table s))"
  "factory_calls (register_material env cfg scatter info b s) = factory_calls s"
  "handled_errors (register_material env cfg scatter info b s) = handled_errors s"
  by (simp_all add: register_material_def)

lemma build_material_ready:
  assumes "build_material env cfg s = (Inr m, s')"
  shows "cached_material (cache s') (material_table s') (toStrCfg env cfg) = Inr (Some m)"
  using assms
  by (auto simp: build_material_stages register_material_fields cached_material_def
      split: sum.splits prod.splits)

lemma getG4_ready:
  assumes "getG4MaterialWithCache env cfg s = (Inr m, s')"
  shows "cached_material (cache s') (material_table s') (toStrCfg env cfg) = Inr (Some m)"
  using getG4_cases[OF assms] build_material_ready by auto

lemma requests_ready:
  assumes "cached_material (cache s) (material_table s) key = Inr (Some m)"
    and "\<forall>cfg\<in>set cfgs. toStrCfg env cfg = key"
  shows "requests env cfgs s = (replicate (length cfgs) (Inr m), s)"
  using assms by (induction cfgs) (auto simp: getG4_hit)

lemma getBase_failure_repeats:
  assumes "getBaseG4MaterialWithCache env info s = (Inl f, s0)"
  shows "\<exists>s1. getBaseG4MaterialWithCache env info s0 = (Inl f, s1)"
proof -
  from getBase_cases[OF assms] show ?thesis
  proof (elim disjE conjE exE)
    assume "s0 = s"
    with assms show ?thesis by auto
  next
    fix cf k
    assume a: "getChemicalFormula env info = Inr cf" "base_key env info cf = Inr k"
      "cached_material (base_cache s) (material_table s) k = Inr None"
      "build_base_material env info cf k s = (Inl f, s0)"
    from build_base_material_result[OF a(4)] obtain mat where
      m: "material_table s0 = material_table s @ [Some mat]" "base_cache s0 = base_cache s"
      by auto
    have look: "cached_material (base_cache s0) (material_table s0) k = Inr None"
      using cached_material_append[OF a(3)] m by simp
    have "fst (build_base_material env info cf k s) = Inl f" using a(4) by simp
    then have "fst (build_base_material env info cf k s0) = Inl f"
      by (auto simp: fst_build_base_material split: option.splits)
    then obtain s1 where "build_base_material env info cf k s0 = (Inl f, s1)"
      by (cases "build_base_material env info cf k s0") auto
    with a(1,2) look show ?thesis
      by (auto simp: getBaseG4MaterialWithCache_def)
  qed
qed

lemma getG4_failure_effect:
  assumes "getG4MaterialWithCache env cfg s = (Inl f, s1)"
  shows "cache s1 = cache s \<and> base_cache s1 = base_cache s"
proof -
  from getG4_cases[OF assms] show ?thesis
  proof (elim disjE conjE exE)
    assume b: "build_material env cfg s = (Inl f, s1)"
    show ?thesis
    proof (cases "factory_stage env cfg")
      case (Inl a)
      with b show ?thesis
        by (cases a) (auto simp: build_material_stages log_calls_fields)
    next
      case (Inr a)
      obtain scatter info where a: "a = (scatter, info)" by (cases a) auto
      let ?t = "log_calls [CreateScatter cfg, CreateInfo cfg] s"
      from b Inr a have g: "getBaseG4MaterialWithCache env info ?t = (Inl f, s1)"
        by (auto simp: build_material_stages split: prod.splits sum.splits)
      from getBase_effect[OF g] show ?thesis
        by (auto simp: log_calls_fields)
    qed
  qed simp_all
qed

lemma getG4_failure_repeats:
  assumes "getG4MaterialWithCache env cfg s = (Inl f, s1)"
  shows "\<exists>xs s2. factory_calls s1 = factory_calls s @ xs
           \<and> getG4MaterialWithCache env cfg s1 = (Inl f, s2)
           \<and> factory_calls s2 = factory_calls s1 @ xs
           \<and> (xs = [] \<longrightarrow> libClashDetect env \<noteq> None
                 \<or> cached_material (cache s) (material_table s) (toStrCfg env cfg) = Inl f)"
proof -
  let ?key = "toStrCfg env cfg"
  from getG4_cases[OF assms] show ?thesis
  proof (elim disjE conjE exE)
    fix f' assume "s1 = s" "Inl f = Inl f'" "cached_material (cache s) (material_table s) ?key = Inl f'"
    with assms show ?thesis by (intro exI[of _ "[]"] exI[of _ s]) auto
  next
    fix m assume "(Inl f :: failure + nat) = Inr m"
    then show ?thesis by simp
  next
    assume look: "cached_material (cache s) (material_table s) ?key = Inr None"
      and b: "build_material env cfg s = (Inl f, s1)"
    show ?thesis
    proof (cases "factory_stage env cfg")
      case (Inl a)
      obtain e xs where a: "a = (e, xs)" by (cases a) auto
      from b Inl a have s1: "s1 = log_calls xs s" and f: "f = NCException e"
        by (auto simp: build_material_stages)
      have "cached_material (cache s1) (material_table s1) ?key = Inr None"
        using look by (simp add: s1 log_calls_fields)
      then have "getG4MaterialWithCache env cfg s1 = (Inl f, log_calls xs s1)"
        using Inl a f by (simp add: getG4MaterialWithCache_def build_material_stages)
      moreover have "xs = [] \<longrightarrow> libClashDetect env \<noteq> None"
        using Inl a by (auto simp: factory_stage_def split: option.splits sum.splits if_splits)
      ultimately show ?thesis
        by (intro exI[of _ xs] exI[of _ "log_calls xs s1"]) (simp add: s1 log_calls_fields)
    next
      case (Inr a)
      obtain scatter info where a: "a = (scatter, info)" by (cases a) auto
      let ?xs = "[CreateScatter cfg, CreateInfo cfg]"
      from b Inr a have g: "getBaseG4MaterialWithCache env info (log_calls ?xs s) = (Inl f, s1)"
        by (auto simp: build_material_stages split: prod.splits sum.splits)
      obtain r0 s0 where g0: "getBaseG4MaterialWithCache env info s = (r0, s0)"
        by (cases "getBaseG4MaterialWithCache env info s") auto
      from g g0 have r0: "r0 = Inl f" and s1: "s1 = log_calls ?xs s0"
        by (auto simp: getBase_log)
      from getBase_failure_repeats[OF g0[unfolded r0]] obtain s0' where
        g1: "getBaseG4MaterialWithCache env info s0 = (Inl f, s0')" by blast
      have g2: "getBaseG4MaterialWithCache env info (log_calls ?xs s1)
                  = (Inl f, log_calls ?xs (log_calls ?xs s0'))"
        by (simp add: s1 getBase_log g1)
      have eff: "cache s0 = cache s"
        "material_table s0 = material_table s \<or> (\<exists>mat. material_table s0 = material_table s @ [Some mat])"
        "factory_calls s0 = factory_calls s"
        using getBase_effect[OF g0] by auto
      have "cached_material (cache s0) (material_table s0) ?key = Inr None"
        using eff(1,2) look cached_material_append[OF look] by auto
      then have look1: "cached_material (cache s1) (material_table s1) ?key = Inr None"
        by (simp add: s1 log_calls_fields)
      have "getG4MaterialWithCache env cfg s1 = (Inl f, log_calls ?xs (log_calls ?xs s0'))"
        using look1 Inr a g2 by (simp add: getG4MaterialWithCache_def build_material_stages)
      moreover have "factory_calls s0' = factory_calls s0"
        using getBase_effect[OF g1] by auto
      ultimately show ?thesis
        using eff(3)
        by (intro exI[of _ ?xs] exI[of _ "log_calls ?xs (log_calls ?xs s0')"])
           (simp add: s1 log_calls_fields)
    qed
  qed
qed

lemma getBase_table:
  assumes "getBaseG4MaterialWithCache env info s = (r, s')"
  shows "(material_table s' = material_table s \<and> base_cache s' = base_cache s)
       \<or> (\<exists>k mat. cached_material (base_cache s) (material_table s) k = Inr None
             \<and> material_table s' = material_table s @ [Some mat]
             \<and> mat_name mat = ''NCrystalBaseMat::'' @ k
             \<and> (base_cache s' = base_cache s
                  \<or> base_cache s' = (base_cache s)(k \<mapsto> length (material_table s))))"
proof -
  from getBase_effect[OF assms] show ?thesis
  proof (elim conjE disjE exE)
    fix cf k mat
    assume a: "cached_material (base_cache s) (material_table s) k = Inr None"
      "material_table s' = material_table s @ [Some mat]"
      "mat_name mat = ''NCrystalBaseMat::'' @ k"
      "case r of Inl f \<Rightarrow> base_cache s' = base_cache s
       | Inr b \<Rightarrow> b = length (material_table s) \<and> base_cache s' = (base_cache s)(k \<mapsto> b)"
    from a(4) have "base_cache s' = base_cache s
                  \<or> base_cache s' = (base_cache s)(k \<mapsto> length (material_table s))"
      by (cases r) auto
    with a(1,2,3) show ?thesis by blast
  qed simp
qed

lemma getG4_keeps_base:
  assumes ready: "cached_material (base_cache s) (material_table s) k = Inr (Some b)"
    and run: "getG4MaterialWithCache env cfg s = (r, s')"
  shows "cached_material (base_cache s') (material_table s') k = Inr (Some b)
       \<and> base_constructions k s' = base_constructions k s"
proof -
  from getG4_cases[OF run] show ?thesis
  proof (elim disjE conjE exE)
    assume b: "build_material env cfg s = (r, s')"
    show ?thesis
    proof (cases "factory_stage env cfg")
      case (Inl a)
      with b ready show ?thesis
        by (cases a) (auto simp: build_material_stages log_calls_fields base_constructions_def)
    next
      case (Inr a)
      obtain scatter info where a: "a = (scatter, info)" by (cases a) auto
      let ?t = "log_calls [CreateScatter cfg, CreateInfo cfg] s"
      obtain rb s3 where g: "getBaseG4MaterialWithCache env info ?t = (rb, s3)"
        by (cases "getBaseG4MaterialWithCache env info ?t") auto
      have ready_t: "cached_material (base_cache ?t) (material_table ?t) k = Inr (Some b)"
        using ready by (simp add: log_calls_fields)
      have s3: "cached_material (base_cache s3) (material_table s3) k = Inr (Some b)
                \<and> base_constructions k s3 = base_constructions k s"
      proof -
        from getBase_table[OF g] consider
          (same) "material_table s3 = material_table ?t" "base_cache s3 = base_cache ?t"
        | (built) k' mat where "cached_material (base_cache ?t) (material_table ?t) k' = Inr None"
            "material_table s3 = material_table ?t @ [Some mat]"
            "mat_name mat = ''NCrystalBaseMat::'' @ k'"
            "base_cache s3 = base_cache ?t
             \<or> base_cache s3 = (base_cache ?t)(k' \<mapsto> length (material_table ?t))"
          by blast
        then show ?thesis
        proof cases
          case same
          with ready_t show ?thesis by (simp add: base_constructions_def log_calls_fields)
        next
          case built
          from built(1) ready_t have ne: "k' \<noteq> k" by auto
          have "cached_material (base_cache s3) (material_table s3) k = Inr (Some b)"
            using built(4) built(2) cached_material_append[OF ready_t, of "[Some mat]"] ne
            by (auto simp: cached_material_upd_other)
          moreover have "\<not> is_base_material_for k (Some mat)"
            using built(3) ne by (simp add: is_base_material_for_def)
          then have "base_constructions k s3 = base_constructions k s"
            using built(2) by (simp add: base_constructions_def log_calls_fields)
          ultimately show ?thesis by simp
        qed
      qed
      show ?thesis
      proof (cases rb)
        case (Inl f)
        with b Inr a g have "s' = s3" by (simp add: build_material_stages)
        with s3 show ?thesis by simp
      next
        case (Inr b')
        with b \<open>factory_stage env cfg = Inr a\<close> a g
        have s': "s' = register_material env cfg scatter info b' s3"
          by (simp add: build_material_stages)
        have "\<not> is_base_material_for k (Some (derived_material_ctor env cfg info b'))"
          by (simp add: is_base_material_for_def derived_material_ctor_def)
        then have "base_constructions k s' = base_constructions k s3"
          by (simp add: s' base_constructions_def register_material_fields)
        moreover have "cached_material (base_cache s') (material_table s') k = Inr (Some b)"
          using s3 by (simp add: s' register_material_fields cached_material_append)
        ultimately show ?thesis using s3 by simp
      qed
    qed
  qed (use ready in simp_all)
qed

lemma requests_keep_base:
  assumes "cached_material (base_cache s) (material_table s) k = Inr (Some b)"
  shows "cached_material (base_cache (snd (requests env cfgs s)))
            (material_table (snd (requests env cfgs s))) k = Inr (Some b)
       \<and> base_constructions k (snd (requests env cfgs s)) = base_constructions k s"
  using assms
proof (induction cfgs arbitrary: s)
  case Nil
  then show ?case by simp
next
  case (Cons cfg cfgs)
  obtain r s1 where step: "getG4MaterialWithCache env cfg s = (r, s1)"
    by (cases "getG4MaterialWithCache env cfg s") auto
  from getG4_keeps_base[OF Cons.prems step]
  have 1: "cached_material (base_cache s1) (material_table s1) k = Inr (Some b)"
    and 2: "base_constructions k s1 = base_constructions k s" by simp_all
  from Cons.IH[OF 1] 2 step show ?case
    by (simp add: split_beta)
qed

lemma factory_stage_Inr:
  "factory_stage env cfg = Inr (scatter, info) \<longleftrightarrow>
     libClashDetect env = None \<and> createScatter env cfg = Inr scatter
     \<and> createInfo env cfg = Inr info \<and> hasDensity info"
  by (auto simp: factory_stage_def split: option.splits sum.splits)

lemma getBase_hit:
  assumes "getChemicalFormula env info = Inr cf" "base_key env info cf = Inr k"
    and "cached_material (base_cache s) (material_table s) k = Inr (Some b)"
  shows "getBaseG4MaterialWithCache env info s = (Inr b, s)"
  using assms by (simp add: getBaseG4MaterialWithCache_def)

text \<open>A request that missed the cache and succeeded, in terms of its stages.\<close>

lemma getG4_miss_success:
  assumes "cached_material (cache s) (material_table s) (toStrCfg env cfg) = Inr None"
    and "getG4MaterialWithCache env cfg s = (Inr m, s')"
  shows "\<exists>scatter info b s3.
           factory_stage env cfg = Inr (scatter, info)
           \<and> getBaseG4MaterialWithCache env info
                (log_calls [CreateScatter cfg, CreateInfo cfg] s) = (Inr b, s3)
           \<and> m = length (material_table s3)
           \<and> s' = register_material env cfg scatter info b s3"
proof -
  from assms have b: "build_material env cfg s = (Inr m, s')"
    by (simp add: getG4MaterialWithCache_def)
  show ?thesis
  proof (cases "factory_stage env cfg")
    case (Inl a)
    with b show ?thesis by (cases a) (simp add: build_material_stages)
  next
    case (Inr a)
    obtain scatter info where a: "a = (scatter, info)" by (cases a) auto
    obtain rb s3 where g: "getBaseG4MaterialWithCache env info
        (log_calls [CreateScatter cfg, CreateInfo cfg] s) = (rb, s3)"
      by (cases "getBaseG4MaterialWithCache env info
        (log_calls [CreateScatter cfg, CreateInfo cfg] s)") auto
    from b Inr a g obtain b' where "rb = Inr b'" "m = length (material_table s3)"
      "s' = register_material env cfg scatter info b' s3"
      by (cases rb) (auto simp: build_material_stages)
    with Inr a g show ?thesis by blast
  qed
qed

text \<open>A request that returns an index at or beyond the old end of the table missed.\<close>

lemma getG4_new_index_missed:
  assumes "getG4MaterialWithCache env cfg s = (Inr m, s')"
    and "length (material_table s) \<le> m"
  shows "cached_material (cache s) (material_table s) (toStrCfg env cfg) = Inr None"
proof -
  from getG4_cases[OF assms(1)] show ?thesis
  proof (elim disjE conjE exE)
    fix m' assume "Inr m = (Inr m' :: failure + nat)"
      "cached_material (cache s) (material_table s) (toStrCfg env cfg) = Inr (Some m')"
    with assms(2) show ?thesis by (simp add: cached_material_Some)
  qed simp_all
qed

lemma getBase_table_grows:
  assumes "getBaseG4MaterialWithCache env info s = (r, s')"
  shows "length (material_table s) \<le> length (material_table s')"
  using getBase_table[OF assms] by auto

lemma getBase_new_materials:
  assumes "getBaseG4MaterialWithCache env info s = (r, s')"
    and "length (material_table s) \<le> i" "i < length (material_table s')"
  shows "\<exists>mat. material_table s' ! i = Some mat \<and> mat_temp mat = 293.15 * kelvin env"
proof -
  from getBase_effect[OF assms(1)] show ?thesis
  proof (elim conjE disjE exE)
    assume "material_table s' = material_table s"
    with assms(2,3) show ?thesis by simp
  next
    fix cf k mat
    assume a: "material_table s' = material_table s @ [Some mat]"
      "mat_temp mat = 293.15 * kelvin env"
    with assms(2,3) have "i = length (material_table s)" by simp
    with a show ?thesis by simp
  qed
qed

subsection \<open>Failures that are not NCrystal exceptions\<close>

lemma collect_masses_ok:
  assumes "ndebug env \<or> (\<forall>ef\<in>set composition.
              0 < snd ef * GetAtomicMassAmu env
                    (if fst ef = ''D'' then DeuteriumElement else NistElementName (fst ef)))"
  shows "\<exists>r. collect_masses env composition tot_mass elements = Inr r"
  using assms
  by (induction composition arbitrary: tot_mass elements) (auto simp: Let_def)

lemma add_formula_elements_failure:
  "fst (add_formula_elements env cf mat) = Some f \<Longrightarrow> \<exists>e. f = NCException e"
  by (induction cf arbitrary: mat) (auto simp: Let_def split: if_splits)

lemma add_elements_failure:
  assumes "ndebug env \<or> composition_masses_positive env info"
    and "fst (add_elements env info cf mat) = Some f"
  shows "\<exists>e. f = NCException e"
proof (cases "cf \<noteq> []")
  case True
  with assms(2) show ?thesis
    by (auto simp: add_elements_def dest: add_formula_elements_failure)
next
  case False
  from assms(1) obtain r where "collect_masses env (getComposition info) 0 [] = Inr r"
    using collect_masses_ok[of env "getComposition info" 0 "[]"]
    by (auto simp: composition_masses_positive_def)
  with False assms(2) show ?thesis
    by (cases r) (simp add: add_elements_def add_fraction_elements_def)
qed

lemma cached_material_in_range:
  assumes "\<forall>i\<in>ran c. i < length tbl"
  shows "\<exists>r. cached_material c tbl k = Inr r"
proof (cases "c k")
  case None
  then show ?thesis by (simp add: cached_material_def)
next
  case (Some i)
  then have "i \<in> ran c" by (auto simp: ran_def)
  with assms have "i < length tbl" by blast
  with Some show ?thesis by (cases "tbl ! i") (simp_all add: cached_material_def)
qed

lemma getBase_failure_nc:
  assumes range: "\<forall>i\<in>ran (base_cache s). i < length (material_table s)"
    and pos: "ndebug env \<or> composition_masses_positive env info"
    and run: "getBaseG4MaterialWithCache env info s = (Inl f, s')"
  shows "\<exists>e. f = NCException e"
proof (cases "getChemicalFormula env info")
  case (Inl e)
  with run show ?thesis by (auto simp: getBaseG4MaterialWithCache_def)
next
  case cf: (Inr cf)
  show ?thesis
  proof (cases "base_key env info cf")
    case (Inl e)
    with run cf show ?thesis by (auto simp: getBaseG4MaterialWithCache_def)
  next
    case k: (Inr k)
    from cached_material_in_range[OF range] obtain r where
      look: "cached_material (base_cache s) (material_table s) k = Inr r" by blast
    show ?thesis
    proof (cases r)
      case (Some b)
      with run cf k look show ?thesis by (simp add: getBaseG4MaterialWithCache_def)
    next
      case None
      with run cf k look have "build_base_material env info cf k s = (Inl f, s')"
        by (simp add: getBaseG4MaterialWithCache_def)
      then have "fst (build_base_material env info cf k s) = Inl f" by simp
      then have "fst (add_elements env info cf (base_material_ctor env info cf k)) = Some f"
        by (auto simp: fst_build_base_material split: option.splits)
      from add_elements_failure[OF pos this] show ?thesis .
    qed
  qed
qed

lemma getG4_failure_nc:
  assumes range: "caches_in_range s"
    and pos: "no_assert_abort env"
    and run: "getG4MaterialWithCache env cfg s = (Inl f, s')"
  shows "\<exists>e. f = NCException e"
proof -
  from range have "\<exists>r. cached_material (cache s) (material_table s) (toStrCfg env cfg) = Inr r"
    by (intro cached_material_in_range) (simp add: caches_in_range_def)
  with getG4_cases[OF run] have b: "build_material env cfg s = (Inl f, s')"
    by auto
  show ?thesis
  proof (cases "factory_stage env cfg")
    case (Inl a)
    with b show ?thesis by (cases a) (auto simp: build_material_stages)
  next
    case (Inr a)
    obtain scatter info where a: "a = (scatter, info)" by (cases a) auto
    let ?t = "log_calls [CreateScatter cfg, CreateInfo cfg] s"
    from b Inr a have g: "getBaseG4MaterialWithCache env info ?t = (Inl f, s')"
      by (auto simp: build_material_stages split: prod.splits sum.splits)
    have "createInfo env cfg = Inr info"
      using Inr a by (simp add: factory_stage_Inr)
    with pos have p: "ndebug env \<or> composition_masses_positive env info"
      by (auto simp: no_assert_abort_def)
    have r: "\<forall>i\<in>ran (base_cache ?t). i < length (material_table ?t)"
      using range by (simp add: caches_in_range_def log_calls_fields)
    from getBase_failure_nc[OF r p g] show ?thesis .
  qed
qed

lemma ran_upd_cases: "i \<in> ran (m(k \<mapsto> v)) \<Longrightarrow> i = v \<or> i \<in> ran m"
  by (auto simp: ran_def split: if_splits)

lemma getBase_in_range:
  assumes "caches_in_range s" "getBaseG4MaterialWithCache env info s = (r, s')"
  shows "caches_in_range s'"
proof -
  have c: "cache s' = cache s" using getBase_effect[OF assms(2)] by simp
  from getBase_table[OF assms(2)] show ?thesis
  proof (elim disjE conjE exE)
    assume "material_table s' = material_table s" "base_cache s' = base_cache s"
    with assms(1) c show ?thesis by (simp add: caches_in_range_def)
  next
    fix k mat
    assume t: "material_table s' = material_table s @ [Some mat]"
      and "base_cache s' = base_cache s"
    with assms(1) c show ?thesis by (fastforce simp: caches_in_range_def)
  next
    fix k mat
    assume t: "material_table s' = material_table s @ [Some mat]"
      and bc: "base_cache s' = (base_cache s)(k \<mapsto> length (material_table s))"
    have "i < length (material_table s')" if "i \<in> ran (base_cache s')" for i
      using ran_upd_cases[OF that[unfolded bc]] assms(1) t
      by (fastforce simp: caches_in_range_def)
    moreover have "i < length (material_table s')" if "i \<in> ran (cache s')" for i
      using that assms(1) c t by (fastforce simp: caches_in_range_def)
    ultimately show ?thesis by (simp add: caches_in_range_def)
  qed
qed

lemma register_material_in_range:
  assumes "caches_in_range s"
  shows "caches_in_range (register_material env cfg scatter info b s)"
proof -
  let ?s' = "register_material env cfg scatter info b s"
  have "i < length (material_table ?s')" if "i \<in> ran (base_cache ?s')" for i
    using that assms by (fastforce simp: caches_in_range_def register_material_fields)
  moreover have "i < length (material_table ?s')" if "i \<in> ran (cache ?s')" for i
    using ran_upd_cases[OF that[unfolded register_material_fields]] assms
    by (fastforce simp: caches_in_range_def register_material_fields)
  ultimately show ?thesis by (simp add: caches_in_range_def)
qed

lemma log_calls_in_range: "caches_in_range (log_calls xs s) = caches_in_range s"
  by (simp add: caches_in_range_def log_calls_fields)

lemma getG4_in_range:
  assumes range: "caches_in_range s"
    and run: "getG4MaterialWithCache env cfg s = (r, s')"
  shows "caches_in_range s' \<and> handled_errors s' = handled_errors s"
proof -
  from getG4_cases[OF run] show ?thesis
  proof (elim disjE conjE exE)
    assume b: "build_material env cfg s = (r, s')"
    show ?thesis
    proof (cases "factory_stage env cfg")
      case (Inl a)
      with b range show ?thesis
        by (cases a) (auto simp: build_material_stages log_calls_in_range log_calls_fields)
    next
      case (Inr a)
      obtain scatter info where a: "a = (scatter, info)" by (cases a) auto
      let ?t = "log_calls [CreateScatter cfg, CreateInfo cfg] s"
      obtain rb s3 where g: "getBaseG4MaterialWithCache env info ?t = (rb, s3)"
        by (cases "getBaseG4MaterialWithCache env info ?t") auto
      have s3: "caches_in_range s3"
        using getBase_in_range[OF _ g] range by (simp add: log_calls_in_range)
      have h3: "handled_errors s3 = handled_errors s"
        using getBase_effect[OF g] by (simp add: log_calls_fields)
      show ?thesis
      proof (cases rb)
        case (Inl f)
        with b Inr a g have "s' = s3" by (simp add: build_material_stages)
        with s3 h3 show ?thesis by simp
      next
        case (Inr b')
        with b \<open>factory_stage env cfg = Inr a\<close> a g
        have "s' = register_material env cfg scatter info b' s3"
          by (simp add: build_material_stages)
        with s3 h3 show ?thesis
          by (simp add: register_material_in_range register_material_fields)
      qed
    qed
  qed (use range in simp_all)
qed

subsection \<open>Entries of the cache of derived materials persist\<close>

lemma base_material_not_derived:
  "mat_name mat = ''NCrystalBaseMat::'' @ k \<Longrightarrow> \<not> is_derived_material_for key (Some mat)"
  by (simp add: is_derived_material_for_def)

lemma derived_material_other_key:
  "toStrCfg env cfg \<noteq> key \<Longrightarrow>
     \<not> is_derived_material_for key (Some (derived_material_ctor env cfg info b))"
  by (simp add: is_derived_material_for_def derived_material_ctor_def)

lemma getBase_keeps_ready:
  assumes ready: "cached_material (cache s) (material_table s) key = Inr (Some m)"
    and run: "getBaseG4MaterialWithCache env info s = (r, s')"
  shows "cached_material (cache s') (material_table s') key = Inr (Some m)
       \<and> material_table s' ! m = material_table s ! m
       \<and> derived_constructions key s' = derived_constructions key s"
proof -
  from ready have m: "m < length (material_table s)" by (simp add: cached_material_Some)
  from getBase_effect[OF run] have c: "cache s' = cache s" by simp
  from getBase_table[OF run] consider
    (same) "material_table s' = material_table s"
  | (built) k mat where "material_table s' = material_table s @ [Some mat]"
      "mat_name mat = ''NCrystalBaseMat::'' @ k"
    by blast
  then show ?thesis
  proof cases
    case same
    with c ready show ?thesis by (simp add: derived_constructions_def)
  next
    case a: built
    from a(1) c cached_material_append[OF ready, of "[Some mat]"]
    have "cached_material (cache s') (material_table s') key = Inr (Some m)" by simp
    moreover from a(1) m have "material_table s' ! m = material_table s ! m"
      by (simp add: nth_append)
    moreover from a(1) base_material_not_derived[OF a(2), of key]
    have "derived_constructions key s' = derived_constructions key s"
      by (simp add: derived_constructions_def)
    ultimately show ?thesis by simp
  qed
qed

lemma getG4_keeps_ready:
  assumes ready: "cached_material (cache s) (material_table s) key = Inr (Some m)"
    and run: "getG4MaterialWithCache env cfg s = (r, s')"
  shows "cached_material (cache s') (material_table s') key = Inr (Some m)
       \<and> material_table s' ! m = material_table s ! m
       \<and> derived_constructions key s' = derived_constructions key s"
proof -
  from getG4_cases[OF run] show ?thesis
  proof (elim disjE conjE exE)
    assume miss: "cached_material (cache s) (material_table s) (toStrCfg env cfg) = Inr None"
      and b: "build_material env cfg s = (r, s')"
    from miss ready have ne: "toStrCfg env cfg \<noteq> key" by auto
    show ?thesis
    proof (cases "factory_stage env cfg")
      case (Inl a)
      with b ready show ?thesis
        by (cases a) (auto simp: build_material_stages log_calls_fields derived_constructions_def)
    next
      case (Inr a)
      obtain scatter info where a: "a = (scatter, info)" by (cases a) auto
      let ?t = "log_calls [CreateScatter cfg, CreateInfo cfg] s"
      obtain rb s3 where g: "getBaseG4MaterialWithCache env info ?t = (rb, s3)"
        by (cases "getBaseG4MaterialWithCache env info ?t") auto
      have ready_t: "cached_material (cache ?t) (material_table ?t) key = Inr (Some m)"
        using ready by (simp add: log_calls_fields)
      from getBase_keeps_ready[OF ready_t g]
      have s3: "cached_material (cache s3) (material_table s3) key = Inr (Some m)"
        "material_table s3 ! m = material_table s ! m"
        "derived_constructions key s3 = derived_constructions key s"
        by (simp_all add: log_calls_fields derived_constructions_def)
      show ?thesis
      proof (cases rb)
        case (Inl f)
        with b Inr a g have "s' = s3" by (simp add: build_material_stages)
        with s3 show ?thesis by simp
      next
        case (Inr b')
        with b \<open>factory_stage env cfg = Inr a\<close> a g
        have s': "s' = register_material env cfg scatter info b' s3"
          by (simp add: build_material_stages)
        from s3(1) have m: "m < length (material_table s3)" by (simp add: cached_material_Some)
        have "cached_material (cache s') (material_table s') key = Inr (Some m)"
          using cached_material_append[OF s3(1)] ne
          by (simp add: s' register_material_fields cached_material_upd_other)
        moreover have "material_table s' ! m = material_table s ! m"
          using m s3(2) by (simp add: s' register_material_fields nth_append)
        moreover have "derived_constructions key s' = derived_constructions key s"
          using derived_material_other_key[OF ne, of info b'] s3(3)
          by (simp add: s' derived_constructions_def register_material_fields)
        ultimately show ?thesis by simp
      qed
    qed
  qed (use ready in simp_all)
qed

lemma requests_keep_ready:
  assumes "cached_material (cache s) (material_table s) key = Inr (Some m)"
  shows "cached_material (cache (snd (requests env cfgs s)))
            (material_table (snd (requests env cfgs s))) key = Inr (Some m)
       \<and> material_table (snd (requests env cfgs s)) ! m = material_table s ! m
       \<and> derived_constructions key (snd (requests env cfgs s)) = derived_constructions key s"
  using assms
proof (induction cfgs arbitrary: s)
  case Nil
  then show ?case by simp
next
  case (Cons cfg cfgs)
  obtain r s1 where step: "getG4MaterialWithCache env cfg s = (r, s1)"
    by (cases "getG4MaterialWithCache env cfg s") auto
  from getG4_keeps_ready[OF Cons.prems step]
  have 1: "cached_material (cache s1) (material_table s1) key = Inr (Some m)"
    and 2: "material_table s1 ! m = material_table s ! m"
    and 3: "derived_constructions key s1 = derived_constructions key s" by simp_all
  from Cons.IH[OF 1] 2 3 step show ?case
    by (simp add: split_beta)
qed

text \<open>The object a request constructs, when it returns an index beyond the old table.\<close>

lemma getG4_new_object:
  assumes run: "getG4MaterialWithCache env cfg s = (Inr m, s')"
    and new: "length (material_table s) \<le> m"
  shows "\<exists>info b. createInfo env cfg = Inr info
           \<and> material_table s' ! m = Some (derived_material_ctor env cfg info b)"
proof -
  from getG4_miss_success[OF getG4_new_index_missed[OF run new] run]
  obtain scatter info b s3 where a: "factory_stage env cfg = Inr (scatter, info)"
    "m = length (material_table s3)" "s' = register_material env cfg scatter info b s3"
    by blast
  from a(1) have "createInfo env cfg = Inr info" by (simp add: factory_stage_Inr)
  moreover from a(2,3) have "material_table s' ! m = Some (derived_material_ctor env cfg info b)"
    by (simp add: register_material_fields)
  ultimately show ?thesis by blast
qed

lemma getG4_handled_errors:
  assumes run: "getG4MaterialWithCache env cfg s = (r, s')"
  shows "handled_errors s' = handled_errors s"
proof -
  from getG4_cases[OF run] show ?thesis
  proof (elim disjE conjE exE)
    assume b: "build_material env cfg s = (r, s')"
    show ?thesis
    proof (cases "factory_stage env cfg")
      case (Inl a)
      with b show ?thesis by (cases a) (auto simp: build_material_stages log_calls_fields)
    next
      case (Inr a)
      obtain scatter info where a: "a = (scatter, info)" by (cases a) auto
      let ?t = "log_calls [CreateScatter cfg, CreateInfo cfg] s"
      obtain rb s3 where g: "getBaseG4MaterialWithCache env info ?t = (rb, s3)"
        by (cases "getBaseG4MaterialWithCache env info ?t") auto
      from getBase_effect[OF g] have h: "handled_errors s3 = handled_errors s"
        by (simp add: log_calls_fields)
      from b Inr a g h show ?thesis
        by (cases rb) (auto simp: build_material_stages register_material_fields)
    qed
  qed simp_all
qed

subsection \<open>Base materials when no assertion is compiled in\<close>

lemma add_elements_ndebug:
  assumes "ndebug env"
  shows "fst (add_elements env info cf mat) = None"
proof (cases "cf \<noteq> []")
  case True
  with assms show ?thesis by (simp add: add_elements_def add_formula_elements_ndebug)
next
  case False
  from assms obtain r where "collect_masses env (getComposition info) 0 [] = Inr r"
    using collect_masses_ok[of env "getComposition info" 0 "[]"] by blast
  with False show ?thesis
    by (cases r) (simp add: add_elements_def add_fraction_elements_def)
qed

text \<open>
  Without assertions the construction of a base material cannot fail, so a narrow key
  either has its base material in the cache or has none in the table, and never more
  than one.
\<close>

lemma getBase_once:
  assumes nd: "ndebug env"
    and le: "base_constructions k s \<le> 1"
    and rz: "(\<exists>b. cached_material (base_cache s) (material_table s) k = Inr (Some b))
             \<or> base_constructions k s = 0"
    and run: "getBaseG4MaterialWithCache env info s = (r, s')"
  shows "base_constructions k s' \<le> 1
       \<and> ((\<exists>b. cached_material (base_cache s') (material_table s') k = Inr (Some b))
          \<or> base_constructions k s' = 0)"
proof -
  from getBase_cases[OF run] consider
    (same) "s' = s"
  | (built) cf k' where "cached_material (base_cache s) (material_table s) k' = Inr None"
      "build_base_material env info cf k' s = (r, s')"
    by blast
  then show ?thesis
  proof cases
    case same
    with le rz show ?thesis by simp
  next
    case built
    from built(2) have "fst (build_base_material env info cf k' s) = r" by simp
    with nd have r: "r = Inr (length (material_table s))"
      by (simp add: fst_build_base_material add_elements_ndebug)
    from build_base_material_result[OF built(2)] r obtain mat where
      tbl: "material_table s' = material_table s @ [Some mat]"
      and name: "mat_name mat = ''NCrystalBaseMat::'' @ k'"
      and origin: "\<exists>n. mat_origin mat = FromComponents n"
      and bc: "base_cache s' = (base_cache s)(k' \<mapsto> length (material_table s))"
      by auto
    show ?thesis
    proof (cases "k' = k")
      case True
      with built(1) rz have zero: "base_constructions k s = 0" by auto
      from name origin True have "is_base_material_for k (Some mat)"
        by (auto simp: is_base_material_for_def)
      with zero tbl have "base_constructions k s' = 1"
        by (simp add: base_constructions_def)
      moreover have "cached_material (base_cache s') (material_table s') k
                       = Inr (Some (length (material_table s)))"
        using True by (simp add: bc tbl cached_material_def)
      ultimately show ?thesis by simp
    next
      case False
      from name False have "\<not> is_base_material_for k (Some mat)"
        by (simp add: is_base_material_for_def)
      with tbl have same_count: "base_constructions k s' = base_constructions k s"
        by (simp add: base_constructions_def)
      have "cached_material (base_cache s') (material_table s') k = Inr (Some b)"
        if "cached_material (base_cache s) (material_table s) k = Inr (Some b)" for b
        using cached_material_append[OF that, of "[Some mat]"] False
        by (simp add: bc tbl cached_material_upd_other)
      with same_count le rz show ?thesis by auto
    qed
  qed
qed

lemma getG4_once:
  assumes nd: "ndebug env"
    and le: "base_constructions k s \<le> 1"
    and rz: "(\<exists>b. cached_material (base_cache s) (material_table s) k = Inr (Some b))
             \<or> base_constructions k s = 0"
    and run: "getG4MaterialWithCache env cfg s = (r, s')"
  shows "base_constructions k s' \<le> 1
       \<and> ((\<exists>b. cached_material (base_cache s') (material_table s') k = Inr (Some b))
          \<or> base_constructions k s' = 0)"
proof -
  from getG4_cases[OF run] show ?thesis
  proof (elim disjE conjE exE)
    assume b: "build_material env cfg s = (r, s')"
    show ?thesis
    proof (cases "factory_stage env cfg")
      case (Inl a)
      with b le rz show ?thesis
        by (cases a) (auto simp: build_material_stages log_calls_fields base_constructions_def)
    next
      case (Inr a)
      obtain scatter info where a: "a = (scatter, info)" by (cases a) auto
      let ?t = "log_calls [CreateScatter cfg, CreateInfo cfg] s"
      obtain rb s3 where g: "getBaseG4MaterialWithCache env info ?t = (rb, s3)"
        by (cases "getBaseG4MaterialWithCache env info ?t") auto
      have le_t: "base_constructions k ?t \<le> 1"
        using le by (simp add: base_constructions_def log_calls_fields)
      have rz_t: "(\<exists>b. cached_material (base_cache ?t) (material_table ?t) k = Inr (Some b))
                  \<or> base_constructions k ?t = 0"
        using rz by (simp add: base_constructions_def log_calls_fields)
      from getBase_once[OF nd le_t rz_t g]
      have s3: "base_constructions k s3 \<le> 1"
        "(\<exists>b. cached_material (base_cache s3) (material_table s3) k = Inr (Some b))
           \<or> base_constructions k s3 = 0"
        by simp_all
      show ?thesis
      proof (cases rb)
        case (Inl f)
        with b Inr a g have "s' = s3" by (simp add: build_material_stages)
        with s3 show ?thesis by simp
      next
        case (Inr b')
        with b \<open>factory_stage env cfg = Inr a\<close> a g
        have s': "s' = register_material env cfg scatter info b' s3"
          by (simp add: build_material_stages)
        have "\<not> is_base_material_for k (Some (derived_material_ctor env cfg info b'))"
          by (simp add: is_base_material_for_def derived_material_ctor_def)
        then have count: "base_constructions k s' = base_constructions k s3"
          by (simp add: s' base_constructions_def register_material_fields)
        have "cached_material (base_cache s') (material_table s') k = Inr (Some b)"
          if "cached_material (base_cache s3) (material_table s3) k = Inr (Some b)" for b
          using that by (simp add: s' register_material_fields cached_material_append)
        with count s3 show ?thesis by auto
      qed
    qed
  qed (use le rz in simp_all)
qed

lemma requests_once:
  assumes nd: "ndebug env"
    and le: "base_constructions k s \<le> 1"
    and rz: "(\<exists>b. cached_material (base_cache s) (material_table s) k = Inr (Some b))
             \<or> base_constructions k s = 0"
  shows "base_constructions k (snd (requests env cfgs s)) \<le> 1"
  using le rz
proof (induction cfgs arbitrary: s)
  case Nil
  then show ?case by simp
next
  case (Cons cfg cfgs)
  obtain r s1 where step: "getG4MaterialWithCache env cfg s = (r, s1)"
    by (cases "getG4MaterialWithCache env cfg s") auto
  from getG4_once[OF nd Cons.prems step]
  have 1: "base_constructions k s1 \<le> 1"
    and 2: "(\<exists>b. cached_material (base_cache s1) (material_table s1) k = Inr (Some b))
            \<or> base_constructions k s1 = 0"
    by simp_all
  from Cons.IH[OF 1 2] step show ?case
    by (simp add: split_beta)
qed

lemma requests_once_initial:
  assumes "ndebug env"
  shows "base_constructions k (snd (requests env cfgs initial_state)) \<le> 1"
  using assms by (intro requests_once) (simp_all add: base_constructions_def initial_state_def)

subsection \<open>At most one derived material for a key\<close>

lemma getBase_derived_constructions:
  assumes run: "getBaseG4MaterialWithCache env info s = (r, s')"
  shows "derived_constructions key s' = derived_constructions key s"
proof -
  from getBase_table[OF run] consider
    (same) "material_table s' = material_table s"
  | (built) k mat where "material_table s' = material_table s @ [Some mat]"
      "mat_name mat = ''NCrystalBaseMat::'' @ k"
    by blast
  then show ?thesis
  proof cases
    case same
    then show ?thesis by (simp add: derived_constructions_def)
  next
    case built
    from built(1) base_material_not_derived[OF built(2), of key] show ?thesis
      by (simp add: derived_constructions_def)
  qed
qed

text \<open>
  A derived material is constructed after everything that can fail, and is entered in
  the cache at once: a key either has its material in the cache or has none in the
  table, and never more than one.
\<close>

lemma getG4_derived_once:
  assumes le: "derived_constructions key s \<le> 1"
    and rz: "(\<exists>m. cached_material (cache s) (material_table s) key = Inr (Some m))
             \<or> derived_constructions key s = 0"
    and run: "getG4MaterialWithCache env cfg s = (r, s')"
  shows "derived_constructions key s' \<le> 1
       \<and> ((\<exists>m. cached_material (cache s') (material_table s') key = Inr (Some m))
          \<or> derived_constructions key s' = 0)"
proof (cases "\<exists>m. cached_material (cache s) (material_table s) key = Inr (Some m)")
  case True
  then obtain m where "cached_material (cache s) (material_table s) key = Inr (Some m)"
    by blast
  from getG4_keeps_ready[OF this run] le show ?thesis by auto
next
  case False
  with rz have zero: "derived_constructions key s = 0" by simp
  from getG4_cases[OF run] show ?thesis
  proof (elim disjE conjE exE)
    assume b: "build_material env cfg s = (r, s')"
    show ?thesis
    proof (cases "factory_stage env cfg")
      case (Inl a)
      with b zero show ?thesis
        by (cases a)
           (auto simp: build_material_stages log_calls_fields derived_constructions_def)
    next
      case (Inr a)
      obtain scatter info where a: "a = (scatter, info)" by (cases a) auto
      let ?t = "log_calls [CreateScatter cfg, CreateInfo cfg] s"
      obtain rb s3 where g: "getBaseG4MaterialWithCache env info ?t = (rb, s3)"
        by (cases "getBaseG4MaterialWithCache env info ?t") auto
      from getBase_derived_constructions[OF g, of key] zero
      have zero3: "derived_constructions key s3 = 0"
        by (simp add: derived_constructions_def log_calls_fields)
      show ?thesis
      proof (cases rb)
        case (Inl f)
        with b Inr a g have "s' = s3" by (simp add: build_material_stages)
        with zero3 show ?thesis by simp
      next
        case (Inr b')
        with b \<open>factory_stage env cfg = Inr a\<close> a g
        have s': "s' = register_material env cfg scatter info b' s3"
          by (simp add: build_material_stages)
        show ?thesis
        proof (cases "toStrCfg env cfg = key")
          case True
          have "cached_material (cache s') (material_table s') key
                  = Inr (Some (length (material_table s3)))"
            using True by (simp add: s' register_material_fields cached_material_def)
          moreover from zero3 have "derived_constructions key s' \<le> 1"
            by (simp add: s' derived_constructions_def register_material_fields)
          ultimately show ?thesis by blast
        next
          case False
          from derived_material_other_key[OF False, of info b'] zero3
          have "derived_constructions key s' = 0"
            by (simp add: s' derived_constructions_def register_material_fields)
          then show ?thesis by simp
        qed
      qed
    qed
  qed (use zero in simp_all)
qed

lemma requests_derived_once:
  assumes le: "derived_constructions key s \<le> 1"
    and rz: "(\<exists>m. cached_material (cache s) (material_table s) key = Inr (Some m))
             \<or> derived_constructions key s = 0"
  shows "derived_constructions key (snd (requests env cfgs s)) \<le> 1"
  using le rz
proof (induction cfgs arbitrary: s)
  case Nil
  then show ?case by simp
next
  case (Cons cfg cfgs)
  obtain r s1 where step: "getG4MaterialWithCache env cfg s = (r, s1)"
    by (cases "getG4MaterialWithCache env cfg s") auto
  from getG4_derived_once[OF Cons.prems step]
  have 1: "derived_constructions key s1 \<le> 1"
    and 2: "(\<exists>m. cached_material (cache s1) (material_table s1) key = Inr (Some m))
            \<or> derived_constructions key s1 = 0"
    by simp_all
  from Cons.IH[OF 1 2] step show ?case
    by (simp add: split_beta)
qed

lemma requests_derived_once_initial:
  "derived_constructions key (snd (requests env cfgs initial_state)) \<le> 1"
  by (intro requests_derived_once) (simp_all add: derived_constructions_def initial_state_def)

section \<open>The cache of derived materials\<close>

text \<open>
  Claim C4. When a request for a configuration returns a material, that material is an
  object in the material table, and it is the derived material constructed for the
  configuration when the request constructed it. From then on, after any further
  requests whatever their configurations and results, a request for a configuration with
  the same canonical string returns the same object (the same index of the material
  table, holding the same object) and leaves the whole state as it is: no factory is
  called and no material is constructed.
\<close>

theorem same_configuration_same_instance:
  assumes first: "getG4MaterialWithCache env cfg1 s = (Inr m, s1)"
    and same: "toStrCfg env cfg2 = toStrCfg env cfg1"
  shows "m < length (material_table s1) \<and> material_table s1 ! m \<noteq> None
       \<and> (length (material_table s) \<le> m \<longrightarrow>
            (\<exists>info b. createInfo env cfg1 = Inr info
               \<and> material_table s1 ! m = Some (derived_material_ctor env cfg1 info b)))
       \<and> getG4MaterialWithCache env cfg2 s1 = (Inr m, s1)
       \<and> (\<forall>cfgs.
            getG4MaterialWithCache env cfg2 (snd (requests env cfgs s1))
              = (Inr m, snd (requests env cfgs s1))
            \<and> m < length (material_table (snd (requests env cfgs s1)))
            \<and> material_table (snd (requests env cfgs s1)) ! m = material_table s1 ! m)"
proof -
  let ?key = "toStrCfg env cfg1"
  from getG4_ready[OF first]
  have ready: "cached_material (cache s1) (material_table s1) ?key = Inr (Some m)" .
  then have live: "m < length (material_table s1)" "material_table s1 ! m \<noteq> None"
    by (simp_all add: cached_material_Some)
  have new: "length (material_table s) \<le> m \<longrightarrow>
            (\<exists>info b. createInfo env cfg1 = Inr info
               \<and> material_table s1 ! m = Some (derived_material_ctor env cfg1 info b))"
    using getG4_new_object[OF first] by blast
  have next_request: "getG4MaterialWithCache env cfg2 s1 = (Inr m, s1)"
    using ready same by (simp add: getG4_hit)
  have later: "getG4MaterialWithCache env cfg2 (snd (requests env cfgs s1))
              = (Inr m, snd (requests env cfgs s1))
            \<and> m < length (material_table (snd (requests env cfgs s1)))
            \<and> material_table (snd (requests env cfgs s1)) ! m = material_table s1 ! m"
    for cfgs
  proof -
    let ?s2 = "snd (requests env cfgs s1)"
    from requests_keep_ready[OF ready, of env cfgs]
    have r2: "cached_material (cache ?s2) (material_table ?s2) ?key = Inr (Some m)"
      and t2: "material_table ?s2 ! m = material_table s1 ! m" by simp_all
    from r2 same have "getG4MaterialWithCache env cfg2 ?s2 = (Inr m, ?s2)"
      by (simp add: getG4_hit)
    moreover from r2 have "m < length (material_table ?s2)"
      by (simp add: cached_material_Some)
    ultimately show ?thesis using t2 by simp
  qed
  from live new next_request later show ?thesis by blast
qed

text \<open>
  The theorem at aluminium, requested first as \<open>Al_sg225.ncmat;dcutoff=1.5\<close> in the
  initial state: the request returns the material with index 1 (index 0 is the base
  material), which has the name of the configuration. A request with blanks around
  the semicolon returns index 1 and changes nothing, also after requests for corundum and
  for a material without density, when the table has four entries.
\<close>

theorem same_configuration_same_instance_witness:
  "fst (getG4MaterialWithCache sample_env ''Al_sg225.ncmat;dcutoff=1.5''
          (initial_state :: (string, string) g4state)) = Inr 1
   \<and> toStrCfg sample_env ''Al_sg225.ncmat ; dcutoff=1.5''
       = toStrCfg sample_env ''Al_sg225.ncmat;dcutoff=1.5''
   \<and> map_option mat_name
         (material_table
            (snd (getG4MaterialWithCache sample_env ''Al_sg225.ncmat;dcutoff=1.5''
                    (initial_state :: (string, string) g4state))) ! 1)
       = Some ''NCrystal::Al_sg225.ncmat;dcutoff=1.5''
   \<and> getG4MaterialWithCache sample_env ''Al_sg225.ncmat ; dcutoff=1.5''
         (snd (getG4MaterialWithCache sample_env ''Al_sg225.ncmat;dcutoff=1.5'' initial_state))
       = (Inr 1, snd (getG4MaterialWithCache sample_env ''Al_sg225.ncmat;dcutoff=1.5''
                        initial_state))
   \<and> length (material_table
         (snd (requests sample_env [''Al2O3_sg167_Corundum.ncmat'', ''nodensity.ncmat'']
            (snd (getG4MaterialWithCache sample_env ''Al_sg225.ncmat;dcutoff=1.5''
                    (initial_state :: (string, string) g4state)))))) = 4
   \<and> getG4MaterialWithCache sample_env ''Al_sg225.ncmat ; dcutoff=1.5''
         (snd (requests sample_env [''Al2O3_sg167_Corundum.ncmat'', ''nodensity.ncmat'']
            (snd (getG4MaterialWithCache sample_env ''Al_sg225.ncmat;dcutoff=1.5''
                    initial_state))))
       = (Inr 1,
          snd (requests sample_env [''Al2O3_sg167_Corundum.ncmat'', ''nodensity.ncmat'']
            (snd (getG4MaterialWithCache sample_env ''Al_sg225.ncmat;dcutoff=1.5''
                    initial_state))))"
proof -
  define s1 where "s1 = snd (getG4MaterialWithCache sample_env ''Al_sg225.ncmat;dcutoff=1.5''
                               (initial_state :: (string, string) g4state))"
  have e1: "fst (getG4MaterialWithCache sample_env ''Al_sg225.ncmat;dcutoff=1.5''
                   (initial_state :: (string, string) g4state)) = Inr 1"
    by code_simp
  have run: "getG4MaterialWithCache sample_env ''Al_sg225.ncmat;dcutoff=1.5'' initial_state
               = (Inr 1, s1)"
    using e1 by (simp add: s1_def prod_eq_iff)
  have key: "toStrCfg sample_env ''Al_sg225.ncmat ; dcutoff=1.5''
               = toStrCfg sample_env ''Al_sg225.ncmat;dcutoff=1.5''"
    by code_simp
  have name: "map_option mat_name
         (material_table
            (snd (getG4MaterialWithCache sample_env ''Al_sg225.ncmat;dcutoff=1.5''
                    (initial_state :: (string, string) g4state))) ! 1)
       = Some ''NCrystal::Al_sg225.ncmat;dcutoff=1.5''"
    by code_simp
  have len: "length (material_table
         (snd (requests sample_env [''Al2O3_sg167_Corundum.ncmat'', ''nodensity.ncmat'']
            (snd (getG4MaterialWithCache sample_env ''Al_sg225.ncmat;dcutoff=1.5''
                    (initial_state :: (string, string) g4state)))))) = 4"
    by code_simp
  note inst = same_configuration_same_instance[OF run key]
  note next_request = inst[THEN conjunct2, THEN conjunct2, THEN conjunct2, THEN conjunct1]
  note later = inst[THEN conjunct2, THEN conjunct2, THEN conjunct2, THEN conjunct2,
      THEN spec, of "[''Al2O3_sg167_Corundum.ncmat'', ''nodensity.ncmat'']", THEN conjunct1]
  show ?thesis
    by (intro conjI e1 key name next_request[unfolded s1_def] len later[unfolded s1_def])
qed

text \<open>
  Claim C2, as the code has it. Once the cache of derived materials has an entry for a
  key whose material is in the material table, the entry stays, whatever is requested
  afterwards: after any sequence of requests, a request with that key returns that
  material and changes nothing, the object in the table is the same, and the number of
  derived materials constructed for the key has not grown. The same holds for the cache
  of base materials: once it has an entry for a narrow key whose material is in the
  table, after any sequence of requests the lookup of a base material with that key
  returns that material and changes nothing, and the number of base materials
  constructed for the key has not grown. A request that returns a material leaves such
  an entry behind, in either cache. A request that fails leaves both caches as they
  were: nothing records the failure. Repeated in the state it left, the request fails in
  the same way after calling the same factories again; it calls none only when the
  library clash detection or the cache lookup itself is what failed. Whatever is
  requested from the initial state on, the material table never has more than one
  derived material for a key.
\<close>

theorem ready_entry_is_reused:
  "(cached_material (cache s) (material_table s) key = Inr (Some m) \<longrightarrow>
      (\<forall>cfgs cfg. toStrCfg env cfg = key \<longrightarrow>
         getG4MaterialWithCache env cfg (snd (requests env cfgs s))
           = (Inr m, snd (requests env cfgs s))
         \<and> material_table (snd (requests env cfgs s)) ! m = material_table s ! m
         \<and> derived_constructions key (snd (requests env cfgs s))
             = derived_constructions key s))
   \<and> (cached_material (base_cache s) (material_table s) k = Inr (Some b) \<longrightarrow>
      (\<forall>cfgs info cf. getChemicalFormula env info = Inr cf \<and> base_key env info cf = Inr k \<longrightarrow>
         getBaseG4MaterialWithCache env info (snd (requests env cfgs s))
           = (Inr b, snd (requests env cfgs s))
         \<and> base_constructions k (snd (requests env cfgs s)) = base_constructions k s))
   \<and> (\<forall>cfg m' s'. getG4MaterialWithCache env cfg s = (Inr m', s') \<longrightarrow>
         cached_material (cache s') (material_table s') (toStrCfg env cfg) = Inr (Some m'))
   \<and> (\<forall>info b' s'. getBaseG4MaterialWithCache env info s = (Inr b', s') \<longrightarrow>
         (\<exists>cf k'. getChemicalFormula env info = Inr cf \<and> base_key env info cf = Inr k'
            \<and> cached_material (base_cache s') (material_table s') k' = Inr (Some b')))
   \<and> (\<forall>cfg f s'. getG4MaterialWithCache env cfg s = (Inl f, s') \<longrightarrow>
         cache s' = cache s \<and> base_cache s' = base_cache s
         \<and> (\<exists>xs s2. factory_calls s' = factory_calls s @ xs
               \<and> getG4MaterialWithCache env cfg s' = (Inl f, s2)
               \<and> factory_calls s2 = factory_calls s' @ xs
               \<and> (xs = [] \<longrightarrow> libClashDetect env \<noteq> None
                     \<or> cached_material (cache s) (material_table s) (toStrCfg env cfg)
                         = Inl f)))
   \<and> (\<forall>cfgs key'. derived_constructions key'
                      (snd (requests env cfgs (initial_state :: ('cfg, 'sc) g4state))) \<le> 1)"
proof -
  have derived:"getG4MaterialWithCache env cfg (snd (requests env cfgs s))
           = (Inr m, snd (requests env cfgs s))
         \<and> material_table (snd (requests env cfgs s)) ! m = material_table s ! m
         \<and> derived_constructions key (snd (requests env cfgs s))
             = derived_constructions key s"
    if ready: "cached_material (cache s) (material_table s) key = Inr (Some m)"
      and same: "toStrCfg env cfg = key" for cfgs cfg
  proof -
    let ?s2 = "snd (requests env cfgs s)"
    from requests_keep_ready[OF ready, of env cfgs]
    have r2: "cached_material (cache ?s2) (material_table ?s2) key = Inr (Some m)"
      and rest: "material_table ?s2 ! m = material_table s ! m"
        "derived_constructions key ?s2 = derived_constructions key s" by simp_all
    from r2 same have "getG4MaterialWithCache env cfg ?s2 = (Inr m, ?s2)"
      by (simp add: getG4_hit)
    with rest show ?thesis by simp
  qed
  have base: "getBaseG4MaterialWithCache env info (snd (requests env cfgs s))
           = (Inr b, snd (requests env cfgs s))
         \<and> base_constructions k (snd (requests env cfgs s)) = base_constructions k s"
    if ready: "cached_material (base_cache s) (material_table s) k = Inr (Some b)"
      and cf: "getChemicalFormula env info = Inr cf" and k: "base_key env info cf = Inr k"
    for cfgs info cf
  proof -
    let ?s2 = "snd (requests env cfgs s)"
    from requests_keep_base[OF ready, of env cfgs]
    have r2: "cached_material (base_cache ?s2) (material_table ?s2) k = Inr (Some b)"
      and n: "base_constructions k ?s2 = base_constructions k s" by simp_all
    from getBase_hit[OF cf k r2] n show ?thesis by simp
  qed
  have success: "cached_material (cache s') (material_table s') (toStrCfg env cfg)
                   = Inr (Some m')"
    if "getG4MaterialWithCache env cfg s = (Inr m', s')" for cfg m' s'
    using that by (rule getG4_ready)
  have base_success: "\<exists>cf k'. getChemicalFormula env info = Inr cf
            \<and> base_key env info cf = Inr k'
            \<and> cached_material (base_cache s') (material_table s') k' = Inr (Some b')"
    if "getBaseG4MaterialWithCache env info s = (Inr b', s')" for info b' s'
    using that by (rule getBase_ready)
  have failure: "cache s' = cache s \<and> base_cache s' = base_cache s
         \<and> (\<exists>xs s2. factory_calls s' = factory_calls s @ xs
               \<and> getG4MaterialWithCache env cfg s' = (Inl f, s2)
               \<and> factory_calls s2 = factory_calls s' @ xs
               \<and> (xs = [] \<longrightarrow> libClashDetect env \<noteq> None
                     \<or> cached_material (cache s) (material_table s) (toStrCfg env cfg)
                         = Inl f))"
    if run: "getG4MaterialWithCache env cfg s = (Inl f, s')" for cfg f s'
    using getG4_failure_effect[OF run] getG4_failure_repeats[OF run] by simp
  show ?thesis
  proof (intro conjI impI allI)
    fix cfgs cfg
    assume "cached_material (cache s) (material_table s) key = Inr (Some m)"
      "toStrCfg env cfg = key"
    from derived[OF this, of cfgs]
    show "getG4MaterialWithCache env cfg (snd (requests env cfgs s))
           = (Inr m, snd (requests env cfgs s))"
      "material_table (snd (requests env cfgs s)) ! m = material_table s ! m"
      "derived_constructions key (snd (requests env cfgs s)) = derived_constructions key s"
      by simp_all
  next
    fix cfgs info cf
    assume "cached_material (base_cache s) (material_table s) k = Inr (Some b)"
      "getChemicalFormula env info = Inr cf \<and> base_key env info cf = Inr k"
    then have "getBaseG4MaterialWithCache env info (snd (requests env cfgs s))
           = (Inr b, snd (requests env cfgs s))
         \<and> base_constructions k (snd (requests env cfgs s)) = base_constructions k s"
      using base by blast
    then show "getBaseG4MaterialWithCache env info (snd (requests env cfgs s))
           = (Inr b, snd (requests env cfgs s))"
      "base_constructions k (snd (requests env cfgs s)) = base_constructions k s"
      by simp_all
  next
    fix cfg m' s'
    assume "getG4MaterialWithCache env cfg s = (Inr m', s')"
    then show "cached_material (cache s') (material_table s') (toStrCfg env cfg)
                 = Inr (Some m')"
      by (rule success)
  next
    fix info b' s'
    assume "getBaseG4MaterialWithCache env info s = (Inr b', s')"
    then show "\<exists>cf k'. getChemicalFormula env info = Inr cf
            \<and> base_key env info cf = Inr k'
            \<and> cached_material (base_cache s') (material_table s') k' = Inr (Some b')"
      by (rule base_success)
  next
    fix cfg f s'
    assume run: "getG4MaterialWithCache env cfg s = (Inl f, s')"
    from failure[OF run]
    show "cache s' = cache s" "base_cache s' = base_cache s"
      "\<exists>xs s2. factory_calls s' = factory_calls s @ xs
               \<and> getG4MaterialWithCache env cfg s' = (Inl f, s2)
               \<and> factory_calls s2 = factory_calls s' @ xs
               \<and> (xs = [] \<longrightarrow> libClashDetect env \<noteq> None
                     \<or> cached_material (cache s) (material_table s) (toStrCfg env cfg)
                         = Inl f)"
      by simp_all
  next
    fix cfgs key'
    show "derived_constructions key'
            (snd (requests env cfgs (initial_state :: ('cfg, 'sc) g4state))) \<le> 1"
      by (rule requests_derived_once_initial)
  qed
qed

text \<open>
  The theorem in the state after a first request for aluminium, where the cache has
  index 1 for the key \<open>Al_sg225.ncmat\<close> and the cache of base materials has index 0 for
  the narrow key \<open>Al\<close>. After requests for corundum, for a material without density and
  for aluminium with another cutoff, a request for aluminium returns index 1 and changes
  nothing, the lookup of the base material of aluminium returns index 0 and changes
  nothing, and the table has one derived material for \<open>Al_sg225.ncmat\<close> and one base
  material for \<open>Al\<close>.
\<close>

theorem ready_entry_is_reused_witness:
  "cached_material
         (cache (snd (getG4MaterialWithCache sample_env ''Al_sg225.ncmat''
                        (initial_state :: (string, string) g4state))))
         (material_table (snd (getG4MaterialWithCache sample_env ''Al_sg225.ncmat''
                                 (initial_state :: (string, string) g4state))))
         ''Al_sg225.ncmat'' = Inr (Some 1)
   \<and> cached_material
         (base_cache (snd (getG4MaterialWithCache sample_env ''Al_sg225.ncmat''
                        (initial_state :: (string, string) g4state))))
         (material_table (snd (getG4MaterialWithCache sample_env ''Al_sg225.ncmat''
                                 (initial_state :: (string, string) g4state))))
         ''Al'' = Inr (Some 0)
   \<and> toStrCfg sample_env '' Al_sg225.ncmat'' = ''Al_sg225.ncmat''
   \<and> getChemicalFormula sample_env (sample_info [(''Al'', 1)] [(13, 4)]) = Inr [(13, 1)]
   \<and> base_key sample_env (sample_info [(''Al'', 1)] [(13, 4)]) [(13, 1)] = Inr ''Al''
   \<and> derived_constructions ''Al_sg225.ncmat''
        (snd (getG4MaterialWithCache sample_env ''Al_sg225.ncmat''
                (initial_state :: (string, string) g4state))) = 1
   \<and> base_constructions ''Al''
        (snd (getG4MaterialWithCache sample_env ''Al_sg225.ncmat''
                (initial_state :: (string, string) g4state))) = 1
   \<and> (getG4MaterialWithCache sample_env '' Al_sg225.ncmat''
         (snd (requests sample_env
            [''Al2O3_sg167_Corundum.ncmat'', ''nodensity.ncmat'', ''Al_sg225.ncmat;dcutoff=1.5'']
            (snd (getG4MaterialWithCache sample_env ''Al_sg225.ncmat'' initial_state))))
       = (Inr 1,
          snd (requests sample_env
            [''Al2O3_sg167_Corundum.ncmat'', ''nodensity.ncmat'', ''Al_sg225.ncmat;dcutoff=1.5'']
            (snd (getG4MaterialWithCache sample_env ''Al_sg225.ncmat'' initial_state))))
      \<and> derived_constructions ''Al_sg225.ncmat''
         (snd (requests sample_env
            [''Al2O3_sg167_Corundum.ncmat'', ''nodensity.ncmat'', ''Al_sg225.ncmat;dcutoff=1.5'']
            (snd (getG4MaterialWithCache sample_env ''Al_sg225.ncmat'' initial_state))))
        = derived_constructions ''Al_sg225.ncmat''
            (snd (getG4MaterialWithCache sample_env ''Al_sg225.ncmat'' initial_state)))
   \<and> (getBaseG4MaterialWithCache sample_env (sample_info [(''Al'', 1)] [(13, 4)])
         (snd (requests sample_env
            [''Al2O3_sg167_Corundum.ncmat'', ''nodensity.ncmat'', ''Al_sg225.ncmat;dcutoff=1.5'']
            (snd (getG4MaterialWithCache sample_env ''Al_sg225.ncmat'' initial_state))))
       = (Inr 0,
          snd (requests sample_env
            [''Al2O3_sg167_Corundum.ncmat'', ''nodensity.ncmat'', ''Al_sg225.ncmat;dcutoff=1.5'']
            (snd (getG4MaterialWithCache sample_env ''Al_sg225.ncmat'' initial_state))))
      \<and> base_constructions ''Al''
         (snd (requests sample_env
            [''Al2O3_sg167_Corundum.ncmat'', ''nodensity.ncmat'', ''Al_sg225.ncmat;dcutoff=1.5'']
            (snd (getG4MaterialWithCache sample_env ''Al_sg225.ncmat'' initial_state))))
        = base_constructions ''Al''
            (snd (getG4MaterialWithCache sample_env ''Al_sg225.ncmat'' initial_state)))"
proof -
  let ?s1 = "snd (getG4MaterialWithCache sample_env ''Al_sg225.ncmat''
                    (initial_state :: (string, string) g4state))"
  let ?cfgs = "[''Al2O3_sg167_Corundum.ncmat'', ''nodensity.ncmat'',
                ''Al_sg225.ncmat;dcutoff=1.5'']"
  have ready: "cached_material (cache ?s1) (material_table ?s1) ''Al_sg225.ncmat''
                 = Inr (Some 1)"
    by code_simp
  have base_ready: "cached_material (base_cache ?s1) (material_table ?s1) ''Al''
                      = Inr (Some 0)"
    by code_simp
  have key: "toStrCfg sample_env '' Al_sg225.ncmat'' = ''Al_sg225.ncmat''"
    by code_simp
  have cf: "getChemicalFormula sample_env (sample_info [(''Al'', 1)] [(13, 4)])
              = Inr [(13, 1)]"
    by code_simp
  have bk: "base_key sample_env (sample_info [(''Al'', 1)] [(13, 4)]) [(13, 1)] = Inr ''Al''"
    by code_simp
  have d1: "derived_constructions ''Al_sg225.ncmat'' ?s1 = 1" by code_simp
  have b1: "base_constructions ''Al'' ?s1 = 1" by code_simp
  note inst = ready_entry_is_reused[of ?s1 "''Al_sg225.ncmat''" 1 sample_env "''Al''" 0]
  note derived = inst[THEN conjunct1, THEN mp, OF ready, THEN spec, THEN spec, THEN mp,
      of "'' Al_sg225.ncmat''" ?cfgs, OF key]
  note base = inst[THEN conjunct2, THEN conjunct1, THEN mp, OF base_ready,
      THEN spec, THEN spec, THEN spec, THEN mp,
      of "sample_info [(''Al'', 1)] [(13, 4)]" "[(13, 1)]" ?cfgs, OF conjI[OF cf bk]]
  show ?thesis
    by (intro conjI ready base_ready key cf bk d1 b1
        derived[THEN conjunct1] derived[THEN conjunct2, THEN conjunct2]
        base[THEN conjunct1] base[THEN conjunct2])
qed

text \<open>
  Claim C2 as the specification states it fails: two requests for the same key, with an
  info object that has no density, both fail, and the factories are called in both, so
  the construction step runs twice for that key.
\<close>

theorem construction_repeated_after_failure:
  "fst (requests sample_env [''nodensity.ncmat'', ''nodensity.ncmat'']
          (initial_state :: (string, string) g4state))
     = [Inl (NCException (MissingInfo,
               ''Selected crystal info source lacks info about material density.'')),
        Inl (NCException (MissingInfo,
               ''Selected crystal info source lacks info about material density.''))]
   \<and> factory_calls (snd (requests sample_env [''nodensity.ncmat'', ''nodensity.ncmat'']
                           (initial_state :: (string, string) g4state)))
     = [CreateScatter ''nodensity.ncmat'', CreateInfo ''nodensity.ncmat'',
        CreateScatter ''nodensity.ncmat'', CreateInfo ''nodensity.ncmat'']"
proof -
  have 1: "fst (requests sample_env [''nodensity.ncmat'', ''nodensity.ncmat'']
          (initial_state :: (string, string) g4state))
     = [Inl (NCException (MissingInfo,
               ''Selected crystal info source lacks info about material density.'')),
        Inl (NCException (MissingInfo,
               ''Selected crystal info source lacks info about material density.''))]"
    by code_simp
  have 2: "factory_calls (snd (requests sample_env [''nodensity.ncmat'', ''nodensity.ncmat'']
                           (initial_state :: (string, string) g4state)))
     = [CreateScatter ''nodensity.ncmat'', CreateInfo ''nodensity.ncmat'',
        CreateScatter ''nodensity.ncmat'', CreateInfo ''nodensity.ncmat'']"
    by code_simp
  from 1 2 show ?thesis by (rule conjI)
qed

section \<open>Failed requests\<close>

lemma getG4_table_extends:
  assumes run: "getG4MaterialWithCache env cfg s = (r, s')"
  shows "\<exists>ys. material_table s' = material_table s @ ys"
proof -
  from getG4_cases[OF run] show ?thesis
  proof (elim disjE conjE exE)
    assume b: "build_material env cfg s = (r, s')"
    show ?thesis
    proof (cases "factory_stage env cfg")
      case (Inl a)
      with b show ?thesis by (cases a) (auto simp: build_material_stages log_calls_fields)
    next
      case (Inr a)
      obtain scatter info where a: "a = (scatter, info)" by (cases a) auto
      let ?t = "log_calls [CreateScatter cfg, CreateInfo cfg] s"
      obtain rb s3 where g: "getBaseG4MaterialWithCache env info ?t = (rb, s3)"
        by (cases "getBaseG4MaterialWithCache env info ?t") auto
      from getBase_table[OF g] have t3: "\<exists>ys. material_table s3 = material_table s @ ys"
        by (auto simp: log_calls_fields)
      from b Inr a g t3 show ?thesis
        by (cases rb) (auto simp: build_material_stages register_material_fields)
    qed
  qed simp_all
qed

lemma getG4_failure_replicate:
  assumes run: "getG4MaterialWithCache env cfg s = (Inl f, s1)"
    and calls: "factory_calls s1 = factory_calls s @ xs"
  shows "fst (requests env (replicate n cfg) s1) = replicate n (Inl f)
       \<and> factory_calls (snd (requests env (replicate n cfg) s1))
           = factory_calls s1 @ concat (replicate n xs)
       \<and> cache (snd (requests env (replicate n cfg) s1)) = cache s
       \<and> base_cache (snd (requests env (replicate n cfg) s1)) = base_cache s"
  using assms
proof (induction n arbitrary: s s1)
  case 0
  from getG4_failure_effect[OF "0.prems"(1)] show ?case by simp
next
  case (Suc n)
  from getG4_failure_repeats[OF Suc.prems(1)] obtain xs' s2 where
    a: "factory_calls s1 = factory_calls s @ xs'"
       "getG4MaterialWithCache env cfg s1 = (Inl f, s2)"
       "factory_calls s2 = factory_calls s1 @ xs'"
    by blast
  from a(1) Suc.prems(2) have "xs' = xs" by simp
  with a(3) have b: "factory_calls s2 = factory_calls s1 @ xs" by simp
  from Suc.IH[OF a(2) b]
  have ih: "fst (requests env (replicate n cfg) s2) = replicate n (Inl f)"
    "factory_calls (snd (requests env (replicate n cfg) s2))
       = factory_calls s2 @ concat (replicate n xs)"
    "cache (snd (requests env (replicate n cfg) s2)) = cache s1"
    "base_cache (snd (requests env (replicate n cfg) s2)) = base_cache s1"
    by simp_all
  from getG4_failure_effect[OF Suc.prems(1)]
  have c: "cache s1 = cache s" "base_cache s1 = base_cache s" by simp_all
  from a(2) ih b c show ?case
    by (simp add: split_beta)
qed

lemma createMaterial_MatCfg_failure:
  assumes "getG4MaterialWithCache env cfg s = (Inl (NCException e), s')"
  shows "createMaterial_MatCfg env cfg s
           = (Returned None, handleError ''G4NCrystal::createMaterial'' 101 e s')"
  using assms by (simp add: createMaterial_MatCfg_def catch_nc_exception_def)

lemma handleError_fields:
  "handled_errors (handleError origin code e s) = handled_errors s @ [(origin, code, e)]"
  "factory_calls (handleError origin code e s) = factory_calls s"
  "material_table (handleError origin code e s) = material_table s"
  "cache (handleError origin code e s) = cache s"
  "base_cache (handleError origin code e s) = base_cache s"
  by (simp_all add: handleError_def)

text \<open>
  Claim C3, as the code has it. A request that fails leaves both caches as they were,
  so nothing records the failure: when the lookup of the key had found no entry, a
  following request for any configuration with the same key runs the construction. For
  the same configuration the construction repeats itself: each of any number of further
  requests calls the same factories again and fails with the same error, and
  \<open>createMaterial\<close> passes that error to the error handler again and returns the null
  pointer. No factory is called only when the library clash detection or the cache
  lookup itself is what failed.
\<close>

theorem failed_request_is_not_memoized:
  assumes run: "getG4MaterialWithCache env cfg s = (Inl f, s1)"
  shows "cache s1 = cache s \<and> base_cache s1 = base_cache s
     \<and> (cached_material (cache s) (material_table s) (toStrCfg env cfg) = Inr None \<longrightarrow>
          (\<forall>cfg2. toStrCfg env cfg2 = toStrCfg env cfg \<longrightarrow>
             getG4MaterialWithCache env cfg2 s1 = build_material env cfg2 s1))
     \<and> (\<exists>xs. factory_calls s1 = factory_calls s @ xs
          \<and> (xs = [] \<longrightarrow> libClashDetect env \<noteq> None
                \<or> cached_material (cache s) (material_table s) (toStrCfg env cfg) = Inl f)
          \<and> (\<forall>n. fst (requests env (replicate n cfg) s1) = replicate n (Inl f)
                \<and> factory_calls (snd (requests env (replicate n cfg) s1))
                    = factory_calls s1 @ concat (replicate n xs)
                \<and> cache (snd (requests env (replicate n cfg) s1)) = cache s
                \<and> base_cache (snd (requests env (replicate n cfg) s1)) = base_cache s)
          \<and> (\<forall>e. f = NCException e \<longrightarrow>
                fst (createMaterial_MatCfg env cfg s1) = Returned None
                \<and> handled_errors (snd (createMaterial_MatCfg env cfg s1))
                    = handled_errors s1 @ [(''G4NCrystal::createMaterial'', 101, e)]
                \<and> factory_calls (snd (createMaterial_MatCfg env cfg s1))
                    = factory_calls s1 @ xs))"
proof -
  from getG4_failure_effect[OF run]
  have caches: "cache s1 = cache s" "base_cache s1 = base_cache s" by simp_all
  have again: "getG4MaterialWithCache env cfg2 s1 = build_material env cfg2 s1"
    if miss: "cached_material (cache s) (material_table s) (toStrCfg env cfg) = Inr None"
      and same: "toStrCfg env cfg2 = toStrCfg env cfg" for cfg2
  proof -
    from getG4_table_extends[OF run] obtain ys where
      "material_table s1 = material_table s @ ys" by blast
    with cached_material_append[OF miss, of ys] caches(1) same
    have "cached_material (cache s1) (material_table s1) (toStrCfg env cfg2) = Inr None"
      by simp
    then show ?thesis by (simp add: getG4MaterialWithCache_def)
  qed
  from getG4_failure_repeats[OF run] obtain xs s2 where
    a: "factory_calls s1 = factory_calls s @ xs"
       "getG4MaterialWithCache env cfg s1 = (Inl f, s2)"
       "factory_calls s2 = factory_calls s1 @ xs"
       "xs = [] \<longrightarrow> libClashDetect env \<noteq> None
          \<or> cached_material (cache s) (material_table s) (toStrCfg env cfg) = Inl f"
    by blast
  have many: "fst (requests env (replicate n cfg) s1) = replicate n (Inl f)
                \<and> factory_calls (snd (requests env (replicate n cfg) s1))
                    = factory_calls s1 @ concat (replicate n xs)
                \<and> cache (snd (requests env (replicate n cfg) s1)) = cache s
                \<and> base_cache (snd (requests env (replicate n cfg) s1)) = base_cache s" for n
    using run a(1) by (rule getG4_failure_replicate)
  have handler: "fst (createMaterial_MatCfg env cfg s1) = Returned None
                \<and> handled_errors (snd (createMaterial_MatCfg env cfg s1))
                    = handled_errors s1 @ [(''G4NCrystal::createMaterial'', 101, e)]
                \<and> factory_calls (snd (createMaterial_MatCfg env cfg s1))
                    = factory_calls s1 @ xs"
    if f: "f = NCException e" for e
  proof -
    from a(2) f have "createMaterial_MatCfg env cfg s1
           = (Returned None, handleError ''G4NCrystal::createMaterial'' 101 e s2)"
      by (simp add: createMaterial_MatCfg_failure)
    with getG4_handled_errors[OF a(2)] a(3) show ?thesis
      by (simp add: handleError_fields)
  qed
  have rep: "\<exists>xs. factory_calls s1 = factory_calls s @ xs
          \<and> (xs = [] \<longrightarrow> libClashDetect env \<noteq> None
                \<or> cached_material (cache s) (material_table s) (toStrCfg env cfg) = Inl f)
          \<and> (\<forall>n. fst (requests env (replicate n cfg) s1) = replicate n (Inl f)
                \<and> factory_calls (snd (requests env (replicate n cfg) s1))
                    = factory_calls s1 @ concat (replicate n xs)
                \<and> cache (snd (requests env (replicate n cfg) s1)) = cache s
                \<and> base_cache (snd (requests env (replicate n cfg) s1)) = base_cache s)
          \<and> (\<forall>e. f = NCException e \<longrightarrow>
                fst (createMaterial_MatCfg env cfg s1) = Returned None
                \<and> handled_errors (snd (createMaterial_MatCfg env cfg s1))
                    = handled_errors s1 @ [(''G4NCrystal::createMaterial'', 101, e)]
                \<and> factory_calls (snd (createMaterial_MatCfg env cfg s1))
                    = factory_calls s1 @ xs)"
    using a(1,4) many handler by (intro exI[of _ xs]) blast
  from caches again rep show ?thesis by blast
qed

text \<open>
  The theorem at aluminium with a cutoff that the scatter factory refuses, requested in
  the initial state: the request fails with \<open>BadInput\<close> after one call of the scatter
  factory, the cache had no entry for the key, and a request for the same key written
  with blanks runs the construction.
\<close>

theorem failed_request_is_not_memoized_witness:
  "fst (getG4MaterialWithCache sample_env ''Al_sg225.ncmat;dcutoff=999''
          (initial_state :: (string, string) g4state))
     = Inl (NCException (BadInput, ''dcutoff must be at most 1e5''))
   \<and> factory_calls (snd (getG4MaterialWithCache sample_env ''Al_sg225.ncmat;dcutoff=999''
                           (initial_state :: (string, string) g4state)))
     = [CreateScatter ''Al_sg225.ncmat;dcutoff=999'']
   \<and> cached_material (cache (initial_state :: (string, string) g4state))
        (material_table (initial_state :: (string, string) g4state))
        (toStrCfg sample_env ''Al_sg225.ncmat;dcutoff=999'') = Inr None
   \<and> toStrCfg sample_env ''Al_sg225.ncmat ; dcutoff=999''
       = toStrCfg sample_env ''Al_sg225.ncmat;dcutoff=999''
   \<and> getG4MaterialWithCache sample_env ''Al_sg225.ncmat ; dcutoff=999''
        (snd (getG4MaterialWithCache sample_env ''Al_sg225.ncmat;dcutoff=999'' initial_state))
       = build_material sample_env ''Al_sg225.ncmat ; dcutoff=999''
           (snd (getG4MaterialWithCache sample_env ''Al_sg225.ncmat;dcutoff=999''
                   initial_state))
   \<and> cache (snd (getG4MaterialWithCache sample_env ''Al_sg225.ncmat;dcutoff=999''
                   (initial_state :: (string, string) g4state)))
       = cache (initial_state :: (string, string) g4state)"
proof -
  define s1 where "s1 = snd (getG4MaterialWithCache sample_env ''Al_sg225.ncmat;dcutoff=999''
                               (initial_state :: (string, string) g4state))"
  have e1: "fst (getG4MaterialWithCache sample_env ''Al_sg225.ncmat;dcutoff=999''
          (initial_state :: (string, string) g4state))
     = Inl (NCException (BadInput, ''dcutoff must be at most 1e5''))"
    by code_simp
  have run: "getG4MaterialWithCache sample_env ''Al_sg225.ncmat;dcutoff=999'' initial_state
               = (Inl (NCException (BadInput, ''dcutoff must be at most 1e5'')), s1)"
    using e1 by (simp add: s1_def prod_eq_iff)
  have calls: "factory_calls (snd (getG4MaterialWithCache sample_env
                   ''Al_sg225.ncmat;dcutoff=999'' (initial_state :: (string, string) g4state)))
     = [CreateScatter ''Al_sg225.ncmat;dcutoff=999'']"
    by code_simp
  have miss: "cached_material (cache (initial_state :: (string, string) g4state))
        (material_table (initial_state :: (string, string) g4state))
        (toStrCfg sample_env ''Al_sg225.ncmat;dcutoff=999'') = Inr None"
    by code_simp
  have key: "toStrCfg sample_env ''Al_sg225.ncmat ; dcutoff=999''
       = toStrCfg sample_env ''Al_sg225.ncmat;dcutoff=999''"
    by code_simp
  note inst = failed_request_is_not_memoized[OF run]
  note again = inst[THEN conjunct2, THEN conjunct2, THEN conjunct1, THEN mp, OF miss,
      THEN spec, of "''Al_sg225.ncmat ; dcutoff=999''", THEN mp, OF key]
  show ?thesis
    by (intro conjI e1 calls miss key again[unfolded s1_def]
        inst[THEN conjunct1, unfolded s1_def])
qed

text \<open>
  Claim C3 as the specification states it fails: \<open>createMaterial\<close> called twice with a
  configuration that the scatter factory refuses returns the null pointer twice, and the
  scatter factory is called in both calls and the error handler is given the error in
  both: the second call does not return a recorded error without invoking the builder.
\<close>

theorem builder_invoked_again_after_failure:
  "fst (createMaterial sample_env ''Al_sg225.ncmat;dcutoff=999''
          (initial_state :: (string, string) g4state)) = Returned None
   \<and> factory_calls (snd (createMaterial sample_env ''Al_sg225.ncmat;dcutoff=999''
                           (initial_state :: (string, string) g4state)))
       = [CreateScatter ''Al_sg225.ncmat;dcutoff=999'']
   \<and> fst (createMaterial sample_env ''Al_sg225.ncmat;dcutoff=999''
            (snd (createMaterial sample_env ''Al_sg225.ncmat;dcutoff=999''
                    (initial_state :: (string, string) g4state)))) = Returned None
   \<and> factory_calls
        (snd (createMaterial sample_env ''Al_sg225.ncmat;dcutoff=999''
                (snd (createMaterial sample_env ''Al_sg225.ncmat;dcutoff=999''
                        (initial_state :: (string, string) g4state)))))
       = [CreateScatter ''Al_sg225.ncmat;dcutoff=999'',
          CreateScatter ''Al_sg225.ncmat;dcutoff=999'']
   \<and> handled_errors
        (snd (createMaterial sample_env ''Al_sg225.ncmat;dcutoff=999''
                (snd (createMaterial sample_env ''Al_sg225.ncmat;dcutoff=999''
                        (initial_state :: (string, string) g4state)))))
       = [(''G4NCrystal::createMaterial'', 101, (BadInput, ''dcutoff must be at most 1e5'')),
          (''G4NCrystal::createMaterial'', 101, (BadInput, ''dcutoff must be at most 1e5''))]"
proof -
  have 1: "fst (createMaterial sample_env ''Al_sg225.ncmat;dcutoff=999''
          (initial_state :: (string, string) g4state)) = Returned None"
    by code_simp
  have 2: "factory_calls (snd (createMaterial sample_env ''Al_sg225.ncmat;dcutoff=999''
                           (initial_state :: (string, string) g4state)))
       = [CreateScatter ''Al_sg225.ncmat;dcutoff=999'']"
    by code_simp
  have 3: "fst (createMaterial sample_env ''Al_sg225.ncmat;dcutoff=999''
            (snd (createMaterial sample_env ''Al_sg225.ncmat;dcutoff=999''
                    (initial_state :: (string, string) g4state)))) = Returned None"
    by code_simp
  have 4: "factory_calls
        (snd (createMaterial sample_env ''Al_sg225.ncmat;dcutoff=999''
                (snd (createMaterial sample_env ''Al_sg225.ncmat;dcutoff=999''
                        (initial_state :: (string, string) g4state)))))
       = [CreateScatter ''Al_sg225.ncmat;dcutoff=999'',
          CreateScatter ''Al_sg225.ncmat;dcutoff=999'']"
    by code_simp
  have 5: "handled_errors
        (snd (createMaterial sample_env ''Al_sg225.ncmat;dcutoff=999''
                (snd (createMaterial sample_env ''Al_sg225.ncmat;dcutoff=999''
                        (initial_state :: (string, string) g4state)))))
       = [(''G4NCrystal::createMaterial'', 101, (BadInput, ''dcutoff must be at most 1e5'')),
          (''G4NCrystal::createMaterial'', 101, (BadInput, ''dcutoff must be at most 1e5''))]"
    by code_simp
  show ?thesis by (intro conjI 1 2 3 4 5)
qed

section \<open>The two layers of the cache\<close>

text \<open>
  A request that missed the cache and returned a material: the base material it used is
  in the cache of base materials under the narrow key of the info object, the derived
  material is a new object built on it, and the request entered nothing else in the
  cache of base materials.
\<close>

lemma getG4_base_ready:
  assumes miss: "cached_material (cache s) (material_table s) (toStrCfg env cfg) = Inr None"
    and run: "getG4MaterialWithCache env cfg s = (Inr m, s')"
  shows "\<exists>info cf k b. createInfo env cfg = Inr info
           \<and> getChemicalFormula env info = Inr cf \<and> base_key env info cf = Inr k
           \<and> cached_material (base_cache s') (material_table s') k = Inr (Some b)
           \<and> b < m \<and> length (material_table s) \<le> m
           \<and> material_table s' ! m = Some (derived_material_ctor env cfg info b)
           \<and> length (material_table s') = Suc m
           \<and> (base_cache s' = base_cache s \<or> base_cache s' = (base_cache s)(k \<mapsto> b))
           \<and> cache s' = (cache s)(toStrCfg env cfg \<mapsto> m)"
proof -
  let ?t = "log_calls [CreateScatter cfg, CreateInfo cfg] s"
  from getG4_miss_success[OF miss run] obtain scatter info b s3 where
    fs: "factory_stage env cfg = Inr (scatter, info)"
    and g: "getBaseG4MaterialWithCache env info ?t = (Inr b, s3)"
    and m: "m = length (material_table s3)"
    and s': "s' = register_material env cfg scatter info b s3"
    by blast
  from fs have info: "createInfo env cfg = Inr info" by (simp add: factory_stage_Inr)
  from getBase_ready[OF g] obtain cf k where
    cf: "getChemicalFormula env info = Inr cf" and k: "base_key env info cf = Inr k"
    and ready3: "cached_material (base_cache s3) (material_table s3) k = Inr (Some b)"
    by blast
  from ready3 have b: "b < m" by (simp add: m cached_material_Some)
  from getBase_table_grows[OF g] have fresh: "length (material_table s) \<le> m"
    by (simp add: m log_calls_fields)
  have ready': "cached_material (base_cache s') (material_table s') k = Inr (Some b)"
    using cached_material_append[OF ready3] by (simp add: s' register_material_fields)
  have obj: "material_table s' ! m = Some (derived_material_ctor env cfg info b)"
    "length (material_table s') = Suc m"
    by (simp_all add: s' m register_material_fields)
  have c3: "cache s3 = cache s" using getBase_effect[OF g] by (simp add: log_calls_fields)
  then have c: "cache s' = (cache s)(toStrCfg env cfg \<mapsto> m)"
    by (simp add: s' m register_material_fields)
  have bc: "base_cache s' = base_cache s \<or> base_cache s' = (base_cache s)(k \<mapsto> b)"
  proof -
    from getBase_effect[OF g] consider
      (same) "base_cache s3 = base_cache ?t"
    | (built) cf' k' where "getChemicalFormula env info = Inr cf'"
        "base_key env info cf' = Inr k'" "base_cache s3 = (base_cache ?t)(k' \<mapsto> b)"
      by auto
    then show ?thesis
    proof cases
      case same
      then show ?thesis by (simp add: s' register_material_fields log_calls_fields)
    next
      case built
      with cf k have "k' = k" by simp
      with built(3) show ?thesis by (simp add: s' register_material_fields log_calls_fields)
    qed
  qed
  from info cf k ready' b fresh obj bc c show ?thesis by blast
qed

text \<open>The same request when the base material for its narrow key is in the cache.\<close>

lemma getG4_reuses_base:
  assumes ready: "cached_material (base_cache s) (material_table s) k = Inr (Some b)"
    and miss: "cached_material (cache s) (material_table s) (toStrCfg env cfg) = Inr None"
    and run: "getG4MaterialWithCache env cfg s = (Inr m, s')"
    and info: "createInfo env cfg = Inr info"
    and cf: "getChemicalFormula env info = Inr cf" and k: "base_key env info cf = Inr k"
  shows "m = length (material_table s)
       \<and> material_table s' = material_table s @ [Some (derived_material_ctor env cfg info b)]
       \<and> base_cache s' = base_cache s
       \<and> cache s' = (cache s)(toStrCfg env cfg \<mapsto> m)"
proof -
  let ?t = "log_calls [CreateScatter cfg, CreateInfo cfg] s"
  from getG4_miss_success[OF miss run] obtain scatter info' b' s3 where
    fs: "factory_stage env cfg = Inr (scatter, info')"
    and g: "getBaseG4MaterialWithCache env info' ?t = (Inr b', s3)"
    and m: "m = length (material_table s3)"
    and s': "s' = register_material env cfg scatter info' b' s3"
    by blast
  from fs info have same_info: "info' = info" by (simp add: factory_stage_Inr)
  have "cached_material (base_cache ?t) (material_table ?t) k = Inr (Some b)"
    using ready by (simp add: log_calls_fields)
  from getBase_hit[OF cf k this] g same_info have "b' = b" "s3 = ?t" by simp_all
  with m s' same_info show ?thesis
    by (simp add: register_material_fields log_calls_fields)
qed

text \<open>
  Claim C5, as the code has it. A request that misses the cache of derived materials
  and returns a material has built a new derived object, at a new index of the material
  table, on a base material that is then in the cache of base materials under the narrow
  key of the info object; the only entry such a request can add to the cache of base
  materials is this base material. Once the cache of base materials has an entry for a
  narrow key whose material is in the material table, then after any sequence of
  requests the entry is the same, no further base material has been constructed for the
  key, and every request that misses the cache of derived materials and whose info
  object has this narrow key appends exactly one object to the material table, the
  derived material built on this base material with the density and the temperature of
  the configuration, enters it in the cache of derived materials and leaves the cache
  of base materials as it is. In a build without assertions, whatever is requested from
  the initial state on, the material table never has more than one base material for a
  narrow key.
\<close>

theorem base_material_built_once:
  "(\<forall>cfg m s'.
       cached_material (cache s) (material_table s) (toStrCfg env cfg) = Inr None
       \<and> getG4MaterialWithCache env cfg s = (Inr m, s') \<longrightarrow>
       (\<exists>info cf k' b'. createInfo env cfg = Inr info
           \<and> getChemicalFormula env info = Inr cf \<and> base_key env info cf = Inr k'
           \<and> cached_material (base_cache s') (material_table s') k' = Inr (Some b')
           \<and> b' < m \<and> length (material_table s) \<le> m
           \<and> material_table s' ! m = Some (derived_material_ctor env cfg info b')
           \<and> (base_cache s' = base_cache s \<or> base_cache s' = (base_cache s)(k' \<mapsto> b'))))
   \<and> (cached_material (base_cache s) (material_table s) k = Inr (Some b) \<longrightarrow>
       (\<forall>cfgs.
          cached_material (base_cache (snd (requests env cfgs s)))
             (material_table (snd (requests env cfgs s))) k = Inr (Some b)
          \<and> base_constructions k (snd (requests env cfgs s)) = base_constructions k s
          \<and> (\<forall>cfg m s' info cf.
                cached_material (cache (snd (requests env cfgs s)))
                   (material_table (snd (requests env cfgs s))) (toStrCfg env cfg) = Inr None
                \<and> getG4MaterialWithCache env cfg (snd (requests env cfgs s)) = (Inr m, s')
                \<and> createInfo env cfg = Inr info
                \<and> getChemicalFormula env info = Inr cf \<and> base_key env info cf = Inr k \<longrightarrow>
                m = length (material_table (snd (requests env cfgs s)))
                \<and> material_table s'
                    = material_table (snd (requests env cfgs s))
                        @ [Some (derived_material_ctor env cfg info b)]
                \<and> mat_origin (derived_material_ctor env cfg info b) = FromBaseMaterial b
                \<and> mat_density (derived_material_ctor env cfg info b)
                    = get_packfact env cfg * getDensity info * gram_per_cm3 env
                \<and> base_cache s' = base_cache (snd (requests env cfgs s))
                \<and> cache s' = (cache (snd (requests env cfgs s)))(toStrCfg env cfg \<mapsto> m))))
   \<and> (ndebug env \<longrightarrow>
       (\<forall>cfgs k'. base_constructions k'
                     (snd (requests env cfgs (initial_state :: ('cfg, 'sc) g4state))) \<le> 1))"
proof (intro conjI impI allI)
  fix cfg m s'
  assume "cached_material (cache s) (material_table s) (toStrCfg env cfg) = Inr None
       \<and> getG4MaterialWithCache env cfg s = (Inr m, s')"
  then have miss: "cached_material (cache s) (material_table s) (toStrCfg env cfg) = Inr None"
    and run: "getG4MaterialWithCache env cfg s = (Inr m, s')" by simp_all
  from getG4_base_ready[OF miss run]
  show "\<exists>info cf k' b'. createInfo env cfg = Inr info
           \<and> getChemicalFormula env info = Inr cf \<and> base_key env info cf = Inr k'
           \<and> cached_material (base_cache s') (material_table s') k' = Inr (Some b')
           \<and> b' < m \<and> length (material_table s) \<le> m
           \<and> material_table s' ! m = Some (derived_material_ctor env cfg info b')
           \<and> (base_cache s' = base_cache s \<or> base_cache s' = (base_cache s)(k' \<mapsto> b'))"
    by blast
next
  fix cfgs
  assume ready: "cached_material (base_cache s) (material_table s) k = Inr (Some b)"
  from requests_keep_base[OF ready, of env cfgs]
  show "cached_material (base_cache (snd (requests env cfgs s)))
             (material_table (snd (requests env cfgs s))) k = Inr (Some b)"
    "base_constructions k (snd (requests env cfgs s)) = base_constructions k s"
    by simp_all
next
  fix cfgs cfg m s' info cf
  let ?s2 = "snd (requests env cfgs s)"
  assume ready: "cached_material (base_cache s) (material_table s) k = Inr (Some b)"
  assume "cached_material (cache ?s2) (material_table ?s2) (toStrCfg env cfg) = Inr None
                \<and> getG4MaterialWithCache env cfg ?s2 = (Inr m, s')
                \<and> createInfo env cfg = Inr info
                \<and> getChemicalFormula env info = Inr cf \<and> base_key env info cf = Inr k"
  then have miss: "cached_material (cache ?s2) (material_table ?s2) (toStrCfg env cfg) = Inr None"
    and run: "getG4MaterialWithCache env cfg ?s2 = (Inr m, s')"
    and info: "createInfo env cfg = Inr info"
    and cf: "getChemicalFormula env info = Inr cf" and k: "base_key env info cf = Inr k"
    by simp_all
  from requests_keep_base[OF ready, of env cfgs]
  have ready2: "cached_material (base_cache ?s2) (material_table ?s2) k = Inr (Some b)"
    by simp
  from getG4_reuses_base[OF ready2 miss run info cf k]
  show "m = length (material_table ?s2)"
    "material_table s' = material_table ?s2 @ [Some (derived_material_ctor env cfg info b)]"
    "base_cache s' = base_cache ?s2"
    "cache s' = (cache ?s2)(toStrCfg env cfg \<mapsto> m)"
    by simp_all
  show "mat_origin (derived_material_ctor env cfg info b) = FromBaseMaterial b"
    "mat_density (derived_material_ctor env cfg info b)
       = get_packfact env cfg * getDensity info * gram_per_cm3 env"
    by (simp_all add: derived_material_ctor_def)
next
  fix cfgs k'
  assume "ndebug env"
  then show "base_constructions k'
               (snd (requests env cfgs (initial_state :: ('cfg, 'sc) g4state))) \<le> 1"
    by (rule requests_once_initial)
qed

text \<open>
  The theorem in the state after a first request for aluminium, where the cache of base
  materials has index 0 for the narrow key \<open>Al\<close>. After a request for corundum, the
  request for aluminium with another cutoff misses the cache of derived materials and
  returns index 4: it appends one object to the table, the derived material on base
  material 0, and the table still has one base material for \<open>Al\<close>. The sample
  environment has no assertions: after four requests from the initial state, three of
  them for aluminium, the table has six materials, of which at most one is a base
  material for \<open>Al\<close>.
\<close>

theorem base_material_built_once_witness:
  "ndebug sample_env
   \<and> base_constructions ''Al''
        (snd (requests sample_env
          [''Al_sg225.ncmat'', ''Al_sg225.ncmat;dcutoff=1.5'', ''Al2O3_sg167_Corundum.ncmat'',
           ''Al_sg225.ncmat;temp=293.15'']
          (initial_state :: (string, string) g4state))) \<le> 1
   \<and> length (material_table
        (snd (requests sample_env
          [''Al_sg225.ncmat'', ''Al_sg225.ncmat;dcutoff=1.5'', ''Al2O3_sg167_Corundum.ncmat'',
           ''Al_sg225.ncmat;temp=293.15'']
          (initial_state :: (string, string) g4state)))) = 6
   \<and> cached_material (base_cache (snd (getG4MaterialWithCache sample_env ''Al_sg225.ncmat''
            (initial_state :: (string, string) g4state))))
      (material_table (snd (getG4MaterialWithCache sample_env ''Al_sg225.ncmat''
            (initial_state :: (string, string) g4state)))) ''Al'' = Inr (Some 0)
   \<and> base_constructions ''Al'' (snd (getG4MaterialWithCache sample_env ''Al_sg225.ncmat''
            (initial_state :: (string, string) g4state))) = 1
   \<and> cached_material (cache (snd (requests sample_env [''Al2O3_sg167_Corundum.ncmat'']
         (snd (getG4MaterialWithCache sample_env ''Al_sg225.ncmat''
            (initial_state :: (string, string) g4state))))))
      (material_table (snd (requests sample_env [''Al2O3_sg167_Corundum.ncmat'']
         (snd (getG4MaterialWithCache sample_env ''Al_sg225.ncmat''
            (initial_state :: (string, string) g4state))))))
      (toStrCfg sample_env ''Al_sg225.ncmat;dcutoff=1.5'') = Inr None
   \<and> fst (getG4MaterialWithCache sample_env ''Al_sg225.ncmat;dcutoff=1.5''
      (snd (requests sample_env [''Al2O3_sg167_Corundum.ncmat'']
         (snd (getG4MaterialWithCache sample_env ''Al_sg225.ncmat''
            (initial_state :: (string, string) g4state)))))) = Inr 4
   \<and> createInfo sample_env ''Al_sg225.ncmat;dcutoff=1.5'' = Inr (sample_info [(''Al'', 1)] [(13, 4)])
   \<and> getChemicalFormula sample_env (sample_info [(''Al'', 1)] [(13, 4)]) = Inr [(13, 1)]
   \<and> base_key sample_env (sample_info [(''Al'', 1)] [(13, 4)]) [(13, 1)] = Inr ''Al''
   \<and> base_constructions ''Al'' (snd (requests sample_env [''Al2O3_sg167_Corundum.ncmat'']
         (snd (getG4MaterialWithCache sample_env ''Al_sg225.ncmat''
            (initial_state :: (string, string) g4state)))))
      = base_constructions ''Al'' (snd (getG4MaterialWithCache sample_env ''Al_sg225.ncmat''
            (initial_state :: (string, string) g4state)))
   \<and> material_table (snd (getG4MaterialWithCache sample_env ''Al_sg225.ncmat;dcutoff=1.5''
      (snd (requests sample_env [''Al2O3_sg167_Corundum.ncmat'']
         (snd (getG4MaterialWithCache sample_env ''Al_sg225.ncmat''
            (initial_state :: (string, string) g4state)))))))
      = material_table (snd (requests sample_env [''Al2O3_sg167_Corundum.ncmat'']
         (snd (getG4MaterialWithCache sample_env ''Al_sg225.ncmat''
            (initial_state :: (string, string) g4state)))))
          @ [Some (derived_material_ctor sample_env ''Al_sg225.ncmat;dcutoff=1.5'' (sample_info [(''Al'', 1)] [(13, 4)]) 0)]
   \<and> mat_origin (derived_material_ctor sample_env ''Al_sg225.ncmat;dcutoff=1.5'' (sample_info [(''Al'', 1)] [(13, 4)]) 0) = FromBaseMaterial 0
   \<and> base_cache (snd (getG4MaterialWithCache sample_env ''Al_sg225.ncmat;dcutoff=1.5''
      (snd (requests sample_env [''Al2O3_sg167_Corundum.ncmat'']
         (snd (getG4MaterialWithCache sample_env ''Al_sg225.ncmat''
            (initial_state :: (string, string) g4state)))))))
      = base_cache (snd (requests sample_env [''Al2O3_sg167_Corundum.ncmat'']
         (snd (getG4MaterialWithCache sample_env ''Al_sg225.ncmat''
            (initial_state :: (string, string) g4state)))))"
proof -
  have ready: "cached_material (base_cache (snd (getG4MaterialWithCache sample_env ''Al_sg225.ncmat''
            (initial_state :: (string, string) g4state))))
      (material_table (snd (getG4MaterialWithCache sample_env ''Al_sg225.ncmat''
            (initial_state :: (string, string) g4state)))) ''Al'' = Inr (Some 0)"
    by code_simp
  have n1: "base_constructions ''Al'' (snd (getG4MaterialWithCache sample_env ''Al_sg225.ncmat''
            (initial_state :: (string, string) g4state))) = 1"
    by code_simp
  have miss: "cached_material (cache (snd (requests sample_env [''Al2O3_sg167_Corundum.ncmat'']
         (snd (getG4MaterialWithCache sample_env ''Al_sg225.ncmat''
            (initial_state :: (string, string) g4state))))))
      (material_table (snd (requests sample_env [''Al2O3_sg167_Corundum.ncmat'']
         (snd (getG4MaterialWithCache sample_env ''Al_sg225.ncmat''
            (initial_state :: (string, string) g4state))))))
      (toStrCfg sample_env ''Al_sg225.ncmat;dcutoff=1.5'') = Inr None"
    by code_simp
  have e: "fst (getG4MaterialWithCache sample_env ''Al_sg225.ncmat;dcutoff=1.5''
      (snd (requests sample_env [''Al2O3_sg167_Corundum.ncmat'']
         (snd (getG4MaterialWithCache sample_env ''Al_sg225.ncmat''
            (initial_state :: (string, string) g4state)))))) = Inr 4"
    by code_simp
  have info: "createInfo sample_env ''Al_sg225.ncmat;dcutoff=1.5'' = Inr (sample_info [(''Al'', 1)] [(13, 4)])"
    by code_simp
  have cf: "getChemicalFormula sample_env (sample_info [(''Al'', 1)] [(13, 4)]) = Inr [(13, 1)]"
    by code_simp
  have bk: "base_key sample_env (sample_info [(''Al'', 1)] [(13, 4)]) [(13, 1)] = Inr ''Al''"
    by code_simp
  define s' where "s' = snd (getG4MaterialWithCache sample_env ''Al_sg225.ncmat;dcutoff=1.5''
      (snd (requests sample_env [''Al2O3_sg167_Corundum.ncmat'']
         (snd (getG4MaterialWithCache sample_env ''Al_sg225.ncmat''
            (initial_state :: (string, string) g4state))))))"
  have run: "getG4MaterialWithCache sample_env ''Al_sg225.ncmat;dcutoff=1.5''
      (snd (requests sample_env [''Al2O3_sg167_Corundum.ncmat'']
         (snd (getG4MaterialWithCache sample_env ''Al_sg225.ncmat''
            (initial_state :: (string, string) g4state))))) = (Inr 4, s')"
    using e by (simp add: s'_def prod_eq_iff)
  note inst = base_material_built_once[
      where s = "snd (getG4MaterialWithCache sample_env ''Al_sg225.ncmat''
                        (initial_state :: (string, string) g4state))"
        and env = sample_env and k = "''Al''" and b = 0,
      THEN conjunct2, THEN conjunct1, THEN mp, OF ready, THEN spec,
      of "[''Al2O3_sg167_Corundum.ncmat'']"]
  note keep = inst[THEN conjunct2, THEN conjunct1]
  note fresh = inst[THEN conjunct2, THEN conjunct2, THEN spec, THEN spec, THEN spec, THEN spec,
      THEN spec, THEN mp, OF conjI[OF miss conjI[OF run conjI[OF info conjI[OF cf bk]]]]]
  note tbl = fresh[THEN conjunct2, THEN conjunct1, unfolded s'_def]
  note origin = fresh[THEN conjunct2, THEN conjunct2, THEN conjunct1]
  note bc = fresh[THEN conjunct2, THEN conjunct2, THEN conjunct2, THEN conjunct2,
      THEN conjunct1, unfolded s'_def]
  have nd: "ndebug sample_env" by code_simp
  have len: "length (material_table
        (snd (requests sample_env
          [''Al_sg225.ncmat'', ''Al_sg225.ncmat;dcutoff=1.5'', ''Al2O3_sg167_Corundum.ncmat'',
           ''Al_sg225.ncmat;temp=293.15'']
          (initial_state :: (string, string) g4state)))) = 6"
    by code_simp
  note once = base_material_built_once[
      where s = "snd (getG4MaterialWithCache sample_env ''Al_sg225.ncmat''
                        (initial_state :: (string, string) g4state))"
        and env = sample_env and k = "''Al''" and b = 0,
      THEN conjunct2, THEN conjunct2, THEN mp, OF nd, THEN spec, THEN spec,
      of "''Al''" "[''Al_sg225.ncmat'', ''Al_sg225.ncmat;dcutoff=1.5'',
           ''Al2O3_sg167_Corundum.ncmat'', ''Al_sg225.ncmat;temp=293.15'']"]
  show ?thesis
    by (intro conjI nd once len ready n1 miss e info cf bk keep tbl origin bc)
qed

text \<open>
  Claim C5 as the specification states it fails when a base material has been deleted,
  which leaves a null entry in the material table: the lookup finds the index in the
  cache, finds the entry null and goes on to construct. After a request for aluminium
  the base material for \<open>Al\<close> is at index 0; with that entry null, a request for
  aluminium with another cutoff constructs a second base material for \<open>Al\<close>, at index
  2, so the two derived materials of the same composition are built on different base
  objects.
\<close>

theorem base_material_rebuilt_after_deletion:
  "map (map_option mat_name) (material_table (snd (getG4MaterialWithCache sample_env ''Al_sg225.ncmat''
            (initial_state :: (string, string) g4state))))
      = [Some ''NCrystalBaseMat::Al'', Some ''NCrystal::Al_sg225.ncmat'']
   \<and> base_cache (snd (getG4MaterialWithCache sample_env ''Al_sg225.ncmat''
            (initial_state :: (string, string) g4state))) ''Al'' = Some 0
   \<and> fst (getG4MaterialWithCache sample_env ''Al_sg225.ncmat;dcutoff=1.5''
    ((snd (getG4MaterialWithCache sample_env ''Al_sg225.ncmat''
            (initial_state :: (string, string) g4state)))
      \<lparr>material_table := (material_table (snd (getG4MaterialWithCache sample_env ''Al_sg225.ncmat''
            (initial_state :: (string, string) g4state))))[0 := None]\<rparr>)) = Inr 3
   \<and> map (map_option mat_name) (material_table (snd (getG4MaterialWithCache sample_env ''Al_sg225.ncmat;dcutoff=1.5''
    ((snd (getG4MaterialWithCache sample_env ''Al_sg225.ncmat''
            (initial_state :: (string, string) g4state)))
      \<lparr>material_table := (material_table (snd (getG4MaterialWithCache sample_env ''Al_sg225.ncmat''
            (initial_state :: (string, string) g4state))))[0 := None]\<rparr>))))
      = [None, Some ''NCrystal::Al_sg225.ncmat'', Some ''NCrystalBaseMat::Al'',
         Some ''NCrystal::Al_sg225.ncmat;dcutoff=1.5'']
   \<and> map (map_option mat_origin) (material_table (snd (getG4MaterialWithCache sample_env ''Al_sg225.ncmat;dcutoff=1.5''
    ((snd (getG4MaterialWithCache sample_env ''Al_sg225.ncmat''
            (initial_state :: (string, string) g4state)))
      \<lparr>material_table := (material_table (snd (getG4MaterialWithCache sample_env ''Al_sg225.ncmat''
            (initial_state :: (string, string) g4state))))[0 := None]\<rparr>))))
      = [None, Some (FromBaseMaterial 0), Some (FromComponents 1),
         Some (FromBaseMaterial 2)]"
proof -
  have 1: "map (map_option mat_name) (material_table (snd (getG4MaterialWithCache sample_env ''Al_sg225.ncmat''
            (initial_state :: (string, string) g4state))))
      = [Some ''NCrystalBaseMat::Al'', Some ''NCrystal::Al_sg225.ncmat'']"
    by code_simp
  have 2: "base_cache (snd (getG4MaterialWithCache sample_env ''Al_sg225.ncmat''
            (initial_state :: (string, string) g4state))) ''Al'' = Some 0"
    by code_simp
  have 3: "fst (getG4MaterialWithCache sample_env ''Al_sg225.ncmat;dcutoff=1.5''
    ((snd (getG4MaterialWithCache sample_env ''Al_sg225.ncmat''
            (initial_state :: (string, string) g4state)))
      \<lparr>material_table := (material_table (snd (getG4MaterialWithCache sample_env ''Al_sg225.ncmat''
            (initial_state :: (string, string) g4state))))[0 := None]\<rparr>)) = Inr 3"
    by code_simp
  have 4: "map (map_option mat_name) (material_table (snd (getG4MaterialWithCache sample_env ''Al_sg225.ncmat;dcutoff=1.5''
    ((snd (getG4MaterialWithCache sample_env ''Al_sg225.ncmat''
            (initial_state :: (string, string) g4state)))
      \<lparr>material_table := (material_table (snd (getG4MaterialWithCache sample_env ''Al_sg225.ncmat''
            (initial_state :: (string, string) g4state))))[0 := None]\<rparr>))))
      = [None, Some ''NCrystal::Al_sg225.ncmat'', Some ''NCrystalBaseMat::Al'',
         Some ''NCrystal::Al_sg225.ncmat;dcutoff=1.5'']"
    by code_simp
  have 5: "map (map_option mat_origin) (material_table (snd (getG4MaterialWithCache sample_env ''Al_sg225.ncmat;dcutoff=1.5''
    ((snd (getG4MaterialWithCache sample_env ''Al_sg225.ncmat''
            (initial_state :: (string, string) g4state)))
      \<lparr>material_table := (material_table (snd (getG4MaterialWithCache sample_env ''Al_sg225.ncmat''
            (initial_state :: (string, string) g4state))))[0 := None]\<rparr>))))
      = [None, Some (FromBaseMaterial 0), Some (FromComponents 1),
         Some (FromBaseMaterial 2)]"
    by code_simp
  show ?thesis by (intro conjI 1 2 3 4 5)
qed

section \<open>createMaterial\<close>

lemma catch_nc_exception_cases:
  "catch_nc_exception (Inr m, s) = (Returned (Some m), s)"
  "catch_nc_exception (Inl (NCException e), s)
     = (Returned None, handleError ''G4NCrystal::createMaterial'' 101 e s)"
  "catch_nc_exception (Inl StdOutOfRange, s) = (Escaped StdOutOfRange, s)"
  "catch_nc_exception (Inl AssertAbort, s) = (Escaped AssertAbort, s)"
  by (simp_all add: catch_nc_exception_def)

lemma catch_nc_exception_catches:
  "fst (catch_nc_exception x) \<noteq> Escaped (NCException e)"
proof (cases x)
  case (Pair r s)
  show ?thesis
  proof (cases r)
    case (Inl f)
    with Pair show ?thesis by (cases f) (simp_all add: catch_nc_exception_cases)
  next
    case (Inr m)
    with Pair show ?thesis by (simp add: catch_nc_exception_cases)
  qed
qed

lemma createMaterial_MatCfg_ctor:
  "MatCfg_ctor env cfgstr = Inr cfg \<Longrightarrow>
     createMaterial env cfgstr s = createMaterial_MatCfg env cfg s"
  "MatCfg_ctor env cfgstr = Inl e \<Longrightarrow>
     createMaterial env cfgstr s
       = (Returned None, handleError ''G4NCrystal::createMaterial'' 101 e s)"
  by (simp_all add: createMaterial_def createMaterial_MatCfg_def catch_nc_exception_cases)

lemma handleError_in_range:
  "caches_in_range (handleError origin code e s) = caches_in_range s"
  by (simp add: caches_in_range_def handleError_def)

lemma caches_in_range_initial: "caches_in_range initial_state"
  by (simp add: caches_in_range_def initial_state_def)

lemma createMaterial_MatCfg_in_range:
  assumes "caches_in_range s"
  shows "caches_in_range (snd (createMaterial_MatCfg env cfg s))"
proof -
  obtain r s1 where run: "getG4MaterialWithCache env cfg s = (r, s1)"
    by (cases "getG4MaterialWithCache env cfg s") auto
  from getG4_in_range[OF assms run] have r1: "caches_in_range s1" by simp
  show ?thesis
  proof (cases r)
    case (Inl f)
    with run r1 show ?thesis
      by (cases f)
         (simp_all add: createMaterial_MatCfg_def catch_nc_exception_cases handleError_in_range)
  next
    case (Inr m)
    with run r1 show ?thesis
      by (simp add: createMaterial_MatCfg_def catch_nc_exception_cases)
  qed
qed

lemma createMaterial_in_range:
  assumes "caches_in_range s"
  shows "caches_in_range (snd (createMaterial env cfgstr s))"
proof (cases "MatCfg_ctor env cfgstr")
  case (Inl e)
  with assms show ?thesis by (simp add: createMaterial_MatCfg_ctor handleError_in_range)
next
  case (Inr cfg)
  with createMaterial_MatCfg_in_range[OF assms] show ?thesis
    by (simp add: createMaterial_MatCfg_ctor)
qed

text \<open>What a call of \<open>createMaterial\<close> for a configuration object comes to.\<close>

lemma createMaterial_MatCfg_outcome:
  assumes range: "caches_in_range s" and pos: "no_assert_abort env"
  shows "(\<exists>m. fst (createMaterial_MatCfg env cfg s) = Returned (Some m)
            \<and> m < length (material_table (snd (createMaterial_MatCfg env cfg s)))
            \<and> material_table (snd (createMaterial_MatCfg env cfg s)) ! m \<noteq> None
            \<and> handled_errors (snd (createMaterial_MatCfg env cfg s)) = handled_errors s)
       \<or> (\<exists>e. fst (createMaterial_MatCfg env cfg s) = Returned None
            \<and> handled_errors (snd (createMaterial_MatCfg env cfg s))
                = handled_errors s @ [(''G4NCrystal::createMaterial'', 101, e)])"
proof -
  obtain r s1 where run: "getG4MaterialWithCache env cfg s = (r, s1)"
    by (cases "getG4MaterialWithCache env cfg s") auto
  from getG4_handled_errors[OF run] have h: "handled_errors s1 = handled_errors s" .
  show ?thesis
  proof (cases r)
    case (Inr m)
    with run have run': "getG4MaterialWithCache env cfg s = (Inr m, s1)" by simp
    from getG4_ready[OF run'] have "m < length (material_table s1)"
      "material_table s1 ! m \<noteq> None"
      by (simp_all add: cached_material_Some)
    with run' h show ?thesis
      by (simp add: createMaterial_MatCfg_def catch_nc_exception_cases)
  next
    case (Inl f)
    with run have run': "getG4MaterialWithCache env cfg s = (Inl f, s1)" by simp
    from getG4_failure_nc[OF range pos run'] obtain e where "f = NCException e" by blast
    with run' h show ?thesis
      by (simp add: createMaterial_MatCfg_def catch_nc_exception_cases handleError_fields)
  qed
qed

lemma createMaterial_outcome:
  assumes range: "caches_in_range s" and pos: "no_assert_abort env"
  shows "(\<exists>m. fst (createMaterial env cfgstr s) = Returned (Some m)
            \<and> m < length (material_table (snd (createMaterial env cfgstr s)))
            \<and> material_table (snd (createMaterial env cfgstr s)) ! m \<noteq> None
            \<and> handled_errors (snd (createMaterial env cfgstr s)) = handled_errors s)
       \<or> (\<exists>e. fst (createMaterial env cfgstr s) = Returned None
            \<and> handled_errors (snd (createMaterial env cfgstr s))
                = handled_errors s @ [(''G4NCrystal::createMaterial'', 101, e)])"
proof (cases "MatCfg_ctor env cfgstr")
  case (Inl e)
  then show ?thesis by (simp add: createMaterial_MatCfg_ctor handleError_fields)
next
  case (Inr cfg)
  with createMaterial_MatCfg_outcome[OF range pos, of cfg] show ?thesis
    by (simp add: createMaterial_MatCfg_ctor)
qed

text \<open>
  Claim C6, as the code has it. No call of \<open>createMaterial\<close>, in any of its three forms,
  is left by an NCrystal exception. The indices in the two caches lie inside the material
  table initially and after every call. In such a state, and when the \<open>assert\<close> of the
  mass-fraction loop is compiled out or holds for every info object the factory returns,
  a call either returns a material, which is a non-null entry of the material table, and
  reports nothing to the error handler, or it reports exactly one error to the error
  handler, with the origin \<open>G4NCrystal::createMaterial\<close> and the code 101, and returns
  the null pointer.
\<close>

theorem createMaterial_reports_errors:
  "(\<forall>e. fst (createMaterial env cfgstr s) \<noteq> Escaped (NCException e))
   \<and> (\<forall>e. fst (createMaterial_MatCfg env cfg s) \<noteq> Escaped (NCException e))
   \<and> createMaterial_G4String env cfgstr s = createMaterial env cfgstr s
   \<and> caches_in_range (initial_state :: ('cfg, 'sc) g4state)
   \<and> (caches_in_range s \<longrightarrow>
        caches_in_range (snd (createMaterial env cfgstr s))
        \<and> caches_in_range (snd (createMaterial_MatCfg env cfg s)))
   \<and> (caches_in_range s \<and> no_assert_abort env \<longrightarrow>
        ((\<exists>m. fst (createMaterial env cfgstr s) = Returned (Some m)
            \<and> m < length (material_table (snd (createMaterial env cfgstr s)))
            \<and> material_table (snd (createMaterial env cfgstr s)) ! m \<noteq> None
            \<and> handled_errors (snd (createMaterial env cfgstr s)) = handled_errors s)
         \<or> (\<exists>e. fst (createMaterial env cfgstr s) = Returned None
            \<and> handled_errors (snd (createMaterial env cfgstr s))
                = handled_errors s @ [(''G4NCrystal::createMaterial'', 101, e)]))
        \<and> ((\<exists>m. fst (createMaterial_MatCfg env cfg s) = Returned (Some m)
            \<and> m < length (material_table (snd (createMaterial_MatCfg env cfg s)))
            \<and> material_table (snd (createMaterial_MatCfg env cfg s)) ! m \<noteq> None
            \<and> handled_errors (snd (createMaterial_MatCfg env cfg s)) = handled_errors s)
         \<or> (\<exists>e. fst (createMaterial_MatCfg env cfg s) = Returned None
            \<and> handled_errors (snd (createMaterial_MatCfg env cfg s))
                = handled_errors s @ [(''G4NCrystal::createMaterial'', 101, e)])))"
proof (intro conjI allI impI)
  fix e
  show "fst (createMaterial env cfgstr s) \<noteq> Escaped (NCException e)"
    unfolding createMaterial_def by (rule catch_nc_exception_catches)
  show "fst (createMaterial_MatCfg env cfg s) \<noteq> Escaped (NCException e)"
    unfolding createMaterial_MatCfg_def by (rule catch_nc_exception_catches)
next
  show "createMaterial_G4String env cfgstr s = createMaterial env cfgstr s"
    by (simp add: createMaterial_G4String_def)
  show "caches_in_range (initial_state :: ('cfg, 'sc) g4state)"
    by (rule caches_in_range_initial)
next
  assume "caches_in_range s"
  then show "caches_in_range (snd (createMaterial env cfgstr s))"
    "caches_in_range (snd (createMaterial_MatCfg env cfg s))"
    by (rule createMaterial_in_range, rule createMaterial_MatCfg_in_range)
next
  assume "caches_in_range s \<and> no_assert_abort env"
  then have range: "caches_in_range s" and pos: "no_assert_abort env" by simp_all
  from createMaterial_outcome[OF range pos]
  show "(\<exists>m. fst (createMaterial env cfgstr s) = Returned (Some m)
            \<and> m < length (material_table (snd (createMaterial env cfgstr s)))
            \<and> material_table (snd (createMaterial env cfgstr s)) ! m \<noteq> None
            \<and> handled_errors (snd (createMaterial env cfgstr s)) = handled_errors s)
         \<or> (\<exists>e. fst (createMaterial env cfgstr s) = Returned None
            \<and> handled_errors (snd (createMaterial env cfgstr s))
                = handled_errors s @ [(''G4NCrystal::createMaterial'', 101, e)])" .
  from createMaterial_MatCfg_outcome[OF range pos]
  show "(\<exists>m. fst (createMaterial_MatCfg env cfg s) = Returned (Some m)
            \<and> m < length (material_table (snd (createMaterial_MatCfg env cfg s)))
            \<and> material_table (snd (createMaterial_MatCfg env cfg s)) ! m \<noteq> None
            \<and> handled_errors (snd (createMaterial_MatCfg env cfg s)) = handled_errors s)
         \<or> (\<exists>e. fst (createMaterial_MatCfg env cfg s) = Returned None
            \<and> handled_errors (snd (createMaterial_MatCfg env cfg s))
                = handled_errors s @ [(''G4NCrystal::createMaterial'', 101, e)])" .
qed

text \<open>
  The theorem in the initial state, with the sample environment, in which the \<open>assert\<close>
  is compiled out: the request for aluminium returns the material with index 1, the
  request for a file that does not exist and the empty configuration string return the
  null pointer after one report to the error handler.
\<close>

theorem createMaterial_reports_errors_witness:
  "caches_in_range (initial_state :: (string, string) g4state)
   \<and> no_assert_abort sample_env
   \<and> fst (createMaterial sample_env ''Al_sg225.ncmat''
        (initial_state :: (string, string) g4state)) = Returned (Some 1)
   \<and> fst (createMaterial sample_env ''missing.ncmat''
        (initial_state :: (string, string) g4state)) = Returned None
   \<and> handled_errors (snd (createMaterial sample_env ''missing.ncmat''
        (initial_state :: (string, string) g4state)))
      = [(''G4NCrystal::createMaterial'', 101, (FileNotFound, ''Could not find input file''))]
   \<and> fst (createMaterial sample_env ''''
        (initial_state :: (string, string) g4state)) = Returned None
   \<and> handled_errors (snd (createMaterial sample_env ''''
        (initial_state :: (string, string) g4state)))
      = [(''G4NCrystal::createMaterial'', 101, (BadInput, ''empty configuration''))]
   \<and> ((\<exists>m. fst (createMaterial sample_env ''Al_sg225.ncmat''
        (initial_state :: (string, string) g4state)) = Returned (Some m)
          \<and> m < length (material_table (snd (createMaterial sample_env ''Al_sg225.ncmat''
        (initial_state :: (string, string) g4state))))
          \<and> material_table (snd (createMaterial sample_env ''Al_sg225.ncmat''
        (initial_state :: (string, string) g4state))) ! m \<noteq> None
          \<and> handled_errors (snd (createMaterial sample_env ''Al_sg225.ncmat''
        (initial_state :: (string, string) g4state)))
              = handled_errors (initial_state :: (string, string) g4state))
       \<or> (\<exists>e. fst (createMaterial sample_env ''Al_sg225.ncmat''
        (initial_state :: (string, string) g4state)) = Returned None
          \<and> handled_errors (snd (createMaterial sample_env ''Al_sg225.ncmat''
        (initial_state :: (string, string) g4state)))
              = handled_errors (initial_state :: (string, string) g4state)
                  @ [(''G4NCrystal::createMaterial'', 101, e)]))
   \<and> ((\<exists>m. fst (createMaterial sample_env ''missing.ncmat''
        (initial_state :: (string, string) g4state)) = Returned (Some m)
          \<and> m < length (material_table (snd (createMaterial sample_env ''missing.ncmat''
        (initial_state :: (string, string) g4state))))
          \<and> material_table (snd (createMaterial sample_env ''missing.ncmat''
        (initial_state :: (string, string) g4state))) ! m \<noteq> None
          \<and> handled_errors (snd (createMaterial sample_env ''missing.ncmat''
        (initial_state :: (string, string) g4state)))
              = handled_errors (initial_state :: (string, string) g4state))
       \<or> (\<exists>e. fst (createMaterial sample_env ''missing.ncmat''
        (initial_state :: (string, string) g4state)) = Returned None
          \<and> handled_errors (snd (createMaterial sample_env ''missing.ncmat''
        (initial_state :: (string, string) g4state)))
              = handled_errors (initial_state :: (string, string) g4state)
                  @ [(''G4NCrystal::createMaterial'', 101, e)]))
   \<and> caches_in_range (snd (createMaterial sample_env ''missing.ncmat''
        (initial_state :: (string, string) g4state)))"
proof -
  have range: "caches_in_range (initial_state :: (string, string) g4state)"
    by (simp add: caches_in_range_def initial_state_def)
  have pos: "no_assert_abort sample_env"
    by (simp add: no_assert_abort_def sample_env_def)
  have e1: "fst (createMaterial sample_env ''Al_sg225.ncmat''
        (initial_state :: (string, string) g4state)) = Returned (Some 1)"
    by code_simp
  have e2: "fst (createMaterial sample_env ''missing.ncmat''
        (initial_state :: (string, string) g4state)) = Returned None"
    by code_simp
  have e3: "handled_errors (snd (createMaterial sample_env ''missing.ncmat''
        (initial_state :: (string, string) g4state)))
      = [(''G4NCrystal::createMaterial'', 101, (FileNotFound, ''Could not find input file''))]"
    by code_simp
  have e4: "fst (createMaterial sample_env ''''
        (initial_state :: (string, string) g4state)) = Returned None"
    by code_simp
  have e5: "handled_errors (snd (createMaterial sample_env ''''
        (initial_state :: (string, string) g4state)))
      = [(''G4NCrystal::createMaterial'', 101, (BadInput, ''empty configuration''))]"
    by code_simp
  note inst1 = createMaterial_reports_errors[where env = sample_env
      and s = "(initial_state :: (string, string) g4state)" and cfgstr = "''Al_sg225.ncmat''"]
  note inst2 = createMaterial_reports_errors[where env = sample_env
      and s = "(initial_state :: (string, string) g4state)" and cfgstr = "''missing.ncmat''"]
  note out1 = inst1[THEN conjunct2, THEN conjunct2, THEN conjunct2, THEN conjunct2,
      THEN conjunct2, THEN mp, OF conjI[OF range pos], THEN conjunct1]
  note out2 = inst2[THEN conjunct2, THEN conjunct2, THEN conjunct2, THEN conjunct2,
      THEN conjunct2, THEN mp, OF conjI[OF range pos], THEN conjunct1]
  note keep = inst2[THEN conjunct2, THEN conjunct2, THEN conjunct2, THEN conjunct2,
      THEN conjunct1, THEN mp, OF range, THEN conjunct1]
  show ?thesis
    by (intro conjI range pos e1 e2 e3 e4 e5 out1 out2 keep)
qed

text \<open>
  Claim C6 as the specification states it fails when assertions are compiled in and a
  component of the composition contributes no mass. The info object has no atom list and
  the composition Al 1, O 0, so the formula is empty and the elements are added by mass
  fraction; \<open>assert(mass_contrib>0.0)\<close> fails for oxygen, which aborts the process:
  \<open>createMaterial\<close> neither returns nor reports to the error handler.
\<close>

theorem createMaterial_assert_aborts:
  "\<not> ndebug debug_env
   \<and> createInfo debug_env ''AlO_nofraction.ncmat'' = Inr (sample_info [(''Al'', 1), (''O'', 0)] [])
   \<and> getChemicalFormula debug_env (sample_info [(''Al'', 1), (''O'', 0)] []) = Inr []
   \<and> fst (createMaterial debug_env ''AlO_nofraction.ncmat''
        (initial_state :: (string, string) g4state)) = Escaped AssertAbort
   \<and> handled_errors (snd (createMaterial debug_env ''AlO_nofraction.ncmat''
        (initial_state :: (string, string) g4state))) = []"
proof -
  have 1: "\<not> ndebug debug_env"
    by code_simp
  have 2: "createInfo debug_env ''AlO_nofraction.ncmat'' = Inr (sample_info [(''Al'', 1), (''O'', 0)] [])"
    by code_simp
  have 3: "getChemicalFormula debug_env (sample_info [(''Al'', 1), (''O'', 0)] []) = Inr []"
    by code_simp
  have 4: "fst (createMaterial debug_env ''AlO_nofraction.ncmat''
        (initial_state :: (string, string) g4state)) = Escaped AssertAbort"
    by code_simp
  have 5: "handled_errors (snd (createMaterial debug_env ''AlO_nofraction.ncmat''
        (initial_state :: (string, string) g4state))) = []"
    by code_simp
  show ?thesis by (intro conjI 1 2 3 4 5)
qed

section \<open>The temperature of the materials\<close>

text \<open>
  The objects that a request adds to the material table: the derived material it
  returns, and before it at most one base material.
\<close>

lemma getG4_new_materials:
  assumes run: "getG4MaterialWithCache env cfg s = (r, s')"
    and new: "length (material_table s) \<le> i" "i < length (material_table s')"
  shows "\<exists>mat. material_table s' ! i = Some mat
           \<and> ((\<exists>info b. r = Inr i \<and> createInfo env cfg = Inr info
                  \<and> mat = derived_material_ctor env cfg info b)
              \<or> (r \<noteq> Inr i \<and> mat_temp mat = 293.15 * kelvin env
                  \<and> (\<exists>k. mat_name mat = ''NCrystalBaseMat::'' @ k)))"
proof -
  from getG4_cases[OF run] show ?thesis
  proof (elim disjE conjE exE)
    assume b: "build_material env cfg s = (r, s')"
    show ?thesis
    proof (cases "factory_stage env cfg")
      case (Inl a)
      with b new show ?thesis
        by (cases a) (auto simp: build_material_stages log_calls_fields)
    next
      case (Inr a)
      obtain scatter info where a: "a = (scatter, info)" by (cases a) auto
      from Inr a have info: "createInfo env cfg = Inr info" by (simp add: factory_stage_Inr)
      let ?t = "log_calls [CreateScatter cfg, CreateInfo cfg] s"
      obtain rb s3 where g: "getBaseG4MaterialWithCache env info ?t = (rb, s3)"
        by (cases "getBaseG4MaterialWithCache env info ?t") auto
      have base: "\<exists>mat. material_table s3 ! j = Some mat
                    \<and> mat_temp mat = 293.15 * kelvin env
                    \<and> (\<exists>k. mat_name mat = ''NCrystalBaseMat::'' @ k)"
        if "length (material_table s) \<le> j" "j < length (material_table s3)" for j
      proof -
        from getBase_effect[OF g] consider
          (same) "material_table s3 = material_table ?t"
        | (built) k mat where "material_table s3 = material_table ?t @ [Some mat]"
            "mat_name mat = ''NCrystalBaseMat::'' @ k" "mat_temp mat = 293.15 * kelvin env"
          by blast
        then show ?thesis
        proof cases
          case same
          with that show ?thesis by (simp add: log_calls_fields)
        next
          case built
          with that have "j = length (material_table s)" by (simp add: log_calls_fields)
          with built show ?thesis by (simp add: log_calls_fields)
        qed
      qed
      show ?thesis
      proof (cases rb)
        case (Inl f)
        with b Inr a g have "s' = s3" "r = Inl f" by (simp_all add: build_material_stages)
        with base[of i] new show ?thesis by auto
      next
        case rb: (Inr b')
        with b Inr a g have s': "s' = register_material env cfg scatter info b' s3"
          and r: "r = Inr (length (material_table s3))"
          by (simp_all add: build_material_stages)
        show ?thesis
        proof (cases "i = length (material_table s3)")
          case True
          then have "material_table s' ! i = Some (derived_material_ctor env cfg info b')"
            by (simp add: s' register_material_fields)
          with True r info show ?thesis by blast
        next
          case False
          with new(2) have lt: "i < length (material_table s3)"
            by (simp add: s' register_material_fields)
          then have "material_table s' ! i = material_table s3 ! i"
            by (simp add: s' register_material_fields nth_append)
          with base[OF new(1) lt] False r show ?thesis by auto
        qed
      qed
    qed
  qed (use new in simp_all)
qed

text \<open>
  Claim C7. Every material that \<open>getBaseG4MaterialWithCache\<close> adds to the material
  table has the temperature 293.15 K. Every material that a request adds to the table is
  either the derived material the request returns, whose temperature is that of the info
  object of the configuration when it has one and 293.15 K when it has none, or a base
  material with the temperature 293.15 K. So a derived material whose info object has
  the temperature 293.15 K and one whose info object has no temperature have the same
  temperature, and they are equal in everything but the name when density and packing
  factor are the same.
\<close>

theorem default_temperature:
  "(\<forall>info r s' i.
       getBaseG4MaterialWithCache env info s = (r, s')
       \<and> length (material_table s) \<le> i \<and> i < length (material_table s') \<longrightarrow>
       (\<exists>mat. material_table s' ! i = Some mat \<and> mat_temp mat = 293.15 * kelvin env))
   \<and> (\<forall>cfg r s' i.
       getG4MaterialWithCache env cfg s = (r, s')
       \<and> length (material_table s) \<le> i \<and> i < length (material_table s') \<longrightarrow>
       (\<exists>mat. material_table s' ! i = Some mat
          \<and> ((\<exists>info b. r = Inr i \<and> createInfo env cfg = Inr info
                 \<and> mat = derived_material_ctor env cfg info b
                 \<and> mat_temp mat = (if hasTemperature info then getTemperature info * kelvin env
                                   else 293.15 * kelvin env))
             \<or> (r \<noteq> Inr i \<and> mat_temp mat = 293.15 * kelvin env
                 \<and> (\<exists>k. mat_name mat = ''NCrystalBaseMat::'' @ k)))))
   \<and> (\<forall>cfg (info :: Info) b.
       \<not> hasTemperature info \<longrightarrow>
       mat_temp (derived_material_ctor env cfg info b) = 293.15 * kelvin env)
   \<and> (\<forall>cfg1 cfg2 (info1 :: Info) (info2 :: Info) b.
       \<not> hasTemperature info1 \<and> hasTemperature info2 \<and> getTemperature info2 = 293.15
       \<and> getDensity info2 = getDensity info1
       \<and> get_packfact env cfg2 = get_packfact env cfg1 \<longrightarrow>
       mat_temp (derived_material_ctor env cfg2 info2 b) = 293.15 * kelvin env
       \<and> derived_material_ctor env cfg2 info2 b
           = (derived_material_ctor env cfg1 info1 b)
               \<lparr>mat_name := ''NCrystal::'' @ toStrCfg env cfg2\<rparr>)"
proof (intro conjI allI impI)
  fix info r s' i
  assume "getBaseG4MaterialWithCache env info s = (r, s')
       \<and> length (material_table s) \<le> i \<and> i < length (material_table s')"
  then show "\<exists>mat. material_table s' ! i = Some mat \<and> mat_temp mat = 293.15 * kelvin env"
    using getBase_new_materials by blast
next
  fix cfg r s' i
  assume "getG4MaterialWithCache env cfg s = (r, s')
       \<and> length (material_table s) \<le> i \<and> i < length (material_table s')"
  then have run: "getG4MaterialWithCache env cfg s = (r, s')"
    and new: "length (material_table s) \<le> i" "i < length (material_table s')"
    by simp_all
  from getG4_new_materials[OF run new] obtain mat where
    m: "material_table s' ! i = Some mat"
    and d: "(\<exists>info b. r = Inr i \<and> createInfo env cfg = Inr info
                  \<and> mat = derived_material_ctor env cfg info b)
              \<or> (r \<noteq> Inr i \<and> mat_temp mat = 293.15 * kelvin env
                  \<and> (\<exists>k. mat_name mat = ''NCrystalBaseMat::'' @ k))"
    by blast
  have t: "mat_temp (derived_material_ctor env cfg info b)
             = (if hasTemperature info then getTemperature info * kelvin env
                else 293.15 * kelvin env)" for info :: Info and b
    by (simp add: derived_material_ctor_def)
  from d have "(\<exists>info b. r = Inr i \<and> createInfo env cfg = Inr info
                 \<and> mat = derived_material_ctor env cfg info b
                 \<and> mat_temp mat = (if hasTemperature info then getTemperature info * kelvin env
                                   else 293.15 * kelvin env))
             \<or> (r \<noteq> Inr i \<and> mat_temp mat = 293.15 * kelvin env
                 \<and> (\<exists>k. mat_name mat = ''NCrystalBaseMat::'' @ k))"
    using t by blast
  with m show "\<exists>mat. material_table s' ! i = Some mat
          \<and> ((\<exists>info b. r = Inr i \<and> createInfo env cfg = Inr info
                 \<and> mat = derived_material_ctor env cfg info b
                 \<and> mat_temp mat = (if hasTemperature info then getTemperature info * kelvin env
                                   else 293.15 * kelvin env))
             \<or> (r \<noteq> Inr i \<and> mat_temp mat = 293.15 * kelvin env
                 \<and> (\<exists>k. mat_name mat = ''NCrystalBaseMat::'' @ k)))"
    by blast
next
  fix cfg b and info :: Info
  assume "\<not> hasTemperature info"
  then show "mat_temp (derived_material_ctor env cfg info b) = 293.15 * kelvin env"
    by (simp add: derived_material_ctor_def)
next
  fix cfg1 cfg2 b and info1 info2 :: Info
  assume a: "\<not> hasTemperature info1 \<and> hasTemperature info2 \<and> getTemperature info2 = 293.15
       \<and> getDensity info2 = getDensity info1
       \<and> get_packfact env cfg2 = get_packfact env cfg1"
  then show "mat_temp (derived_material_ctor env cfg2 info2 b) = 293.15 * kelvin env"
    by (simp add: derived_material_ctor_def)
  from a show "derived_material_ctor env cfg2 info2 b
           = (derived_material_ctor env cfg1 info1 b)
               \<lparr>mat_name := ''NCrystal::'' @ toStrCfg env cfg2\<rparr>"
    by (simp add: derived_material_ctor_def)
qed

text \<open>
  The theorem at aluminium requested in the initial state: the request adds the base
  material at index 0 and the derived material at index 1, both at 293.15 K (the unit
  \<open>kelvin\<close> is 1 in the sample environment). The info object of the configuration with
  \<open>temp=293.15\<close> has that temperature and the one of the configuration without has
  none, and their derived materials differ in the name only.
\<close>

theorem default_temperature_witness:
  "fst (getG4MaterialWithCache sample_env ''Al_sg225.ncmat''
        (initial_state :: (string, string) g4state)) = Inr 1
   \<and> length (material_table (initial_state :: (string, string) g4state)) = 0
     \<and> length (material_table (snd (getG4MaterialWithCache sample_env ''Al_sg225.ncmat''
        (initial_state :: (string, string) g4state)))) = 2
   \<and> map (map_option mat_temp)
       (material_table (snd (requests sample_env [''Al_sg225.ncmat'', ''Al_sg225.ncmat;temp=293.15'']
          (initial_state :: (string, string) g4state))))
      = [Some 293.15, Some 293.15, Some 293.15]
   \<and> createInfo sample_env ''Al_sg225.ncmat'' = Inr (sample_info [(''Al'', 1)] [(13, 4)])
   \<and> createInfo sample_env ''Al_sg225.ncmat;temp=293.15'' = Inr ((sample_info [(''Al'', 1)] [(13, 4)])
        \<lparr>hasTemperature := True, getTemperature := 293.15\<rparr>)
   \<and> \<not> hasTemperature (sample_info [(''Al'', 1)] [(13, 4)])
   \<and> hasTemperature ((sample_info [(''Al'', 1)] [(13, 4)])
        \<lparr>hasTemperature := True, getTemperature := 293.15\<rparr>)
   \<and> getTemperature ((sample_info [(''Al'', 1)] [(13, 4)])
        \<lparr>hasTemperature := True, getTemperature := 293.15\<rparr>) = 293.15
   \<and> getDensity ((sample_info [(''Al'', 1)] [(13, 4)])
        \<lparr>hasTemperature := True, getTemperature := 293.15\<rparr>) = getDensity (sample_info [(''Al'', 1)] [(13, 4)])
   \<and> get_packfact sample_env ''Al_sg225.ncmat;temp=293.15'' = get_packfact sample_env ''Al_sg225.ncmat''
   \<and> (\<exists>mat. material_table (snd (getG4MaterialWithCache sample_env ''Al_sg225.ncmat''
        (initial_state :: (string, string) g4state))) ! 0 = Some mat
          \<and> ((\<exists>info b. fst (getG4MaterialWithCache sample_env ''Al_sg225.ncmat''
        (initial_state :: (string, string) g4state)) = Inr 0
                 \<and> createInfo sample_env ''Al_sg225.ncmat'' = Inr info
                 \<and> mat = derived_material_ctor sample_env ''Al_sg225.ncmat'' info b
                 \<and> mat_temp mat = (if hasTemperature info
                                   then getTemperature info * kelvin sample_env
                                   else 293.15 * kelvin sample_env))
             \<or> (fst (getG4MaterialWithCache sample_env ''Al_sg225.ncmat''
        (initial_state :: (string, string) g4state)) \<noteq> Inr 0
                 \<and> mat_temp mat = 293.15 * kelvin sample_env
                 \<and> (\<exists>k. mat_name mat = ''NCrystalBaseMat::'' @ k))))
   \<and> (\<exists>mat. material_table (snd (getG4MaterialWithCache sample_env ''Al_sg225.ncmat''
        (initial_state :: (string, string) g4state))) ! 1 = Some mat
          \<and> ((\<exists>info b. fst (getG4MaterialWithCache sample_env ''Al_sg225.ncmat''
        (initial_state :: (string, string) g4state)) = Inr 1
                 \<and> createInfo sample_env ''Al_sg225.ncmat'' = Inr info
                 \<and> mat = derived_material_ctor sample_env ''Al_sg225.ncmat'' info b
                 \<and> mat_temp mat = (if hasTemperature info
                                   then getTemperature info * kelvin sample_env
                                   else 293.15 * kelvin sample_env))
             \<or> (fst (getG4MaterialWithCache sample_env ''Al_sg225.ncmat''
        (initial_state :: (string, string) g4state)) \<noteq> Inr 1
                 \<and> mat_temp mat = 293.15 * kelvin sample_env
                 \<and> (\<exists>k. mat_name mat = ''NCrystalBaseMat::'' @ k))))
   \<and> derived_material_ctor sample_env ''Al_sg225.ncmat;temp=293.15'' ((sample_info [(''Al'', 1)] [(13, 4)])
        \<lparr>hasTemperature := True, getTemperature := 293.15\<rparr>) 0
      = (derived_material_ctor sample_env ''Al_sg225.ncmat'' (sample_info [(''Al'', 1)] [(13, 4)]) 0)
          \<lparr>mat_name := ''NCrystal::'' @ toStrCfg sample_env ''Al_sg225.ncmat;temp=293.15''\<rparr>"
proof -
  have e: "fst (getG4MaterialWithCache sample_env ''Al_sg225.ncmat''
        (initial_state :: (string, string) g4state)) = Inr 1"
    by code_simp
  have len: "length (material_table (initial_state :: (string, string) g4state)) = 0
     \<and> length (material_table (snd (getG4MaterialWithCache sample_env ''Al_sg225.ncmat''
        (initial_state :: (string, string) g4state)))) = 2"
    by code_simp
  have temps: "map (map_option mat_temp)
       (material_table (snd (requests sample_env [''Al_sg225.ncmat'', ''Al_sg225.ncmat;temp=293.15'']
          (initial_state :: (string, string) g4state))))
      = [Some 293.15, Some 293.15, Some 293.15]"
    by code_simp
  have i1: "createInfo sample_env ''Al_sg225.ncmat'' = Inr (sample_info [(''Al'', 1)] [(13, 4)])"
    by code_simp
  have i2: "createInfo sample_env ''Al_sg225.ncmat;temp=293.15'' = Inr ((sample_info [(''Al'', 1)] [(13, 4)])
        \<lparr>hasTemperature := True, getTemperature := 293.15\<rparr>)"
    by code_simp
  have h1: "\<not> hasTemperature (sample_info [(''Al'', 1)] [(13, 4)])"
    by code_simp
  have h2: "hasTemperature ((sample_info [(''Al'', 1)] [(13, 4)])
        \<lparr>hasTemperature := True, getTemperature := 293.15\<rparr>)"
    by code_simp
  have h3: "getTemperature ((sample_info [(''Al'', 1)] [(13, 4)])
        \<lparr>hasTemperature := True, getTemperature := 293.15\<rparr>) = 293.15"
    by code_simp
  have h4: "getDensity ((sample_info [(''Al'', 1)] [(13, 4)])
        \<lparr>hasTemperature := True, getTemperature := 293.15\<rparr>) = getDensity (sample_info [(''Al'', 1)] [(13, 4)])"
    by code_simp
  have h5: "get_packfact sample_env ''Al_sg225.ncmat;temp=293.15'' = get_packfact sample_env ''Al_sg225.ncmat''"
    by code_simp
  define s' where "s' = snd (getG4MaterialWithCache sample_env ''Al_sg225.ncmat''
        (initial_state :: (string, string) g4state))"
  define r where "r = fst (getG4MaterialWithCache sample_env ''Al_sg225.ncmat''
        (initial_state :: (string, string) g4state))"
  have run: "getG4MaterialWithCache sample_env ''Al_sg225.ncmat''
        (initial_state :: (string, string) g4state) = (r, s')"
    by (simp add: s'_def r_def)
  have l0: "length (material_table (initial_state :: (string, string) g4state)) \<le> 0"
    and l1: "length (material_table (initial_state :: (string, string) g4state)) \<le> 1"
    using len by simp_all
  have u0: "0 < length (material_table s')" and u1: "1 < length (material_table s')"
    using len by (simp_all add: s'_def)
  note inst = default_temperature[where env = sample_env
      and s = "(initial_state :: (string, string) g4state)"]
  note step = inst[THEN conjunct2, THEN conjunct1, THEN spec, THEN spec, THEN spec, THEN spec,
      THEN mp]
  note new0 = step[OF conjI[OF run conjI[OF l0 u0]], unfolded s'_def r_def]
  note new1 = step[OF conjI[OF run conjI[OF l1 u1]], unfolded s'_def r_def]
  note same = inst[THEN conjunct2, THEN conjunct2, THEN conjunct2,
      THEN spec, THEN spec, THEN spec, THEN spec, THEN spec, THEN mp,
      OF conjI[OF h1 conjI[OF h2 conjI[OF h3 conjI[OF h4 h5]]]], THEN conjunct2]
  show ?thesis
    by (intro conjI e len[THEN conjunct1] len[THEN conjunct2] temps i1 i2 h1 h2 h3 h4 h5
        new0 new1 same[of 0])
qed

section \<open>Uniqueness of plugin names\<close>

lemma tolower_char_code:
  "(of_char (tolower_char c) :: nat)
     = (if 65 \<le> (of_char c :: nat) \<and> (of_char c :: nat) \<le> 90 then of_char c + 32
        else of_char c)"
  by (auto simp: tolower_char_def less_eq_char_def)

lemma tolower_char_eq_iff: "tolower_char x = tolower_char y \<longleftrightarrow> same_letter x y"
proof -
  have "tolower_char x = tolower_char y
          \<longleftrightarrow> (of_char (tolower_char x) :: nat) = of_char (tolower_char y)"
    by simp
  also have "\<dots> \<longleftrightarrow> same_letter x y"
    unfolding tolower_char_code same_letter_def less_eq_char_def
    by auto
  finally show ?thesis .
qed

lemma cmake_tolower_eq_iff:
  "cmake_tolower a = cmake_tolower b \<longleftrightarrow> equal_ignoring_case a b"
  unfolding cmake_tolower_def equal_ignoring_case_def
proof (induction a arbitrary: b)
  case Nil
  then show ?case by auto
next
  case (Cons x xs)
  then show ?case by (cases b) (auto simp: tolower_char_eq_iff)
qed

lemma standard_names:
  "set (all_plugin_names_lc (initial_plugin_lists BUILD_EXTRA))
     = {''stdscat'', ''stdabs'', ''stdncmat''} \<union> (if BUILD_EXTRA then {''nxslaz''} else {})"
  by (auto simp: initial_plugin_lists_def)

lemma standard_names_lowercase:
  assumes "n \<in> set (all_plugin_names_lc (initial_plugin_lists BUILD_EXTRA))"
  shows "cmake_tolower n = n"
proof -
  have "cmake_tolower ''stdscat'' = ''stdscat''" "cmake_tolower ''stdabs'' = ''stdabs''"
    "cmake_tolower ''stdncmat'' = ''stdncmat''" "cmake_tolower ''nxslaz'' = ''nxslaz''"
    by (simp_all add: cmake_tolower_def tolower_char_def less_eq_char_def)
  with assms show ?thesis
    by (auto simp: initial_plugin_lists_def split: if_splits)
qed

lemma standard_names_distinct:
  "distinct (all_plugin_names_lc (initial_plugin_lists BUILD_EXTRA))"
  by (simp add: initial_plugin_lists_def)

lemma add_plugin_Inr:
  assumes "add_plugin st e = Inr st'"
  shows "NCPlugin_NAME_lowercase e \<notin> set (all_plugin_names_lc st)
       \<and> all_plugin_names_lc st' = all_plugin_names_lc st @ [NCPlugin_NAME_lowercase e]
       \<and> NCrystal_builtin_plugin_names st'
           = NCrystal_builtin_plugin_names st @ [NCPlugin_NAME_after_subdirectory e]"
  using assms by (auto simp: add_plugin_def split: if_splits)

lemma add_plugin_duplicate:
  assumes "NCPlugin_NAME_lowercase e \<in> set (all_plugin_names_lc st)"
  shows "\<exists>err. add_plugin st e = Inl err"
  using assms by (simp add: add_plugin_def)

lemma add_plugins_Inr:
  assumes "add_plugins st es = Inr st'"
  shows "all_plugin_names_lc st' = all_plugin_names_lc st @ map NCPlugin_NAME_lowercase es
       \<and> NCrystal_builtin_plugin_names st'
           = NCrystal_builtin_plugin_names st @ map NCPlugin_NAME_after_subdirectory es
       \<and> (distinct (all_plugin_names_lc st) \<longrightarrow> distinct (all_plugin_names_lc st'))"
  using assms
proof (induction es arbitrary: st)
  case Nil
  then show ?case by simp
next
  case (Cons e es)
  from Cons.prems obtain st1 where step: "add_plugin st e = Inr st1"
    and rest: "add_plugins st1 es = Inr st'"
    by (cases "add_plugin st e") simp_all
  from add_plugin_Inr[OF step]
  have fresh: "NCPlugin_NAME_lowercase e \<notin> set (all_plugin_names_lc st)"
    and lc1: "all_plugin_names_lc st1 = all_plugin_names_lc st @ [NCPlugin_NAME_lowercase e]"
    and bn1: "NCrystal_builtin_plugin_names st1
           = NCrystal_builtin_plugin_names st @ [NCPlugin_NAME_after_subdirectory e]"
    by simp_all
  from Cons.IH[OF rest]
  have lc': "all_plugin_names_lc st' = all_plugin_names_lc st1 @ map NCPlugin_NAME_lowercase es"
    and bn': "NCrystal_builtin_plugin_names st'
           = NCrystal_builtin_plugin_names st1 @ map NCPlugin_NAME_after_subdirectory es"
    and d': "distinct (all_plugin_names_lc st1) \<longrightarrow> distinct (all_plugin_names_lc st')"
    by blast+
  have "all_plugin_names_lc st'
          = all_plugin_names_lc st @ map NCPlugin_NAME_lowercase (e # es)"
    by (simp only: lc' lc1 list.map append_Cons append_Nil append_assoc)
  moreover have "NCrystal_builtin_plugin_names st'
          = NCrystal_builtin_plugin_names st @ map NCPlugin_NAME_after_subdirectory (e # es)"
    by (simp only: bn' bn1 list.map append_Cons append_Nil append_assoc)
  moreover have "distinct (all_plugin_names_lc st) \<longrightarrow> distinct (all_plugin_names_lc st')"
  proof
    assume "distinct (all_plugin_names_lc st)"
    with fresh have "distinct (all_plugin_names_lc st1)" by (simp add: lc1)
    with d' show "distinct (all_plugin_names_lc st')" by blast
  qed
  ultimately show ?case by blast
qed

lemma configure_plugins_Inr:
  assumes "configure_plugins BUILD_EXTRA es = Inr st'"
  shows "distinct (all_plugin_names_lc st')"
    and "all_plugin_names_lc st'
           = all_plugin_names_lc (initial_plugin_lists BUILD_EXTRA)
               @ map NCPlugin_NAME_lowercase es"
    and "NCrystal_builtin_plugin_names st' = map NCPlugin_NAME_after_subdirectory es"
proof -
  from assms have run: "add_plugins (initial_plugin_lists BUILD_EXTRA) es = Inr st'"
    by (simp add: configure_plugins_def)
  from add_plugins_Inr[OF run] standard_names_distinct[of BUILD_EXTRA]
  show "distinct (all_plugin_names_lc st')" by blast
  from add_plugins_Inr[OF run]
  show "all_plugin_names_lc st'
           = all_plugin_names_lc (initial_plugin_lists BUILD_EXTRA)
               @ map NCPlugin_NAME_lowercase es"
    by blast
  from add_plugins_Inr[OF run]
  show "NCrystal_builtin_plugin_names st' = map NCPlugin_NAME_after_subdirectory es"
    by (simp add: initial_plugin_lists_def)
qed

lemma configure_plugins_two_equal:
  assumes "i < j" "j < length es"
    and "equal_ignoring_case (NCPlugin_NAME (es ! i)) (NCPlugin_NAME (es ! j))"
  shows "\<exists>err. configure_plugins BUILD_EXTRA es = Inl err"
proof (cases "configure_plugins BUILD_EXTRA es")
  case (Inl err)
  then show ?thesis by blast
next
  case (Inr st')
  from configure_plugins_Inr(1,2)[OF Inr]
  have "distinct (all_plugin_names_lc (initial_plugin_lists BUILD_EXTRA)
                    @ map NCPlugin_NAME_lowercase es)"
    by (simp only:)
  then have "distinct (map NCPlugin_NAME_lowercase es)" by simp
  with assms(1,2) have "NCPlugin_NAME_lowercase (es ! i) \<noteq> NCPlugin_NAME_lowercase (es ! j)"
    by (simp add: distinct_conv_nth)
  with assms(3) show ?thesis
    by (simp add: NCPlugin_NAME_lowercase_def cmake_tolower_eq_iff)
qed

lemma configure_plugins_standard_name:
  assumes "e \<in> set es"
    and "n \<in> set (all_plugin_names_lc (initial_plugin_lists BUILD_EXTRA))"
    and "equal_ignoring_case (NCPlugin_NAME e) n"
  shows "\<exists>err. configure_plugins BUILD_EXTRA es = Inl err"
proof (cases "configure_plugins BUILD_EXTRA es")
  case (Inl err)
  then show ?thesis by blast
next
  case (Inr st')
  from assms(3) standard_names_lowercase[OF assms(2)]
  have "NCPlugin_NAME_lowercase e = n"
    by (simp add: NCPlugin_NAME_lowercase_def cmake_tolower_eq_iff[symmetric])
  with assms(1,2) have "n \<in> set (map NCPlugin_NAME_lowercase es)"
    "n \<in> set (all_plugin_names_lc (initial_plugin_lists BUILD_EXTRA))"
    by auto
  moreover from configure_plugins_Inr(1,2)[OF Inr]
  have "distinct (all_plugin_names_lc (initial_plugin_lists BUILD_EXTRA)
                    @ map NCPlugin_NAME_lowercase es)"
    by (simp only:)
  then have "set (all_plugin_names_lc (initial_plugin_lists BUILD_EXTRA))
          \<inter> set (map NCPlugin_NAME_lowercase es) = {}"
    by simp
  ultimately show ?thesis by blast
qed

text \<open>
  Claim C8. The name of a plugin is the first line of its \<open>ncplugin_name.txt\<close> without
  the surrounding blanks, and the names already registered are held in lower case in
  \<open>all_plugin_names_lc\<close>, which starts with the names of the standard plugins. Two names
  have the same lower-case form exactly when they are equal ignoring case. An entry
  whose name in lower case is in the list ends the configuration with a fatal error,
  which is the error about multiple plugins of the same name when the entry passed the
  tests before the name is read. An entry that is accepted was not in the list; the list
  is extended by its lower-case name at the end and is otherwise as before. So a
  configuration that succeeds has a list without repetition, made of the standard names
  followed by the lower-case names of all entries in order, and a configuration in which
  two entries have names equal ignoring case, or an entry has a name equal ignoring case
  to a standard name, ends with a fatal error.
\<close>

theorem duplicate_plugin_name_rejected:
  "(NCPlugin_NAME_lowercase e1 = NCPlugin_NAME_lowercase e2
      \<longleftrightarrow> equal_ignoring_case (NCPlugin_NAME e1) (NCPlugin_NAME e2))
   \<and> set (all_plugin_names_lc (initial_plugin_lists BUILD_EXTRA))
       = {''stdscat'', ''stdabs'', ''stdncmat''} \<union> (if BUILD_EXTRA then {''nxslaz''} else {})
   \<and> (NCPlugin_NAME_lowercase e \<in> set (all_plugin_names_lc st) \<longrightarrow>
        (\<exists>err. add_plugin st e = Inl err)
        \<and> ((pluginentry_islocal e \<longrightarrow> is_absolute e)
           \<and> (\<not> pluginentry_islocal e \<longrightarrow> remote_syntax_ok e \<and> fetch_ok e)
           \<and> has_proper_sources e \<longrightarrow>
           add_plugin st e = Inl (MultiplePluginsSameName (NCPlugin_NAME e))))
   \<and> (\<forall>st'. add_plugin st e = Inr st' \<longrightarrow>
        NCPlugin_NAME_lowercase e \<notin> set (all_plugin_names_lc st)
        \<and> all_plugin_names_lc st' = all_plugin_names_lc st @ [NCPlugin_NAME_lowercase e])
   \<and> (\<forall>st'. configure_plugins BUILD_EXTRA es = Inr st' \<longrightarrow>
        distinct (all_plugin_names_lc st')
        \<and> all_plugin_names_lc st'
            = all_plugin_names_lc (initial_plugin_lists BUILD_EXTRA)
                @ map NCPlugin_NAME_lowercase es
        \<and> NCrystal_builtin_plugin_names st' = map NCPlugin_NAME_after_subdirectory es)
   \<and> (\<forall>i j. i < j \<and> j < length es
          \<and> equal_ignoring_case (NCPlugin_NAME (es ! i)) (NCPlugin_NAME (es ! j)) \<longrightarrow>
        (\<exists>err. configure_plugins BUILD_EXTRA es = Inl err))
   \<and> (\<forall>i n. i < length es
          \<and> n \<in> set (all_plugin_names_lc (initial_plugin_lists BUILD_EXTRA))
          \<and> equal_ignoring_case (NCPlugin_NAME (es ! i)) n \<longrightarrow>
        (\<exists>err. configure_plugins BUILD_EXTRA es = Inl err))"
proof (intro conjI allI impI)
  show "NCPlugin_NAME_lowercase e1 = NCPlugin_NAME_lowercase e2
      \<longleftrightarrow> equal_ignoring_case (NCPlugin_NAME e1) (NCPlugin_NAME e2)"
    by (simp add: NCPlugin_NAME_lowercase_def cmake_tolower_eq_iff)
  show "set (all_plugin_names_lc (initial_plugin_lists BUILD_EXTRA))
       = {''stdscat'', ''stdabs'', ''stdncmat''} \<union> (if BUILD_EXTRA then {''nxslaz''} else {})"
    by (rule standard_names)
next
  assume "NCPlugin_NAME_lowercase e \<in> set (all_plugin_names_lc st)"
  then show "\<exists>err. add_plugin st e = Inl err" by (rule add_plugin_duplicate)
next
  assume "NCPlugin_NAME_lowercase e \<in> set (all_plugin_names_lc st)"
    and "(pluginentry_islocal e \<longrightarrow> is_absolute e)
           \<and> (\<not> pluginentry_islocal e \<longrightarrow> remote_syntax_ok e \<and> fetch_ok e)
           \<and> has_proper_sources e"
  then show "add_plugin st e = Inl (MultiplePluginsSameName (NCPlugin_NAME e))"
    by (auto simp: add_plugin_def)
next
  fix st'
  assume "add_plugin st e = Inr st'"
  from add_plugin_Inr[OF this]
  show "NCPlugin_NAME_lowercase e \<notin> set (all_plugin_names_lc st)"
    "all_plugin_names_lc st' = all_plugin_names_lc st @ [NCPlugin_NAME_lowercase e]"
    by simp_all
next
  fix st'
  assume run: "configure_plugins BUILD_EXTRA es = Inr st'"
  show "distinct (all_plugin_names_lc st')"
    "all_plugin_names_lc st'
            = all_plugin_names_lc (initial_plugin_lists BUILD_EXTRA)
                @ map NCPlugin_NAME_lowercase es"
    "NCrystal_builtin_plugin_names st' = map NCPlugin_NAME_after_subdirectory es"
    by (rule configure_plugins_Inr[OF run])+
next
  fix i j
  assume "i < j \<and> j < length es
          \<and> equal_ignoring_case (NCPlugin_NAME (es ! i)) (NCPlugin_NAME (es ! j))"
  then show "\<exists>err. configure_plugins BUILD_EXTRA es = Inl err"
    using configure_plugins_two_equal by blast
next
  fix i n
  assume a: "i < length es
          \<and> n \<in> set (all_plugin_names_lc (initial_plugin_lists BUILD_EXTRA))
          \<and> equal_ignoring_case (NCPlugin_NAME (es ! i)) n"
  then have "es ! i \<in> set es" by simp
  with a show "\<exists>err. configure_plugins BUILD_EXTRA es = Inl err"
    using configure_plugins_standard_name by blast
qed

text \<open>
  The theorem at three configurations without the extra plugins. A plugin named
  \<open>StdScat\<close> clashes with the standard plugin \<open>stdscat\<close> and is refused with the error
  about multiple plugins of the same name. The plugins \<open>MyPlugin\<close> and \<open>myplugin\<close> (the
  second with blanks around the name in its file) have names equal ignoring case, and the
  configuration ends with that error at the second. The plugins \<open>MyPlugin\<close> and \<open>Other\<close>
  are both registered.
\<close>

theorem duplicate_plugin_name_rejected_witness:
  "NCPlugin_NAME_lowercase (sample_plugin ''StdScat'')
     \<in> set (all_plugin_names_lc (initial_plugin_lists False))
   \<and> NCPlugin_NAME (sample_plugin ''StdScat'') = ''StdScat''
   \<and> add_plugin (initial_plugin_lists False) (sample_plugin ''StdScat'')
       = Inl (MultiplePluginsSameName (NCPlugin_NAME (sample_plugin ''StdScat'')))
   \<and> equal_ignoring_case
        (NCPlugin_NAME ([sample_plugin ''MyPlugin'', sample_plugin '' myplugin ''] ! 0))
        (NCPlugin_NAME ([sample_plugin ''MyPlugin'', sample_plugin '' myplugin ''] ! 1))
   \<and> (\<exists>err. configure_plugins False [sample_plugin ''MyPlugin'', sample_plugin '' myplugin '']
                = Inl err)
   \<and> configure_plugins False [sample_plugin ''MyPlugin'', sample_plugin '' myplugin '']
       = Inl (MultiplePluginsSameName ''myplugin'')
   \<and> configure_plugins False [sample_plugin ''MyPlugin'', sample_plugin ''Other'']
       = Inr \<lparr> all_plugin_names_lc =
                 [''stdscat'', ''stdabs'', ''stdncmat'', ''myplugin'', ''other''],
               NCrystal_builtin_plugin_names = [''MyPlugin'', ''Other''] \<rparr>"
proof -
  let ?es = "[sample_plugin ''MyPlugin'', sample_plugin '' myplugin '']"
  have mem: "NCPlugin_NAME_lowercase (sample_plugin ''StdScat'')
     \<in> set (all_plugin_names_lc (initial_plugin_lists False))"
    by code_simp
  have name: "NCPlugin_NAME (sample_plugin ''StdScat'') = ''StdScat''"
    by code_simp
  have guards: "(pluginentry_islocal (sample_plugin ''StdScat'')
                   \<longrightarrow> is_absolute (sample_plugin ''StdScat''))
           \<and> (\<not> pluginentry_islocal (sample_plugin ''StdScat'')
                \<longrightarrow> remote_syntax_ok (sample_plugin ''StdScat'')
                    \<and> fetch_ok (sample_plugin ''StdScat''))
           \<and> has_proper_sources (sample_plugin ''StdScat'')"
    by (simp add: sample_plugin_def)
  have eq: "equal_ignoring_case (NCPlugin_NAME (?es ! 0)) (NCPlugin_NAME (?es ! 1))"
    by code_simp
  have lt: "(0::nat) < 1" and len: "1 < length ?es" by simp_all
  have ev1: "configure_plugins False ?es = Inl (MultiplePluginsSameName ''myplugin'')"
    by code_simp
  have ev2: "configure_plugins False [sample_plugin ''MyPlugin'', sample_plugin ''Other'']
       = Inr \<lparr> all_plugin_names_lc =
                 [''stdscat'', ''stdabs'', ''stdncmat'', ''myplugin'', ''other''],
               NCrystal_builtin_plugin_names = [''MyPlugin'', ''Other''] \<rparr>"
    by code_simp
  note inst = duplicate_plugin_name_rejected[where e = "sample_plugin ''StdScat''"
      and st = "initial_plugin_lists False" and BUILD_EXTRA = False and es = ?es]
  note refused = inst[THEN conjunct2, THEN conjunct2, THEN conjunct1, THEN mp, OF mem,
      THEN conjunct2, THEN mp, OF guards]
  note two = inst[THEN conjunct2, THEN conjunct2, THEN conjunct2, THEN conjunct2,
      THEN conjunct2, THEN conjunct1, THEN spec, THEN spec, THEN mp,
      OF conjI[OF lt conjI[OF len eq]]]
  show ?thesis
    by (intro conjI mem name refused eq two ev1 ev2)
qed

end
